theory Spec2Isabelle
  imports Complex_Main "HOL-Library.Word"
begin

section \<open>Guidance and control core of Attitude.cpp\<close>

text \<open>
  A shallow embedding of the TLAB guidance functions of \<^verbatim>\<open>Attitude.cpp\<close>:
  the throttle law and its thrust inversion, the line, circle and combined trackers,
  the two-dimensional path generator and the gain-scheduled path follower, and the
  yaw stage that writes the rudder command.

  Conventions of the model.
  \<^item> In the controllers a C \<^verbatim>\<open>float\<close> or \<^verbatim>\<open>double\<close> is a \<^typ>\<open>real\<close>, without rounding,
    infinities or NaN. Where the C code would divide by zero, HOL's total division gives 0;
    the blocks whose claims are about division by zero therefore also return the list of
    the denominators they divide by, in program order.
  \<^item> Two places are modelled more closely, because the behaviour in question depends on it.
    The thrust inversion \<^verbatim>\<open>thrust_to_percent\<close> rounds the result of every single-precision
    operation to 24 significant bits (\<open>float32\<close>). The curvature of the Lissajous
    primitive and the membership block of the path follower are given a second time over
    values that can be infinite or NaN (\<open>cfloat\<close>), with the comparisons of IEEE 754.
  \<^item> \<^verbatim>\<open>int32_t\<close> and the other integer members are \<^typ>\<open>int\<close>; the microsecond clock is a
    \<^typ>\<open>64 word\<close>; a narrowing to \<^verbatim>\<open>int16_t\<close> is written out through \<^typ>\<open>16 word\<close>.
    The declarations of the members are not part of the source file: the counters
    \<open>err_count\<close> and \<open>i_zeta\<close> are unbounded integers, \<open>past_time_Th\<close> is as wide as the
    clock, and a float that does not fit \<^verbatim>\<open>int32_t\<close> (undefined in C++) is truncated without
    wrap-around.
  \<^item> A C array is a function from its index.
  \<^item> The members of \<^verbatim>\<open>Plane\<close> that these functions read or write are the fields of the
    record \<open>plane\<close>; what the functions read from the rest of the vehicle (sensors, the
    clock, the waypoints, the parameter block \<^verbatim>\<open>g\<close>, the geodesy helpers) is the record
    \<open>env\<close>, one value per control cycle.
  \<^item> A function that may not return (the arc-length search) has an \<open>option\<close> result;
    \<open>None\<close> is "does not return".
\<close>

subsection \<open>Library helpers that the source calls\<close>

text \<open>Modelled from the spec: \<^verbatim>\<open>constrain_float\<close> (AP\_Math, not part of the source
  file) clamps its first argument to the closed range given by the other two.\<close>

definition constrain_float :: "real \<Rightarrow> real \<Rightarrow> real \<Rightarrow> real" where
  "constrain_float amt low high = (if amt < low then low else if amt > high then high else amt)"

text \<open>Modelled from the spec: \<^verbatim>\<open>constrain_int32\<close> (AP\_Math) is the same clamp on
  \<^verbatim>\<open>int32_t\<close>.\<close>

definition constrain_int32 :: "int \<Rightarrow> int \<Rightarrow> int \<Rightarrow> int" where
  "constrain_int32 amt low high = (if amt < low then low else if amt > high then high else amt)"

text \<open>Modelled from the spec: \<^verbatim>\<open>constrain_int16\<close> (AP\_Math) takes \<^verbatim>\<open>int16_t\<close>
  arguments, so an \<^verbatim>\<open>int32_t\<close> argument is first narrowed to 16 bits (two's complement),
  then clamped.\<close>

definition to_int16 :: "int \<Rightarrow> int" where
  "to_int16 v = sint (word_of_int v :: 16 word)"

definition constrain_int16 :: "int \<Rightarrow> int \<Rightarrow> int \<Rightarrow> int" where
  "constrain_int16 amt low high =
     (let a = to_int16 amt; l = to_int16 low; h = to_int16 high
      in if a < l then l else if a > h then h else a)"

text \<open>Modelled from the spec: \<^verbatim>\<open>wrap_PI\<close> normalises an angle to \<open>(-\<pi>, \<pi>]\<close> and
  \<^verbatim>\<open>wrap_2PI\<close> to \<open>[0, 2\<pi>)\<close> (AP\_Math).\<close>

definition wrap_PI :: "real \<Rightarrow> real" where
  "wrap_PI a = a - 2 * pi * of_int \<lceil>(a - pi) / (2 * pi)\<rceil>"

definition wrap_2PI :: "real \<Rightarrow> real" where
  "wrap_2PI a = a - 2 * pi * of_int \<lfloor>a / (2 * pi)\<rfloor>"

text \<open>The C library's \<^verbatim>\<open>atan2f\<close>, by quadrant.\<close>

definition atan2f :: "real \<Rightarrow> real \<Rightarrow> real" where
  "atan2f yv xv =
     (if xv > 0 then arctan (yv / xv)
      else if xv < 0 \<and> yv \<ge> 0 then arctan (yv / xv) + pi
      else if xv < 0 then arctan (yv / xv) - pi
      else if yv > 0 then pi / 2
      else if yv < 0 then - (pi / 2)
      else 0)"

text \<open>\<^verbatim>\<open>static_cast<int32_t>\<close> of a float truncates towards zero.\<close>

definition float_to_int32 :: "real \<Rightarrow> int" where
  "float_to_int32 v = (if 0 \<le> v then \<lfloor>v\<rfloor> else \<lceil>v\<rceil>)"

text \<open>C's integer division truncates towards zero.\<close>

definition c_div :: "int \<Rightarrow> int \<Rightarrow> int" where
  "c_div a b = sgn a * sgn b * (\<bar>a\<bar> div \<bar>b\<bar>)"

subsection \<open>Single-precision rounding\<close>

text \<open>Rounding of a real number to an integer, to the nearest one and to the even one of
  two that are equally near.\<close>

definition rne :: "real \<Rightarrow> int" where
  "rne y = (let f = \<lfloor>y\<rfloor>; d = y - of_int f
            in if d < 1 / 2 then f else if 1 / 2 < d then f + 1 else if even f then f else f + 1)"

text \<open>The value of a C \<^verbatim>\<open>float\<close> that holds the exact result \<open>x\<close> of an operation: \<open>x\<close>
  rounded to 24 significant bits, to nearest and ties to even. With
  \<open>2 ^ k \<le> \<bar>x\<bar> < 2 ^ (k + 1)\<close> the floats near \<open>x\<close> are the multiples of \<open>2 ^ (k - 23)\<close>.
  The exponent is not bounded: overflow to infinity and the subnormal numbers are not
  modelled.\<close>

definition float32 :: "real \<Rightarrow> real" where
  "float32 x = (if x = 0 then 0
                else let u = 2 powi (\<lfloor>log 2 \<bar>x\<bar>\<rfloor> - 23) in of_int (rne (x / u)) * u)"

text \<open>\<open>x\<close> is \<open>y\<close> up to the relative error \<open>d\<close>.\<close>

definition rel_near :: "real \<Rightarrow> real \<Rightarrow> real \<Rightarrow> bool" where
  "rel_near d x y = (y * (1 - d) \<le> x \<and> x \<le> y * (1 + d))"

subsection \<open>Floats with infinities and NaN\<close>

text \<open>An IEEE 754 value without rounding: a finite real, an infinity or NaN. A zero has
  no sign, so \<open>x / 0\<close> has the sign of \<open>x\<close>. Every operation with a NaN operand gives NaN,
  and every comparison with a NaN operand is false.\<close>

datatype cfloat = Fin real | PInf | NInf | NaN

fun f_neg :: "cfloat \<Rightarrow> cfloat" where
  "f_neg (Fin a) = Fin (- a)"
| "f_neg PInf = NInf"
| "f_neg NInf = PInf"
| "f_neg NaN = NaN"

fun f_add :: "cfloat \<Rightarrow> cfloat \<Rightarrow> cfloat" where
  "f_add (Fin a) (Fin b) = Fin (a + b)"
| "f_add NaN _ = NaN"
| "f_add _ NaN = NaN"
| "f_add PInf NInf = NaN"
| "f_add NInf PInf = NaN"
| "f_add PInf _ = PInf"
| "f_add _ PInf = PInf"
| "f_add NInf _ = NInf"
| "f_add _ NInf = NInf"

definition f_sub :: "cfloat \<Rightarrow> cfloat \<Rightarrow> cfloat" where
  "f_sub x y = f_add x (f_neg y)"

text \<open>The sign of a value that is not NaN: 1, 0 or -1.\<close>

fun f_sign :: "cfloat \<Rightarrow> int" where
  "f_sign (Fin a) = (if a > 0 then 1 else if a < 0 then - 1 else 0)"
| "f_sign PInf = 1"
| "f_sign NInf = - 1"
| "f_sign NaN = 0"

definition f_inf :: "int \<Rightarrow> cfloat" where
  "f_inf sg = (if sg = 0 then NaN else if sg > 0 then PInf else NInf)"

fun f_mul :: "cfloat \<Rightarrow> cfloat \<Rightarrow> cfloat" where
  "f_mul (Fin a) (Fin b) = Fin (a * b)"
| "f_mul NaN _ = NaN"
| "f_mul _ NaN = NaN"
| "f_mul x y = f_inf (f_sign x * f_sign y)"

fun f_div :: "cfloat \<Rightarrow> cfloat \<Rightarrow> cfloat" where
  "f_div (Fin a) (Fin b) = (if b \<noteq> 0 then Fin (a / b) else f_inf (f_sign (Fin a)))"
| "f_div NaN _ = NaN"
| "f_div _ NaN = NaN"
| "f_div (Fin a) _ = Fin 0"
| "f_div x (Fin b) = f_inf (f_sign x * (if b < 0 then - 1 else 1))"
| "f_div _ _ = NaN"

fun f_less :: "cfloat \<Rightarrow> cfloat \<Rightarrow> bool" where
  "f_less (Fin a) (Fin b) = (a < b)"
| "f_less NaN _ = False"
| "f_less _ NaN = False"
| "f_less NInf NInf = False"
| "f_less NInf _ = True"
| "f_less _ NInf = False"
| "f_less PInf _ = False"
| "f_less _ PInf = True"

fun f_eq :: "cfloat \<Rightarrow> cfloat \<Rightarrow> bool" where
  "f_eq NaN _ = False"
| "f_eq _ NaN = False"
| "f_eq x y = (x = y)"

fun f_cos :: "cfloat \<Rightarrow> cfloat" where
  "f_cos (Fin a) = Fin (cos a)"
| "f_cos _ = NaN"

fun f_sin :: "cfloat \<Rightarrow> cfloat" where
  "f_sin (Fin a) = Fin (sin a)"
| "f_sin _ = NaN"

subsection \<open>Data\<close>

record location =
  lat :: int
  lng :: int
  alt :: int

text \<open>A \<^verbatim>\<open>Vector2f\<close> is the pair of its \<^verbatim>\<open>x\<close> and \<^verbatim>\<open>y\<close>.\<close>

type_synonym vector2f = "real \<times> real"

text \<open>The parameter block \<^verbatim>\<open>g\<close>: the \<^verbatim>\<open>TPARAM_*\<close> entries that the functions read.\<close>

record params =
  TPARAM_pdc_height_d1_Th :: real
  TPARAM_pdc_height_d2_Th :: real
  TPARAM_height_kp0_Th :: real
  TPARAM_height_kp1_Th :: real
  TPARAM_height_kd0_Th :: real
  TPARAM_height_kd1_Th :: real
  TPARAM_motor_neutral_Th :: real
  TPARAM_cha_pow :: int
  TPARAM_theta_a :: real
  TPARAM_V_a :: real
  TPARAM_c_alt :: int
  TPARAM_neutral_t :: real
  TPARAM_MAX_slo :: int
  TPARAM_Bar_Control_Mode :: int
  TPARAM_center_lat :: int
  TPARAM_center_lng :: int
  TPARAM_control_mode :: int
  TPARAM_calc_GCRS :: int
  TPARAM_k :: real
  TPARAM_Va :: real
  TPARAM_Vg_min :: real
  TPARAM_Vg_max :: real
  TPARAM_alpha_min :: real
  TPARAM_alpha_max :: real
  TPARAM_r_min :: real
  TPARAM_R :: real
  TPARAM_U_min :: real
  TPARAM_U_max :: real
  TPARAM_rule_num :: int
  TPARAM_phi_max :: real
  TPARAM_F11 :: real
  TPARAM_F12 :: real
  TPARAM_F21 :: real
  TPARAM_F22 :: real
  TPARAM_F31 :: real
  TPARAM_F32 :: real
  TPARAM_F41 :: real
  TPARAM_F42 :: real
  TPARAM_Combine :: int
  TPARAM_alternate :: int
  TPARAM_change_y :: real
  TPARAM_orbit_num :: real
  TPARAM_switch_mo :: int
  TPARAM_control_a :: real
  TPARAM_control_b :: real
  TPARAM_control_p :: real
  TPARAM_L_1 :: real
  TPARAM_servo_neutral :: real
  TPARAM_v_a :: real
  TPARAM_k_prop_const :: real
  TPARAM_Flight_Plan :: int
  TPARAM_Fx1 :: real
  TPARAM_Fx2 :: real
  TPARAM_Fx3 :: real
  TPARAM_Fchi1_1 :: real
  TPARAM_Fchi1_2 :: real
  TPARAM_Fchi1_3 :: real
  TPARAM_Fchi2_1 :: real
  TPARAM_Fchi2_2 :: real
  TPARAM_Fchi2_3 :: real
  TPARAM_Fchi3_1 :: real
  TPARAM_Fchi3_2 :: real
  TPARAM_Fchi3_3 :: real
  TPARAM_Fchi4_1 :: real
  TPARAM_Fchi4_2 :: real
  TPARAM_Fchi4_3 :: real
  TPARAM_v_g_min :: real
  TPARAM_v_g_max :: real
  TPARAM_kappa_max :: real
  TPARAM_kappa_min :: real
  TPARAM_u_x_max :: real
  TPARAM_chiF_max_deg :: real
  TPARAM_Path_Origin_lat :: int
  TPARAM_Path_Origin_lng :: int
  TPARAM_r :: real
  TPARAM_dzeta :: real

text \<open>What one control cycle reads from outside these functions. \<^verbatim>\<open>get_distance\<close>,
  \<^verbatim>\<open>get_bearing_cd\<close> and \<^verbatim>\<open>location_diff\<close> are geodesy helpers of the vehicle
  library; they are parameters of the model.\<close>

record env =
  g :: params
  micros64 :: "64 word"
  current_loc :: location
  prev_WP_loc :: location
  next_WP_loc :: location
  ahrs_pitch :: real
  ahrs_yaw :: real
  ahrs_yaw_sensor :: int
  ahrs_gyro_y :: real
  gps_velocity_z :: real
  gps_ground_course_cd :: int
  gps_ground_course :: real
  gps_ground_speed :: real
  mission_current_nav_index :: int
  get_distance :: "location \<Rightarrow> location \<Rightarrow> real"
  get_bearing_cd :: "location \<Rightarrow> location \<Rightarrow> int"
  location_diff :: "location \<Rightarrow> location \<Rightarrow> vector2f"

text \<open>The members of \<^verbatim>\<open>Plane\<close> used by the modelled functions. \<open>gcs_messages\<close> is the
  text sent by \<^verbatim>\<open>gcs_send_text_fmt\<close>, oldest first.\<close>

record plane =
  z :: real
  z_r :: real
  firsttime_Th :: bool
  z_old :: int
  pitch_old :: real
  dz :: real
  err_count :: int
  prev_time_Th :: "64 word"
  past_time_Th :: "64 word"
  d1_Th :: real
  d2_Th :: real
  kp_Th :: "nat \<Rightarrow> real"
  kd_Th :: "nat \<Rightarrow> real"
  motor_neutral :: real
  dz_f :: real
  d_pitch :: real
  speed_pitch :: real
  e_m :: real
  de_m :: real
  gps_dh :: real
  gps_dpitch :: real
  motor_Th_N :: real
  F1 :: real
  F2 :: real
  F3 :: real
  F4 :: real
  h_0 :: real
  h_1 :: real
  h_2 :: real
  h_3 :: real
  h_4 :: real
  h_5 :: real
  h_6 :: real
  h_7 :: real
  motor_per :: real
  airpower :: real
  kk :: real
  value1 :: int
  value2 :: int
  TLAB_CMD_index :: int
  steering_control_rudder :: int
  init_TLAB_Controller_flag :: bool
  Target_Circle_Center :: location
  TLAB_Control_flag :: int
  calc_GCRS_flag :: int
  const_k :: real
  v_a :: real
  Vg_min :: real
  Vg_max :: real
  alpha_min :: real
  alpha_max :: real
  r_min :: real
  target_R :: real
  U_min :: real
  U_max :: real
  use_fuzzy_controller :: bool
  rule_num :: int
  phi_max :: real
  F_fuzzy :: "nat \<Rightarrow> nat \<Rightarrow> real"
  Combine_Mode_flag :: bool
  TLAB_WP_nav_flag :: bool
  alternate_orbit_flag :: bool
  change_to_circle_flag :: bool
  change_y :: real
  orbit_num :: real
  init_TLAB_Controller_AUTO_flag :: bool
  prev_POS :: location
  mid_POS :: location
  theta :: real
  prev_theta :: real
  Int_theta :: real
  chi :: real
  h_mem :: "nat \<Rightarrow> real"
  v_g :: real
  Dist_currWP2UAV :: real
  rad_prevWP2UAV :: real
  rad_prevWP2currWP :: real
  state_UAV_x :: real
  state_UAV_y :: real
  state_UAV_phi :: real
  state_UAV_GCRS :: real
  Vg_limited :: real
  u_star :: real
  alpha :: real
  L_conv :: real
  sinc_kai :: real
  det_a :: real
  det_b :: real
  det_p :: real
  L_1 :: real
  eta :: real
  u :: real
  servo :: int
  arg_r :: real
  diff_theta :: real
  chi_r :: real
  e_r :: real
  e_chi :: real
  phi :: real
  r_limited :: real
  yet_init :: bool
  k_prop_const :: real
  Path_Origin :: location
  Flight_Plan :: int
  Fx :: "nat \<Rightarrow> real"
  Fchi :: "nat \<Rightarrow> nat \<Rightarrow> real"
  v_g_min :: real
  v_g_max :: real
  kappa_max :: real
  kappa_min :: real
  u_x_max :: real
  chiF_max :: real
  z1_max :: real
  z1_min :: real
  z2_max :: real
  z2_min :: real
  Path_Mode :: int
  s :: real
  zeta :: real
  P0 :: vector2f
  P1 :: vector2f
  dist_WPs :: real
  i_now_CMD :: int
  u_x :: real
  t_now :: "64 word"
  change_path_flag :: bool
  dot_zeta :: real
  dt :: real
  x_d :: real
  y_d :: real
  chi_d :: real
  dot_chi_d :: real
  kappa :: real
  s_calc :: real
  i_zeta :: int
  xI :: real
  yI :: real
  psi :: real
  xF :: real
  yF :: real
  chiF :: real
  u_x_calc :: real
  K1 :: real
  K2 :: real
  M1 :: real
  M2 :: real
  h_chi :: "nat \<Rightarrow> real"
  u_chi :: real
  ds :: real
  d_angle :: int
  bar_angle :: real
  gcs_messages :: "string list"

subsection \<open>Thrust to actuator percentage\<close>

text \<open>The equilibrium thrust of \<^verbatim>\<open>thrust_to_percent\<close> and of the throttle law, as a real
  number.\<close>

definition equilibrium_thrust :: "params \<Rightarrow> real" where
  "equilibrium_thrust p =
     (1 / cos (TPARAM_theta_a p * pi / 180))
       * (0.1059 * TPARAM_V_a p * TPARAM_V_a p - 0.3342 * TPARAM_V_a p + 1.6227)"

text \<open>\<^verbatim>\<open>Plane::thrust_to_percent\<close>, in single precision. The locals \<^verbatim>\<open>a\<close> and \<^verbatim>\<open>c\<close> are
  \<^verbatim>\<open>float\<close>, and so are the argument, the parameter \<^verbatim>\<open>TPARAM_neutral_t\<close> and (their
  declarations are not in the source file) the members \<open>airpower\<close> and \<open>kk\<close>: every product,
  sum, difference and quotient of these, and \<^verbatim>\<open>sqrtf\<close>, is rounded by \<open>float32\<close>, in the
  order in which C++ evaluates the expressions, and so is the conversion of the clamped
  \<^verbatim>\<open>int32_t\<close> to the \<^verbatim>\<open>float\<close> that is returned. The right-hand side of \<open>airpower\<close> mixes
  \<^verbatim>\<open>cosf\<close> with \<^verbatim>\<open>double\<close> constants; it is taken exactly and rounded once, when it is
  stored. \<^verbatim>\<open>sqrtf\<close> of a negative radicand is NaN and its conversion to \<^verbatim>\<open>int32_t\<close> is
  undefined in C++; the model has HOL's \<open>sqrt\<close> there, a negative number, which the clamp
  turns into 0.\<close>

definition thrust_to_percent :: "env \<Rightarrow> real \<Rightarrow> plane \<Rightarrow> real \<times> plane" where
  "thrust_to_percent e thrust st =
     (let a = float32 0.002287471638222;
          c = float32 0.069756864241495;
          airpower' = float32 (equilibrium_thrust (g e));
          kk' = float32 (airpower'
                  / float32 (float32 (float32 (a * TPARAM_neutral_t (g e)) * TPARAM_neutral_t (g e)) + c));
          val = float_to_int32
                  (float32 (sqrt (float32 (float32 (thrust - float32 (c * kk')) / float32 (a * kk')))));
          st1 = st\<lparr>airpower := airpower', kk := kk', value1 := val\<rparr>;
          st2 = (if value1 st1 < 0 then st1\<lparr>value2 := 0\<rparr>
                 else if value1 st1 > 80 then st1\<lparr>value2 := 80\<rparr>
                 else st1\<lparr>value2 := value1 st1\<rparr>)
      in if thrust < 0.3256 then (0, st2)
         else (float32 (of_int (constrain_int32 val 0 (TPARAM_MAX_slo (g e)))), st2))"

subsection \<open>Altitude and throttle law\<close>

text \<open>\<^verbatim>\<open>switch_controller_alt\<close>: the feedback gains \<open>f[8][4]\<close> and the scheduling ranges
  \<open>z[3][2]\<close> (maximum first, minimum second) selected by the controller number.\<close>

definition switch_controller_alt :: "int \<Rightarrow> real list list \<times> real list list" where
  "switch_controller_alt number_controller_alt =
     (if number_controller_alt = 1 then
        ([[0.24887, 3.8117, -0.014127, 0.24208],
          [0.2156, 3.5863, -0.036707, 0.20848],
          [0.20803, 4.1414, -0.0020214, 0.21848],
          [0.17783, 3.8637, -0.026582, 0.17963],
          [0.16185, 4.549, 0.015949, 0.164],
          [0.15125, 3.97, -0.019482, 0.15579],
          [0.10078, 4.7296, 0.047139, 0.19323],
          [0.1166, 4.0331, -0.0075814, 0.13821]],
         [[-0.19956, -0.80692], [13.9932, 10.2479], [0.31838, 0.073926]])
      else if number_controller_alt = 2 then
        ([[0.99609, 4.3079, 0.085038, 0.29888],
          [0.82427, 4.8389, 0.056465, 0.26573],
          [0.93049, 5.3483, 0.087198, 0.29675],
          [0.7685, 5.1532, 0.056999, 0.25737],
          [0.78918, 6.2386, 0.089284, 0.26875],
          [0.63431, 5.6553, 0.054239, 0.22551],
          [0.60786, 6.5665, 0.10033, 0.24711],
          [0.54911, 5.8333, 0.05316, 0.21386]],
         [[-0.19956, -0.80692], [13.9932, 10.2479], [0.31838, 0.073926]])
      else if number_controller_alt = 3 then
        ([[1.1101, 2.7506, 0.062397, 0.22145],
          [1.1221, 3.1775, 0.057379, 0.22023],
          [1.1661, 3.7206, 0.065712, 0.23362],
          [1.1288, 3.8152, 0.058197, 0.22173],
          [0.92763, 4.9578, 0.057638, 0.19507],
          [0.88139, 4.6416, 0.049835, 0.1845],
          [0.78222, 4.9678, 0.056559, 0.1849],
          [0.79436, 4.6206, 0.047368, 0.17421]],
         [[-0.19956, -0.80692], [13.2529, 11.1097], [0.25977, 0.13707]])
      else
        ([[0.39106, 2.2661, -0.25992, 0.16117],
          [0.35661, 2.1644, -0.29158, 0.15248],
          [0.31853, 2.5284, -0.1838, 0.16855],
          [0.27446, 2.4481, -0.20659, 0.14603],
          [0.27142, 2.8615, -0.080487, 0.077737],
          [0.26178, 2.6207, -0.20091, 0.10142],
          [0.23188, 2.9284, -0.065439, 0.18728],
          [0.19221, 2.7164, -0.11955, 0.13071]],
         [[-0.19956, -0.80692], [13.2529, 11.1097], [0.25977, 0.13707]]))"

text \<open>The membership pair of one scheduling variable \<open>zv\<close> with range \<open>[zmin, zmax]\<close>,
  as the LMI law computes \<^verbatim>\<open>mem_M\<close>, \<^verbatim>\<open>mem_N\<close> and \<^verbatim>\<open>mem_L\<close>.\<close>

definition lmi_pair :: "real list \<Rightarrow> real \<Rightarrow> real list" where
  "lmi_pair maxmin zv =
     [constrain_float ((maxmin ! 0 - zv) / (maxmin ! 0 - maxmin ! 1)) 0 1,
      constrain_float ((zv - maxmin ! 1) / (maxmin ! 0 - maxmin ! 1)) 0 1]"

text \<open>The eight weights \<^verbatim>\<open>h[0..7]\<close>: the triple loop over \<open>i\<close>, \<open>j\<close>, \<open>k\<close> in this
  order, \<^verbatim>\<open>h[num_loop] = mem_M[i]*mem_N[j]*mem_L[k]\<close>.\<close>

definition lmi_weights :: "real list list \<Rightarrow> real \<Rightarrow> real \<Rightarrow> real \<Rightarrow> real list" where
  "lmi_weights maxmin_z z1 z2 z3 =
     (let mem_M = lmi_pair (maxmin_z ! 0) z1;
          mem_N = lmi_pair (maxmin_z ! 1) z2;
          mem_L = lmi_pair (maxmin_z ! 2) z3
      in concat (map (\<lambda>i. concat (map (\<lambda>j. map (\<lambda>k. mem_M ! i * mem_N ! j * mem_L ! k)
                                                  [0 ..< 2]) [0 ..< 2])) [0 ..< 2]))"

text \<open>The first call latches the start values and the gains.\<close>

definition throttle_first_time :: "env \<Rightarrow> plane \<Rightarrow> plane" where
  "throttle_first_time e st =
     (if firsttime_Th st then
        st\<lparr>firsttime_Th := False,
           z_old := alt (current_loc e),
           pitch_old := ahrs_pitch e,
           dz := 0,
           err_count := 0,
           prev_time_Th := micros64 e,
           d1_Th := TPARAM_pdc_height_d1_Th (g e),
           d2_Th := TPARAM_pdc_height_d2_Th (g e),
           kp_Th := (\<lambda>i. if i = 0 then TPARAM_height_kp0_Th (g e) else
                           if i = 1 then TPARAM_height_kp1_Th (g e) else kp_Th st i),
           kd_Th := (\<lambda>i. if i = 0 then TPARAM_height_kd0_Th (g e) else
                           if i = 1 then TPARAM_height_kd1_Th (g e) else kd_Th st i),
           motor_neutral := TPARAM_motor_neutral_Th (g e)\<rparr>
      else st)"

text \<open>The backward differences of altitude and pitch. The second component lists the
  denominators of the divisions that the block executes.\<close>

definition throttle_rate_update :: "env \<Rightarrow> plane \<Rightarrow> plane \<times> real list" where
  "throttle_rate_update e st =
     (let z_cm = alt (current_loc e);
          current_time_Th = micros64 e;
          st1 = st\<lparr>past_time_Th := current_time_Th - prev_time_Th st\<rparr>;
          past_time_Th_f = real (unat (past_time_Th st1)) * 0.000001
      in if past_time_Th st1 = 0 then
           (st1\<lparr>err_count := err_count st1 + 1,
                z_old := z_cm,
                pitch_old := ahrs_pitch e,
                prev_time_Th := current_time_Th\<rparr>, [])
         else
           (let dz_int = z_cm - z_old st1;
                st2 = st1\<lparr>dz_f := of_int dz_int\<rparr>;
                st3 = st2\<lparr>d_pitch := ahrs_pitch e - pitch_old st2\<rparr>;
                st4 = st3\<lparr>dz := dz_f st3 * 0.01 / past_time_Th_f\<rparr>;
                st5 = st4\<lparr>speed_pitch := d_pitch st4 / past_time_Th_f\<rparr>
            in (st5\<lparr>z_old := z_cm,
                    pitch_old := ahrs_pitch e,
                    prev_time_Th := current_time_Th\<rparr>, [past_time_Th_f, past_time_Th_f])))"

text \<open>The eight-rule LMI law (\<^verbatim>\<open>TPARAM_cha_pow == 6\<close>).\<close>

definition throttle_lmi :: "env \<Rightarrow> plane \<Rightarrow> plane" where
  "throttle_lmi e st =
     (let c_m_1 = 1.700 * (1 / 10);
          c_m_2 = 1.197;
          c_C_L = 4.660 * (1 / 10);
          c_C_D = 1.640 * (1 / 10);
          c_rho = 1.293;
          c_l = 9.59 * (1 / 10);
          c_l_g = 1.36 * (1 / 10);
          c_S = 9.424 * (1 / 10);
          c_I_y = 1.37 * (1 / 10);
          c_L = c_rho * c_C_L * c_S;
          c_D = c_rho * c_C_D * c_S;
          num = TPARAM_c_alt (g e);
          f = fst (switch_controller_alt num);
          maxmin_z = snd (switch_controller_alt num);
          theta_n = 15.8 / 180 * pi;
          T_neutral = 4.46;
          theta_r = ahrs_pitch e - theta_n;
          v_xn = 6.55;
          z1 = (1 / 2 * c_L * gps_dh st * cos (arctan (gps_dh st / v_xn))
                - 1 / 2 * c_D * gps_dh st * sin (arctan (gps_dh st / v_xn))
                - 1 / 2 * c_D * v_xn) / (c_m_1 + c_m_2);
          z2 = (- 1 / 2 * (c_l - c_l_g) * c_L * gps_dpitch st
                    * sin (theta_r + theta_n + alpha st - arctan (gps_dh st / v_xn))
                + 1 / 2 * (c_l - c_l_g) * c_l * v_xn * cos theta_r * cos (theta_n + alpha st)
                + 1 / 2 * (c_l - c_l_g) * c_D * gps_dh st
                    * cos (theta_r + theta_n + alpha st - arctan (gps_dh st / v_xn))
                + 1 / 2 * (c_l - c_l_g) * c_D * v_xn * cos theta_r * sin (theta_n + alpha st)
                - 1 / 2 * (c_l - c_l_g) * c_L * v_xn * sin theta_r * sin (theta_n + alpha st)
                - 1 / 2 * (c_l - c_l_g) * c_D * v_xn * sin theta_r * cos (theta_n + alpha st))
               / c_I_y;
          z3 = sin (theta_r + theta_n) / (c_m_1 + c_m_2);
          h = lmi_weights maxmin_z z1 z2 z3;
          x_r = [e_m st, gps_dh st, theta_r, gps_dpitch st];
          thrust = fold (\<lambda>i acc. acc + - (h ! i) * fold (\<lambda>j a. a + f ! i ! j * x_r ! j) [0 ..< 4] 0)
                     [0 ..< 8] T_neutral
      in st\<lparr>h_0 := h ! 0, h_1 := h ! 1, h_2 := h ! 2, h_3 := h ! 3,
            h_4 := h ! 4, h_5 := h ! 5, h_6 := h ! 6, h_7 := h ! 7,
            motor_Th_N := thrust\<rparr>)"

text \<open>\<^verbatim>\<open>Plane::TLAB_Throttle_Controller\<close>.\<close>

definition TLAB_Throttle_Controller :: "env \<Rightarrow> plane \<Rightarrow> int \<times> plane" where
  "TLAB_Throttle_Controller e st =
     (let z_cm = alt (current_loc e);
          z_r_cm = alt (next_WP_loc e);
          st1 = st\<lparr>z := of_int z_cm * 0.01, z_r := of_int z_r_cm * 0.01\<rparr>;
          st2 = throttle_first_time e st1;
          st3 = fst (throttle_rate_update e st2);
          st4 = st3\<lparr>e_m := z st3 - z_r st3\<rparr>;
          st5 = st4\<lparr>de_m := dz st4\<rparr>;
          h_Th = [constrain_float ((de_m st5 - d2_Th st5) / (d1_Th st5 - d2_Th st5)) 0 1,
                  constrain_float ((d1_Th st5 - de_m st5) / (d1_Th st5 - d2_Th st5)) 0 1];
          st6 = st5\<lparr>gps_dh := - gps_velocity_z e, gps_dpitch := wrap_PI (ahrs_gyro_y e)\<rparr>;
          dth = ahrs_pitch e - TPARAM_theta_a (g e) * pi / 180;
          st7 =
            (if TPARAM_cha_pow (g e) = 1 then
               st6\<lparr>motor_Th_N :=
                     fold (\<lambda>i acc. acc + - (h_Th ! i) * (kp_Th st6 i * e_m st6 + kd_Th st6 i * de_m st6))
                       [0 ..< 2] (equilibrium_thrust (g e))\<rparr>
             else if TPARAM_cha_pow (g e) = 2 then
               (let sa = st6\<lparr>motor_Th_N := motor_neutral st6\<rparr>;
                    sb = sa\<lparr>F1 := 0.0080059 * e_m sa - 0.0057775 * de_m sa + 0.17926 * dth
                                   + 0.049755 * speed_pitch sa + 0.3259,
                            F2 := - 0.0057775 * e_m sa - 0.0011929 * de_m sa + 0.063286 * dth
                                   - 0.020788 * speed_pitch sa + 0.09056,
                            F3 := 0.17926 * e_m sa + 0.063286 * de_m sa + 5.1494 * dth
                                   + 0.52875 * speed_pitch sa + 16.1688,
                            F4 := 0.049755 * e_m sa - 0.020788 * de_m sa + 0.52875 * dth
                                   + 0.19909 * speed_pitch sa + 2.9633\<rparr>
                in sb\<lparr>motor_Th_N := motor_Th_N sb + - (F1 sb * e_m sb + F2 sb * de_m sb)\<rparr>)
             else if TPARAM_cha_pow (g e) = 3 then
               st6\<lparr>motor_Th_N := motor_neutral st6 + - (kp_Th st6 0 * e_m st6 + kd_Th st6 0 * de_m st6)\<rparr>
             else if TPARAM_cha_pow (g e) = 4 then st6\<lparr>motor_Th_N := 0\<rparr>
             else if TPARAM_cha_pow (g e) = 5 then st6\<lparr>motor_Th_N := 0\<rparr>
             else if TPARAM_cha_pow (g e) = 6 then throttle_lmi e st6
             else st6);
          r = thrust_to_percent e (motor_Th_N st7) st7;
          st8 = (snd r)\<lparr>motor_per := fst r\<rparr>
      in (float_to_int32 (motor_per st8), st8))"

subsection \<open>Line and circle tracking\<close>

text \<open>\<^verbatim>\<open>Plane::init_TLAB_Controller\<close>.\<close>

definition init_TLAB_Controller :: "env \<Rightarrow> plane \<Rightarrow> plane" where
  "init_TLAB_Controller e st =
     (let p = g e;
          st1 = st\<lparr>init_TLAB_Controller_flag := False,
                   Target_Circle_Center :=
                     (Target_Circle_Center st)\<lparr>lat := TPARAM_center_lat p, lng := TPARAM_center_lng p\<rparr>,
                   TLAB_Control_flag := TPARAM_control_mode p,
                   calc_GCRS_flag := TPARAM_calc_GCRS p,
                   const_k := TPARAM_k p,
                   v_a := TPARAM_Va p,
                   Vg_min := TPARAM_Vg_min p,
                   Vg_max := TPARAM_Vg_max p,
                   alpha_min := TPARAM_alpha_min p * pi / 180,
                   alpha_max := TPARAM_alpha_max p * pi / 180,
                   r_min := TPARAM_r_min p,
                   target_R := TPARAM_R p,
                   U_min := TPARAM_U_min p,
                   U_max := TPARAM_U_max p\<rparr>;
          st2 = (if TPARAM_rule_num p \<noteq> 0 then
                   st1\<lparr>use_fuzzy_controller := True,
                       rule_num := (if TPARAM_rule_num p = 2 then 2 else 4),
                       phi_max := TPARAM_phi_max p * pi / 180,
                       F_fuzzy := (\<lambda>i j.
                          if i = 0 \<and> j = 0 then TPARAM_F11 p else if i = 0 \<and> j = 1 then TPARAM_F12 p
                          else if i = 1 \<and> j = 0 then TPARAM_F21 p else if i = 1 \<and> j = 1 then TPARAM_F22 p
                          else if i = 2 \<and> j = 0 then TPARAM_F31 p else if i = 2 \<and> j = 1 then TPARAM_F32 p
                          else if i = 3 \<and> j = 0 then TPARAM_F41 p else if i = 3 \<and> j = 1 then TPARAM_F42 p
                          else F_fuzzy st1 i j)\<rparr>
                 else st1\<lparr>use_fuzzy_controller := False\<rparr>);
          st3 = st2\<lparr>Combine_Mode_flag := (TPARAM_Combine p = 1),
                    TLAB_WP_nav_flag := False,
                    alternate_orbit_flag := (TPARAM_alternate p = 1),
                    change_to_circle_flag := False\<rparr>;
          st4 = (if Combine_Mode_flag st3 then st3\<lparr>TLAB_Control_flag := 0\<rparr> else st3)
      in st4\<lparr>change_y := TPARAM_change_y p, orbit_num := TPARAM_orbit_num p\<rparr>)"

text \<open>\<^verbatim>\<open>Plane::init_TLAB_Controller_AUTO\<close>.\<close>

definition init_TLAB_Controller_AUTO :: "env \<Rightarrow> plane \<Rightarrow> plane" where
  "init_TLAB_Controller_AUTO e st =
     (let st1 = st\<lparr>init_TLAB_Controller_AUTO_flag := False,
                   prev_POS := current_loc e,
                   mid_POS := current_loc e\<rparr>;
          st2 = st1\<lparr>theta := wrap_PI (of_int (get_bearing_cd e (Target_Circle_Center st1) (mid_POS st1))
                                      * 0.01 * pi / 180)\<rparr>;
          st3 = st2\<lparr>prev_theta := theta st2, Int_theta := 0\<rparr>
      in st3\<lparr>chi := wrap_PI (of_int (gps_ground_course_cd e) * 0.01 * pi / 180)\<rparr>)"

text \<open>The weights \<^verbatim>\<open>h_mem[0..3]\<close> of the comparison fuzzy law in \<^verbatim>\<open>calc_controller\<close>.\<close>

definition fuzzy_m_mem :: "plane \<Rightarrow> real \<times> real" where
  "fuzzy_m_mem st =
     (if v_g st > Vg_max st then (1, 0)
      else if v_g st < Vg_min st then (0, 1)
      else (let m0 = (v_g st - Vg_min st) / (Vg_max st - Vg_min st) in (m0, 1 - m0)))"

definition fuzzy_n_mem :: "plane \<Rightarrow> real \<Rightarrow> real \<times> real" where
  "fuzzy_n_mem st x2 =
     (if \<bar>x2\<bar> < 2 * 180 / pi then (1, 0)
      else if \<bar>x2\<bar> > phi_max st then (0, 1)
      else (let b1 = 1;
                b2 = sin (phi_max st) / phi_max st;
                n0 = (sin x2 - b2 * x2) / ((b1 - b2) * x2)
            in (n0, 1 - n0)))"

definition fuzzy_h_mem :: "plane \<Rightarrow> real \<Rightarrow> nat \<Rightarrow> real" where
  "fuzzy_h_mem st x2 =
     (let m_mem = fuzzy_m_mem st
      in if rule_num st = 2 then
           (\<lambda>i. if i = 0 then fst m_mem else if i = 1 then snd m_mem
                 else if i = 2 then 0 else if i = 3 then 0 else h_mem st i)
         else
           (let n_mem = fuzzy_n_mem st x2
            in (\<lambda>i. if i = 0 then fst m_mem * fst n_mem
                     else if i = 1 then fst m_mem * snd n_mem
                     else if i = 2 then snd m_mem * fst n_mem
                     else if i = 3 then snd m_mem * snd n_mem
                     else h_mem st i)))"

text \<open>\<^verbatim>\<open>Plane::calc_controller\<close>.\<close>

definition calc_controller :: "env \<Rightarrow> real \<Rightarrow> real \<Rightarrow> plane \<Rightarrow> real \<times> plane" where
  "calc_controller e x1 x2 st =
     (let st1 = (if lat (prev_POS st) \<noteq> lat (current_loc e) \<or> lng (prev_POS st) \<noteq> lng (current_loc e)
                 then st\<lparr>prev_POS := current_loc e\<rparr> else st)
      in if \<not> use_fuzzy_controller st1 then
           (let C = - 0.0013832 * x1 ^ 3 - 0.020961 * x1 ^ 2 * x2 + 0.068193 * x1 * x2 ^ 2
                    - 0.34265 * x2 ^ 3 - 1.3518 / 10 ^ 10 * x1 ^ 2 - 1.9737 / 10 ^ 9 * x1 * x2
                    + 7.2815 / 10 ^ 9 * x2 ^ 2 - 0.096888 * x1 - 3.1216 * x2;
                p = 0.78953 * x1 ^ 2 - 1.8155 * x1 * x2 + 24.7114 * x2 ^ 2
                    + 8.1027 / 10 ^ 8 * x1 - 2.4228 / 10 ^ 7 * x2 + 25.6252
            in (C / p, st1))
         else
           (let st2 = st1\<lparr>h_mem := fuzzy_h_mem st1 x2\<rparr>;
                u_control = fold (\<lambda>i acc. acc - h_mem st2 i * (F_fuzzy st2 i 0 * x1 + F_fuzzy st2 i 1 * x2))
                              [0 ..< nat (rule_num st2)] 0
            in (u_control, st2)))"

definition sinc :: "real \<Rightarrow> real" where
  "sinc xv = (if - 0.01 \<le> xv \<and> xv \<le> 0.01 then 1 else sin xv / xv)"

definition sqn :: "real \<Rightarrow> real" where
  "sqn xv = (if xv < 0 then - 1 else if xv > 0 then 1 else 0)"

text \<open>The clipping of the sideslip angle and the ratio \<open>L_conv\<close>, written out after every
  law of the source.\<close>

definition clip_alpha :: "real \<Rightarrow> plane \<Rightarrow> plane" where
  "clip_alpha a st =
     (let st1 = st\<lparr>alpha := a\<rparr>;
          st2 = (if alpha st1 > alpha_max st1 then st1\<lparr>alpha := alpha_max st1\<rparr>
                 else if alpha st1 < alpha_min st1 then st1\<lparr>alpha := alpha_min st1\<rparr>
                 else st1)
      in st2\<lparr>L_conv := Vg_limited st2 / (v_a st2 * cos (alpha st2))\<rparr>)"

definition limit_Vg :: "env \<Rightarrow> plane \<Rightarrow> plane" where
  "limit_Vg e st =
     (let st1 = st\<lparr>v_g := gps_ground_speed e\<rparr>
      in if v_g st1 > Vg_max st1 then st1\<lparr>Vg_limited := Vg_max st1\<rparr>
         else if v_g st1 < Vg_min st1 then st1\<lparr>Vg_limited := Vg_min st1\<rparr>
         else st1\<lparr>Vg_limited := v_g st1\<rparr>)"

text \<open>The lookahead angle \<open>eta\<close> of law 4, for the offset \<open>ev\<close> and the angle error \<open>ea\<close>.\<close>

definition lookahead_eta :: "real \<Rightarrow> real \<Rightarrow> plane \<Rightarrow> plane" where
  "lookahead_eta ev ea st =
     (if ev < L_1 st then
        st\<lparr>eta := constrain_float (- ea - arctan (ev / sqrt ((L_1 st) ^ 2 - ev ^ 2))) (- pi / 2) (pi / 2)\<rparr>
      else if ev \<ge> L_1 st then
        st\<lparr>eta := constrain_float (- ea - pi / 2 * sqn ev) (- pi / 2) (pi / 2)\<rparr>
      else st)"

definition servo_of_u :: "plane \<Rightarrow> plane" where
  "servo_of_u st =
     st\<lparr>servo := float_to_int32 (arcsin (constrain_float (58 / 29 * sin (u st)) (- 1) 1)
                                  * 100 * 180 / pi)\<rparr>"

text \<open>\<^verbatim>\<open>Plane::TLAB_Line_Trace_Controller\<close>, in the order of the source: the position
  and angles relative to the waypoint line; the early return outside line mode; the
  selected law; the conversion to the servo angle.\<close>

definition line_geometry :: "env \<Rightarrow> plane \<Rightarrow> plane" where
  "line_geometry e st =
     (let st1 = st\<lparr>Dist_currWP2UAV := get_distance e (current_loc e) (prev_WP_loc e),
                   rad_prevWP2UAV := of_int (get_bearing_cd e (prev_WP_loc e) (current_loc e))
                                       * 0.01 * pi / 180,
                   rad_prevWP2currWP := of_int (get_bearing_cd e (prev_WP_loc e) (next_WP_loc e))
                                       * 0.01 * pi / 180\<rparr>;
          rad_WPline2UAV = rad_prevWP2UAV st1 - rad_prevWP2currWP st1
      in st1\<lparr>state_UAV_x := Dist_currWP2UAV st1 * cos rad_WPline2UAV,
             state_UAV_y := Dist_currWP2UAV st1 * sin rad_WPline2UAV,
             state_UAV_phi := wrap_PI (of_int (ahrs_yaw_sensor e) * 0.01 * pi / 180
                                       - rad_prevWP2currWP st1),
             state_UAV_GCRS := wrap_PI (of_int (gps_ground_course_cd e) * 0.01 * pi / 180
                                        - rad_prevWP2currWP st1)\<rparr>)"

definition line_law :: "env \<Rightarrow> plane \<Rightarrow> plane" where
  "line_law e st3 =
     (let sw = TPARAM_switch_mo (g e)
      in if sw = 1 then
           (let r = calc_controller e (state_UAV_y st3) (state_UAV_GCRS st3) st3;
                sa = (snd r)\<lparr>u_star := Vg_limited (snd r) * fst r\<rparr>
            in clip_alpha (wrap_PI (state_UAV_phi sa - state_UAV_GCRS sa)) sa)
         else if sw = 2 then
           (let sa = st3\<lparr>sinc_kai := sinc (state_UAV_GCRS st3)\<rparr>;
                sb = sa\<lparr>det_a := TPARAM_control_a (g e),
                        det_b := TPARAM_control_b (g e),
                        det_p := TPARAM_control_p (g e)\<rparr>;
                sc = sb\<lparr>u_star :=
                         - det_b sb * (state_UAV_GCRS sb + arctan (det_a sb * state_UAV_y sb))
                         - (det_a sb * v_g sb * sin (state_UAV_GCRS sb))
                             / (1 + (det_a sb) ^ 2 * (state_UAV_y sb) ^ 2)\<rparr>
            in clip_alpha (wrap_PI (state_UAV_phi sc - state_UAV_GCRS sc)) sc)
         else if sw = 3 then
           (let sb = st3\<lparr>det_a := TPARAM_control_a (g e),
                         det_b := TPARAM_control_b (g e),
                         det_p := TPARAM_control_p (g e)\<rparr>;
                sc = sb\<lparr>u_star := - (1 / det_b sb)
                                    * (v_g sb * state_UAV_y sb + det_a sb * state_UAV_GCRS sb)\<rparr>
            in clip_alpha (wrap_PI (state_UAV_phi sc - state_UAV_GCRS sc)) sc)
         else if sw = 4 then
           (let sa = st3\<lparr>L_1 := TPARAM_L_1 (g e)\<rparr>;
                sb = lookahead_eta (state_UAV_y sa) (state_UAV_GCRS sa) sa;
                sc = sb\<lparr>u_star := 2 * v_a sb * sin (eta sb) / L_1 sb\<rparr>
            in clip_alpha (wrap_PI (state_UAV_phi sc - state_UAV_GCRS sc)) sc)
         else st3)"

definition line_u :: "env \<Rightarrow> plane \<Rightarrow> plane" where
  "line_u e st4 =
     st4\<lparr>u := constrain_float (L_conv st4 / const_k st4 * u_star st4)
                  (U_min st4 * pi / 180) (U_max st4 * pi / 180)
               + TPARAM_servo_neutral (g e) * pi / 180\<rparr>"

definition TLAB_Line_Trace_Controller :: "env \<Rightarrow> plane \<Rightarrow> int \<times> plane" where
  "TLAB_Line_Trace_Controller e st =
     (let st2 = line_geometry e st
      in if TLAB_Control_flag st2 \<noteq> 0 then (0, st2)
         else
           (let st6 = servo_of_u (line_u e (line_law e (limit_Vg e st2)))
            in (servo st6, st6)))"

text \<open>\<^verbatim>\<open>Plane::TLAB_Circle_Trace_Controller\<close>, in the order of the source: the angles
  about the circle centre; the radial and angular errors; the selected law; the feed-forward
  term and the conversion to the servo angle.\<close>

definition circle_angles :: "env \<Rightarrow> plane \<Rightarrow> plane" where
  "circle_angles e st =
     (if calc_GCRS_flag st = 0 then
        st\<lparr>theta := wrap_PI (of_int (get_bearing_cd e (Target_Circle_Center st) (current_loc e))
                                * 0.01 * pi / 180),
           chi := wrap_PI (of_int (gps_ground_course_cd e) * 0.01 * pi / 180)\<rparr>
      else
        (let st1 =
               (if init_TLAB_Controller_AUTO_flag st then
                  (init_TLAB_Controller_AUTO e st)\<lparr>diff_theta := 0, Int_theta := 0\<rparr>
                else
                  (let sa = st\<lparr>chi := wrap_PI (of_int (get_bearing_cd e (prev_POS st) (current_loc e))
                                                * 0.01 * pi / 180)\<rparr>;
                       sb = sa\<lparr>mid_POS := (mid_POS sa)
                                 \<lparr>lat := lat (prev_POS sa)
                                           + c_div (lat (current_loc e) - lat (prev_POS sa)) 2\<rparr>\<rparr>;
                       sc = sb\<lparr>mid_POS := (mid_POS sb)
                                 \<lparr>lng := lng (prev_POS sb)
                                           + c_div (lng (current_loc e) - lng (prev_POS sb)) 2\<rparr>\<rparr>;
                       sd = sc\<lparr>theta := wrap_PI (of_int (get_bearing_cd e (Target_Circle_Center sc) (mid_POS sc))
                                                  * 0.01 * pi / 180)\<rparr>;
                       se = sd\<lparr>diff_theta := wrap_PI (theta sd - prev_theta sd)\<rparr>
                   in se\<lparr>Int_theta := Int_theta se + diff_theta se\<rparr>))
         in st1\<lparr>prev_theta := theta st1\<rparr>))"

definition circle_errors :: "env \<Rightarrow> plane \<Rightarrow> plane" where
  "circle_errors e st1 =
     (let st2 = (if TLAB_Control_flag st1 = 1 then
                   st1\<lparr>chi_r := wrap_PI (theta st1 - pi * 0.5), e_r := arg_r st1 - target_R st1\<rparr>
                 else
                   st1\<lparr>chi_r := wrap_PI (theta st1 + pi * 0.5), e_r := target_R st1 - arg_r st1\<rparr>);
          st3 = limit_Vg e (st2\<lparr>e_chi := wrap_PI (chi st2 - chi_r st2)\<rparr>);
          st4 = (if lat (prev_POS st3) \<noteq> lat (current_loc e) \<or> lng (prev_POS st3) \<noteq> lng (current_loc e)
                 then st3\<lparr>prev_POS := current_loc e\<rparr> else st3)
      in st4\<lparr>phi := wrap_PI (of_int (ahrs_yaw_sensor e) * 0.01 * pi / 180)\<rparr>)"

definition circle_law :: "env \<Rightarrow> plane \<Rightarrow> plane" where
  "circle_law e st5 =
     (let sw = TPARAM_switch_mo (g e)
      in if sw = 1 then
           (let r = calc_controller e (e_r st5) (chi_r st5) st5;
                sa = (snd r)\<lparr>u_star := Vg_limited (snd r) * fst r\<rparr>
            in clip_alpha (wrap_PI (phi sa - chi sa)) sa)
         else if sw = 2 then
           (let sb = st5\<lparr>det_a := TPARAM_control_a (g e),
                         det_b := TPARAM_control_b (g e),
                         det_p := TPARAM_control_p (g e)\<rparr>;
                sc = sb\<lparr>u_star :=
                         - det_b sb * (e_chi sb + arctan (det_a sb * e_r sb))
                         - (det_a sb * v_g sb * sin (e_chi sb)) / (1 + (det_a sb) ^ 2 * (e_r sb) ^ 2)\<rparr>
            in clip_alpha (wrap_PI (phi sc - chi sc)) sc)
         else if sw = 3 then
           (let sb = st5\<lparr>det_a := TPARAM_control_a (g e),
                         det_b := TPARAM_control_b (g e),
                         det_p := TPARAM_control_p (g e)\<rparr>;
                sc = sb\<lparr>u_star := - (1 / det_b sb) * (v_g sb * e_r sb + det_a sb * e_chi sb)\<rparr>
            in clip_alpha (wrap_PI (phi sc - chi sc)) sc)
         else if sw = 4 then
           (let sa = st5\<lparr>L_1 := TPARAM_L_1 (g e)\<rparr>;
                sb = lookahead_eta (e_r sa) (e_chi sa) sa;
                sc = sb\<lparr>u_star := 2 * v_a sb * sin (eta sb) / L_1 sb\<rparr>
            in clip_alpha (wrap_PI (phi sc - chi sc)) sc)
         else st5)"

definition circle_u :: "env \<Rightarrow> plane \<Rightarrow> plane" where
  "circle_u e st6 =
     (let st7 = (if arg_r st6 < r_min st6 then st6\<lparr>r_limited := r_min st6\<rparr>
                 else st6\<lparr>r_limited := arg_r st6\<rparr>);
          st8 = (if TLAB_Control_flag st7 = 1 then
                   st7\<lparr>u := L_conv st7 / const_k st7 * u_star st7
                            - Vg_limited st7 * L_conv st7 / (r_limited st7 * const_k st7) * cos (e_chi st7)\<rparr>
                 else
                   st7\<lparr>u := L_conv st7 / const_k st7 * u_star st7
                            + Vg_limited st7 * L_conv st7 / (r_limited st7 * const_k st7) * cos (e_chi st7)\<rparr>)
      in st8\<lparr>u := constrain_float (u st8) (U_min st8 * pi / 180) (U_max st8 * pi / 180)
                  + TPARAM_servo_neutral (g e) * pi / 180\<rparr>)"

definition TLAB_Circle_Trace_Controller :: "env \<Rightarrow> plane \<Rightarrow> int \<times> plane" where
  "TLAB_Circle_Trace_Controller e st =
     (let st1 = circle_angles e (st\<lparr>arg_r := get_distance e (Target_Circle_Center st) (current_loc e)\<rparr>);
          st10 = servo_of_u (circle_u e (circle_law e (circle_errors e st1)))
      in (servo st10, st10))"

subsection \<open>The line and circle supervisor\<close>

text \<open>\<^verbatim>\<open>Plane::TLAB_Combine_Controller\<close>. \<open>TLAB_Control_flag\<close> is 0 in line mode and 1 or 2
  in circle mode (left or right turn).\<close>

definition circle_exit_condition :: "plane \<Rightarrow> bool" where
  "circle_exit_condition st \<longleftrightarrow>
     \<bar>Int_theta st\<bar> > 2 * pi * orbit_num st \<and> state_UAV_x st > 0 \<and> \<bar>state_UAV_y st\<bar> < change_y st"

definition TLAB_Combine_Controller :: "env \<Rightarrow> plane \<Rightarrow> int \<times> plane" where
  "TLAB_Combine_Controller e st =
     (if \<not> TLAB_WP_nav_flag st then
        TLAB_Line_Trace_Controller e (st\<lparr>TLAB_Control_flag := 0\<rparr>)
      else if TLAB_Control_flag st = 0 then
        (if change_to_circle_flag st then
           (let st1 = st\<lparr>change_to_circle_flag := False,
                         Target_Circle_Center := prev_WP_loc e,
                         init_TLAB_Controller_AUTO_flag := True\<rparr>;
                st2 = (if alternate_orbit_flag st1 then
                         st1\<lparr>TLAB_Control_flag := (TLAB_CMD_index st1 mod 2) + 1\<rparr>
                       else if TPARAM_control_mode (g e) = 1 then st1\<lparr>TLAB_Control_flag := 1\<rparr>
                       else st1\<lparr>TLAB_Control_flag := 2\<rparr>);
                st3 = st2\<lparr>gcs_messages := gcs_messages st2 @ [''change to circle trace mode'']\<rparr>
            in TLAB_Circle_Trace_Controller e st3)
         else TLAB_Line_Trace_Controller e st)
      else
        (let st1 = st\<lparr>Target_Circle_Center := prev_WP_loc e\<rparr>;
             st2 = snd (TLAB_Line_Trace_Controller e st1)
         in if circle_exit_condition st2 then
              (let st3 = st2\<lparr>TLAB_Control_flag := 0, Int_theta := 0\<rparr>;
                   st4 = st3\<lparr>gcs_messages := gcs_messages st3 @ [''change to line trace mode'']\<rparr>
               in TLAB_Line_Trace_Controller e st4)
            else TLAB_Circle_Trace_Controller e st2))"

text \<open>\<^verbatim>\<open>Plane::TLAB_Constant_Output\<close>.\<close>

definition TLAB_Constant_Output :: "env \<Rightarrow> plane \<Rightarrow> int \<times> plane" where
  "TLAB_Constant_Output e st =
     (let st1 = (if \<not> yet_init st then st\<lparr>servo := 0, yet_init := True\<rparr> else st);
          st2 = st1\<lparr>servo := float_to_int32 (TPARAM_servo_neutral (g e) * 100)\<rparr>
      in (servo st2, st2))"

subsection \<open>Two-dimensional path generator\<close>

text \<open>\<^verbatim>\<open>Plane::init_TLAB_2D_Trace_Controller\<close>.\<close>

definition init_TLAB_2D_Trace_Controller :: "env \<Rightarrow> plane \<Rightarrow> plane" where
  "init_TLAB_2D_Trace_Controller e st =
     (let p = g e;
          st1 = st\<lparr>v_a := TPARAM_v_a p,
                   k_prop_const := TPARAM_k_prop_const p,
                   Path_Origin := (Path_Origin st)\<lparr>lat := lat (prev_WP_loc e), lng := lng (prev_WP_loc e)\<rparr>,
                   Flight_Plan := TPARAM_Flight_Plan p,
                   Fx := (\<lambda>i. if i = 0 then TPARAM_Fx1 p else if i = 1 then TPARAM_Fx2 p
                                else if i = 2 then TPARAM_Fx3 p else Fx st i),
                   Fchi := (\<lambda>i j.
                      if i = 0 \<and> j = 0 then TPARAM_Fchi1_1 p else if i = 0 \<and> j = 1 then TPARAM_Fchi1_2 p
                      else if i = 0 \<and> j = 2 then TPARAM_Fchi1_3 p
                      else if i = 1 \<and> j = 0 then TPARAM_Fchi2_1 p else if i = 1 \<and> j = 1 then TPARAM_Fchi2_2 p
                      else if i = 1 \<and> j = 2 then TPARAM_Fchi2_3 p
                      else if i = 2 \<and> j = 0 then TPARAM_Fchi3_1 p else if i = 2 \<and> j = 1 then TPARAM_Fchi3_2 p
                      else if i = 2 \<and> j = 2 then TPARAM_Fchi3_3 p
                      else if i = 3 \<and> j = 0 then TPARAM_Fchi4_1 p else if i = 3 \<and> j = 1 then TPARAM_Fchi4_2 p
                      else if i = 3 \<and> j = 2 then TPARAM_Fchi4_3 p
                      else Fchi st i j),
                   v_g_min := TPARAM_v_g_min p,
                   v_g_max := TPARAM_v_g_max p,
                   kappa_max := TPARAM_kappa_max p,
                   kappa_min := TPARAM_kappa_min p,
                   u_x_max := TPARAM_u_x_max p,
                   chiF_max := TPARAM_chiF_max_deg p * pi / 180\<rparr>;
          st2 = st1\<lparr>z1_max := (v_g_max st1 + u_x_max st1) * kappa_max st1,
                    z1_min := (v_g_max st1 + u_x_max st1) * kappa_min st1,
                    z2_max := v_g_max st1,
                    z2_min := v_g_max st1 * sin (chiF_max st1) / chiF_max st1\<rparr>
      in st2\<lparr>Path_Mode := 0,
             s := 0,
             zeta := 0,
             P0 := location_diff e (Path_Origin st2) (prev_WP_loc e),
             P1 := location_diff e (Path_Origin st2) (next_WP_loc e),
             dist_WPs := get_distance e (prev_WP_loc e) (next_WP_loc e),
             i_now_CMD := 0,
             u_x := 0,
             t_now := micros64 e\<rparr>)"

text \<open>The displacement of a location from \<open>Path_Origin\<close> with its components exchanged, as
  the generator stores \<open>P0\<close> and \<open>P1\<close>.\<close>

definition swapped_diff :: "env \<Rightarrow> plane \<Rightarrow> location \<Rightarrow> vector2f" where
  "swapped_diff e st loc = (let d = location_diff e (Path_Origin st) loc in (snd d, fst d))"

text \<open>The local \<^verbatim>\<open>WP0\<close>: only its latitude and longitude are assigned by the source; the
  geodesy helpers read no other member, and the model sets the altitude to 0.\<close>

definition WP0_of :: "env \<Rightarrow> location" where
  "WP0_of e = \<lparr>lat = TPARAM_Path_Origin_lat (g e), lng = TPARAM_Path_Origin_lng (g e), alt = 0\<rparr>"

definition path_from_prev_WP :: "env \<Rightarrow> plane \<Rightarrow> plane" where
  "path_from_prev_WP e st =
     (let st1 = st\<lparr>dist_WPs := get_distance e (prev_WP_loc e) (next_WP_loc e)\<rparr>;
          st2 = st1\<lparr>P0 := swapped_diff e st1 (prev_WP_loc e)\<rparr>
      in st2\<lparr>P1 := swapped_diff e st2 (next_WP_loc e)\<rparr>)"

definition path_from_WP0 :: "env \<Rightarrow> plane \<Rightarrow> plane" where
  "path_from_WP0 e st =
     (let st1 = st\<lparr>dist_WPs := get_distance e (WP0_of e) (next_WP_loc e)\<rparr>;
          st2 = st1\<lparr>P0 := swapped_diff e st1 (WP0_of e)\<rparr>
      in st2\<lparr>P1 := swapped_diff e st2 (next_WP_loc e)\<rparr>)"

text \<open>The first \<^verbatim>\<open>switch\<close> of \<^verbatim>\<open>TLAB_generate_2D_Path\<close>, on \<open>Flight_Plan\<close>, one
  function per \<^verbatim>\<open>case\<close>. \<open>changed\<close> is \<^verbatim>\<open>i_now_CMD != i_prev_CMD\<close>; the second component
  of the result is the local \<^verbatim>\<open>zeta_prev\<close>.\<close>

definition straight_approach :: "env \<Rightarrow> bool \<Rightarrow> bool \<Rightarrow> plane \<Rightarrow> plane" where
  "straight_approach e from_WP0 changed st =
     (if zeta st < 0.1 \<and> changed then
        (if from_WP0 then path_from_WP0 e (st\<lparr>Path_Mode := 0\<rparr>) else path_from_prev_WP e st)
      else if zeta st \<ge> 0.1 \<and> changed then st\<lparr>change_path_flag := True\<rparr>
      else st)"

text \<open>The switch at the end of a primitive: \<open>s\<close> restarts, the endpoints are taken from
  the current waypoint pair.\<close>

definition switch_primitive :: "env \<Rightarrow> plane \<Rightarrow> plane" where
  "switch_primitive e st = path_from_prev_WP e (st\<lparr>s := 0, change_path_flag := False\<rparr>)"

definition flight_plan_0 :: "env \<Rightarrow> bool \<Rightarrow> real \<Rightarrow> plane \<Rightarrow> plane \<times> real" where
  "flight_plan_0 e changed zeta_prev st =
     (let st1 = straight_approach e False changed (st\<lparr>Path_Mode := 0\<rparr>)
      in if change_path_flag st1 \<and> zeta st1 \<ge> 1 then
           (let st2 = st1\<lparr>s := 0, zeta := 0, change_path_flag := False\<rparr>
            in ((if i_now_CMD st2 = 2 then path_from_WP0 e st2 else path_from_prev_WP e st2),
                zeta_prev))
         else (st1, zeta_prev))"

text \<open>Plans 1 and 4: a straight segment, then a circle (\<open>Path_Mode\<close> 5 or 4) for ever.\<close>

definition flight_plan_circle :: "int \<Rightarrow> env \<Rightarrow> bool \<Rightarrow> real \<Rightarrow> plane \<Rightarrow> plane \<times> real" where
  "flight_plan_circle mode e changed zeta_prev st =
     (if Path_Mode st = 0 then
        (let st1 = straight_approach e True changed st
         in if change_path_flag st1 \<and> zeta st1 \<ge> 1 then
              ((switch_primitive e st1)\<lparr>Path_Mode := mode\<rparr>, 0)
            else (st1, zeta_prev))
      else (st, zeta_prev))"

text \<open>Plans 2 and 3, first half: the straight segments, until command 3 starts the
  Lissajous curve.\<close>

definition flight_plan_2_straight :: "env \<Rightarrow> bool \<Rightarrow> real \<Rightarrow> plane \<Rightarrow> plane \<times> real" where
  "flight_plan_2_straight e changed zeta_prev st =
     (if Path_Mode st = 0 then
        (let st1 = straight_approach e False changed st
         in if change_path_flag st1 \<and> zeta st1 \<ge> 1 then
              (let st2 = switch_primitive e st1
               in ((if i_now_CMD st2 = 3 then st2\<lparr>Path_Mode := 6\<rparr> else st2), 0))
            else (st1, zeta_prev))
      else (st, zeta_prev))"

definition flight_plan_3_straight :: "env \<Rightarrow> bool \<Rightarrow> real \<Rightarrow> plane \<Rightarrow> plane \<times> real" where
  "flight_plan_3_straight e changed zeta_prev st =
     (if Path_Mode st = 0 then
        (let st1 = straight_approach e False changed st
         in if change_path_flag st1 \<and> zeta st1 \<ge> 1 then
              (let st2 = switch_primitive e st1
               in ((if i_now_CMD st2 = 3 then
                      st2\<lparr>P1 := (fst (P1 st2) - TPARAM_r (g e), snd (P1 st2) - TPARAM_r (g e)),
                          Path_Mode := 3\<rparr>
                    else st2), 0))
            else (st1, zeta_prev))
      else (st, zeta_prev))"

text \<open>Plans 2 and 3, second half: the Lissajous curve \<open>mode\<close>, left when \<open>zeta\<close> has
  reached \<open>zeta_end\<close> after a change of waypoint.\<close>

definition flight_plan_lissajous :: "int \<Rightarrow> real \<Rightarrow> env \<Rightarrow> bool \<Rightarrow> plane \<times> real \<Rightarrow> plane \<times> real"
  where
  "flight_plan_lissajous mode zeta_end e changed r1 =
     (let sa = fst r1
      in if Path_Mode sa = mode then
           (let sb = (if zeta sa \<ge> 0.1 \<and> changed then sa\<lparr>change_path_flag := True\<rparr> else sa)
            in if change_path_flag sb \<and> zeta sb \<ge> zeta_end then
                 ((switch_primitive e sb)\<lparr>Path_Mode := 0\<rparr>, 0)
               else (sb, snd r1))
         else r1)"

definition flight_plan_step :: "env \<Rightarrow> bool \<Rightarrow> real \<Rightarrow> plane \<Rightarrow> plane \<times> real" where
  "flight_plan_step e changed zeta_prev st =
     (if Flight_Plan st = 0 then flight_plan_0 e changed zeta_prev st
      else if Flight_Plan st = 1 then flight_plan_circle 5 e changed zeta_prev st
      else if Flight_Plan st = 2 then
        flight_plan_lissajous 6 (4 * pi) e changed (flight_plan_2_straight e changed zeta_prev st)
      else if Flight_Plan st = 3 then
        flight_plan_lissajous 3 pi e changed (flight_plan_3_straight e changed zeta_prev st)
      else if Flight_Plan st = 4 then flight_plan_circle 4 e changed zeta_prev st
      else (st, zeta_prev))"

text \<open>The numerical search of the Lissajous primitives: \<^verbatim>\<open>while (1)\<close> adds
  \<^verbatim>\<open>dPdzeta * dzeta\<close> to \<open>s_calc\<close> and leaves with the current \<open>i_zeta\<close> once \<open>s_calc\<close>
  has reached the arc length; otherwise it increments \<open>i_zeta\<close> and goes round again. The
  result is the final \<open>i_zeta\<close> and \<open>s_calc\<close>; \<open>None\<close> when the loop never leaves.\<close>

definition dPdzeta_of :: "real \<Rightarrow> real \<Rightarrow> int \<Rightarrow> real" where
  "dPdzeta_of r dzeta iz =
     r * sqrt (25 * (sin (5 * dzeta * of_int iz)) ^ 2 + 36 * (sin (6 * dzeta * of_int iz)) ^ 2)"

partial_function (option) zeta_search :: "real \<Rightarrow> real \<Rightarrow> real \<Rightarrow> int \<Rightarrow> real \<Rightarrow> (int \<times> real) option"
  where
  "zeta_search r dzeta sv iz sc =
     (if sc + dPdzeta_of r dzeta iz * dzeta \<ge> sv then Some (iz, sc + dPdzeta_of r dzeta iz * dzeta)
      else zeta_search r dzeta sv (iz + 1) (sc + dPdzeta_of r dzeta iz * dzeta))"

text \<open>The second \<^verbatim>\<open>switch\<close> of \<^verbatim>\<open>TLAB_generate_2D_Path\<close>, on \<open>Path_Mode\<close>.\<close>

definition path_primitive :: "env \<Rightarrow> real \<Rightarrow> plane \<Rightarrow> plane option" where
  "path_primitive e zeta_prev st =
     (let r = TPARAM_r (g e) in
      if Path_Mode st = 0 then
        (let st1 = st\<lparr>zeta := s st / dist_WPs st\<rparr>;
             st2 = st1\<lparr>dot_zeta := (zeta st1 - zeta_prev) / dt st1\<rparr>
         in Some (st2\<lparr>x_d := (1 - zeta st2) * fst (P0 st2) + zeta st2 * fst (P1 st2),
                       y_d := (1 - zeta st2) * snd (P0 st2) + zeta st2 * snd (P1 st2),
                       chi_d := - atan2f (snd (P1 st2) - snd (P0 st2)) (fst (P1 st2) - fst (P0 st2)),
                       dot_chi_d := 0,
                       kappa := 0\<rparr>))
      else if Path_Mode st = 1 then
        (let st1 = st\<lparr>zeta := s st / dist_WPs st * 2\<rparr>;
             st2 = st1\<lparr>dot_zeta := (zeta st1 - zeta_prev) / dt st1\<rparr>
         in Some (st2\<lparr>x_d := dist_WPs st2 / 2 * cos (zeta st2) + (fst (P0 st2) + fst (P1 st2)) / 2,
                       y_d := dist_WPs st2 / 2 * sin (zeta st2) + (snd (P0 st2) + snd (P1 st2)) / 2,
                       chi_d := atan2f (cos (zeta st2)) (sin (zeta st2)),
                       dot_chi_d := - dot_zeta st2,
                       kappa := 2 / dist_WPs st2\<rparr>))
      else if Path_Mode st = 2 then
        (let st1 = st\<lparr>zeta := s st / dist_WPs st * 2\<rparr>;
             st2 = st1\<lparr>dot_zeta := (zeta st1 - zeta_prev) / dt st1\<rparr>
         in Some (st2\<lparr>x_d := dist_WPs st2 / 2 * cos (- zeta st2) + (fst (P0 st2) + fst (P1 st2)) / 2,
                       y_d := dist_WPs st2 / 2 * sin (- zeta st2) + (snd (P0 st2) + snd (P1 st2)) / 2,
                       chi_d := atan2f (cos (zeta st2)) (- sin (zeta st2)),
                       dot_chi_d := dot_zeta st2,
                       kappa := 2 / dist_WPs st2\<rparr>))
      else if Path_Mode st = 3 then
        (case zeta_search r (TPARAM_dzeta (g e)) (s st) (i_zeta st) (s_calc st) of
           None \<Rightarrow> None
         | Some (iz, sc) \<Rightarrow>
            (let st1 = st\<lparr>s_calc := sc, i_zeta := iz, zeta := of_int iz * TPARAM_dzeta (g e)\<rparr>;
                 st2 = st1\<lparr>dot_zeta := (zeta st1 - zeta_prev) / dt st1\<rparr>;
                 zt = zeta st2
             in Some (st2\<lparr>x_d := - r * cos (5 * zt) + fst (P1 st2),
                           y_d := r * cos (6 * zt) + snd (P1 st2),
                           chi_d := atan2f (6 / 5 * sin (6 * zt)) (sin (5 * zt)),
                           dot_chi_d := - 30 * dot_zeta st2 * (sin (11 * zt) - 11 * sin zt)
                                          / (25 * cos (10 * zt) + 36 * cos (12 * zt) - 61),
                           kappa := (15 * \<bar>11 * sin zt - sin (11 * zt)\<bar>)
                                      / (r * ((25 * (sin (5 * zt)) ^ 2 + 36 * (sin (6 * zt)) ^ 2) powr 1.5))\<rparr>)))
      else if Path_Mode st = 4 then
        (let st1 = st\<lparr>zeta := s st / r\<rparr>;
             st2 = st1\<lparr>dot_zeta := (zeta st1 - zeta_prev) / dt st1\<rparr>
         in Some (st2\<lparr>x_d := - r * cos (zeta st2) + fst (P1 st2),
                       y_d := - r * sin (zeta st2) + snd (P1 st2),
                       chi_d := atan2f (cos (zeta st2)) (sin (zeta st2)),
                       dot_chi_d := - dot_zeta st2,
                       kappa := 1 / r\<rparr>))
      else if Path_Mode st = 5 then
        (let st1 = st\<lparr>zeta := s st / r\<rparr>;
             st2 = st1\<lparr>dot_zeta := (zeta st1 - zeta_prev) / dt st1\<rparr>
         in Some (st2\<lparr>x_d := - r * cos (zeta st2) + fst (P1 st2),
                       y_d := r * sin (zeta st2) + snd (P1 st2),
                       chi_d := atan2f (- cos (zeta st2)) (sin (zeta st2)),
                       dot_chi_d := dot_zeta st2,
                       kappa := 1 / r\<rparr>))
      else if Path_Mode st = 6 then
        (case zeta_search r (TPARAM_dzeta (g e)) (s st) (i_zeta st) (s_calc st) of
           None \<Rightarrow> None
         | Some (iz, sc) \<Rightarrow>
            (let st1 = st\<lparr>s_calc := sc, i_zeta := iz, zeta := of_int iz * TPARAM_dzeta (g e)\<rparr>;
                 st2 = st1\<lparr>dot_zeta := (zeta st1 - zeta_prev) / dt st1\<rparr>;
                 zt = zeta st2
             in Some (st2\<lparr>x_d := 2 * r * sin zt + fst (P1 st2),
                           y_d := r * sin (2 * zt) + snd (P1 st2),
                           chi_d := atan2f (- cos (2 * zt)) (cos zt),
                           dot_chi_d := - (dot_zeta st2 * sin zt * (2 * (sin zt) ^ 2 - 3))
                                          / (4 * (sin zt) ^ 4 - 5 * (sin zt) ^ 2 + 2),
                           kappa := - (\<bar>sin zt\<bar> * (2 * (sin zt) ^ 2 - 3))
                                      / (2 * r * ((4 * (cos zt) ^ 4 - 3 * (cos zt) ^ 2 + 1) powr 1.5))\<rparr>)))
      else Some (st\<lparr>zeta := 0\<rparr>))"

text \<open>\<^verbatim>\<open>Plane::TLAB_generate_2D_Path\<close>.\<close>

definition TLAB_generate_2D_Path :: "env \<Rightarrow> plane \<Rightarrow> plane option" where
  "TLAB_generate_2D_Path e st =
     (let i_prev_CMD = i_now_CMD st;
          st1 = st\<lparr>i_now_CMD := TLAB_CMD_index st\<rparr>;
          zeta_prev = zeta st1;
          r = flight_plan_step e (i_now_CMD st1 \<noteq> i_prev_CMD) zeta_prev st1
      in path_primitive e (snd r) (fst r))"

subsection \<open>Gain-scheduled path follower\<close>

text \<open>The membership block of \<^verbatim>\<open>TLAB_2D_Trace_Controller\<close>, from the two nonlinear terms
  to \<open>K1\<close>, \<open>K2\<close>, \<open>M1\<close>, \<open>M2\<close> after their clipping. The statements are in the order of
  the source: \<open>z1\<close>, then \<open>z2\<close> (a division by \<open>chiF\<close>), then the test \<open>chiF == 0\<close>.
  The result is \<open>((K1, K2), (M1, M2))\<close> and the denominators of the divisions executed.\<close>

definition lateral_membership ::
  "real \<Rightarrow> real \<Rightarrow> real \<Rightarrow> real \<Rightarrow> real \<Rightarrow> real \<Rightarrow> real \<Rightarrow> real
     \<Rightarrow> ((real \<times> real) \<times> (real \<times> real)) \<times> real list" where
  "lateral_membership vg cF ux kap z1mn z1mx z2mn z2mx =
     (let z1 = (vg * cos cF + ux) * kap;
          z2 = vg * sin cF / cF;
          divs0 = [cF];
          k = (if cF = 0 then ((1, 0), divs0)
               else (((z2 - z2mn) / (z2mx - z2mn), (z2mx - z2) / (z2mx - z2mn)),
                     divs0 @ [z2mx - z2mn, z2mx - z2mn]));
          m = ((z1 - z1mn) / (z1mx - z1mn), (z1mx - z1) / (z1mx - z1mn));
          divs = snd k @ [z1mx - z1mn, z1mx - z1mn];
          kc = (if fst (fst k) > 1 then (1, 0) else if fst (fst k) < 0 then (0, 1) else fst k);
          mc = (if fst m > 1 then (1, 0) else if fst m < 0 then (0, 1) else m)
      in ((kc, mc), divs))"

text \<open>The four weights \<^verbatim>\<open>h_chi[0..3]\<close>.\<close>

definition h_chi_of :: "(real \<times> real) \<times> (real \<times> real) \<Rightarrow> (nat \<Rightarrow> real) \<Rightarrow> nat \<Rightarrow> real" where
  "h_chi_of km old =
     (\<lambda>i. if i = 0 then fst (fst km) * fst (snd km)
           else if i = 1 then snd (fst km) * fst (snd km)
           else if i = 2 then fst (fst km) * snd (snd km)
           else if i = 3 then snd (fst km) * snd (snd km)
           else old i)"

text \<open>The same block and the four weights over values that can be infinite or NaN: every
  operation and comparison of the source in its order, with \<^verbatim>\<open>chiF == 0\<close>, \<^verbatim>\<open>K1 > 1\<close>,
  \<^verbatim>\<open>K1 < 0\<close>, \<^verbatim>\<open>M1 > 1\<close> and \<^verbatim>\<open>M1 < 0\<close> as IEEE comparisons.\<close>

definition lateral_membership_f ::
  "cfloat \<Rightarrow> cfloat \<Rightarrow> cfloat \<Rightarrow> cfloat \<Rightarrow> cfloat \<Rightarrow> cfloat \<Rightarrow> cfloat \<Rightarrow> cfloat
     \<Rightarrow> (cfloat \<times> cfloat) \<times> (cfloat \<times> cfloat)" where
  "lateral_membership_f vg cF ux kap z1mn z1mx z2mn z2mx =
     (let z1 = f_mul (f_add (f_mul vg (f_cos cF)) ux) kap;
          z2 = f_div (f_mul vg (f_sin cF)) cF;
          k = (if f_eq cF (Fin 0) then (Fin 1, Fin 0)
               else (f_div (f_sub z2 z2mn) (f_sub z2mx z2mn),
                     f_div (f_sub z2mx z2) (f_sub z2mx z2mn)));
          m = (f_div (f_sub z1 z1mn) (f_sub z1mx z1mn), f_div (f_sub z1mx z1) (f_sub z1mx z1mn));
          kc = (if f_less (Fin 1) (fst k) then (Fin 1, Fin 0)
                else if f_less (fst k) (Fin 0) then (Fin 0, Fin 1) else k);
          mc = (if f_less (Fin 1) (fst m) then (Fin 1, Fin 0)
                else if f_less (fst m) (Fin 0) then (Fin 0, Fin 1) else m)
      in (kc, mc))"

definition h_chi_f :: "(cfloat \<times> cfloat) \<times> (cfloat \<times> cfloat) \<Rightarrow> cfloat list" where
  "h_chi_f km =
     [f_mul (fst (fst km)) (fst (snd km)), f_mul (snd (fst km)) (fst (snd km)),
      f_mul (fst (fst km)) (snd (snd km)), f_mul (snd (fst km)) (snd (snd km))]"

text \<open>The sum of a list of such values, from the left.\<close>

definition f_sum :: "cfloat list \<Rightarrow> cfloat" where
  "f_sum xs = foldl f_add (Fin 0) xs"

text \<open>The curvature that \<open>Path_Mode\<close> 3 assigns to \<open>kappa\<close>, as one IEEE division of a
  finite numerator by a finite denominator.\<close>

definition lissajous_kappa :: "real \<Rightarrow> real \<Rightarrow> cfloat" where
  "lissajous_kappa r zt =
     f_div (Fin (15 * \<bar>11 * sin zt - sin (11 * zt)\<bar>))
           (Fin (r * ((25 * (sin (5 * zt)) ^ 2 + 36 * (sin (6 * zt)) ^ 2) powr 1.5)))"

text \<open>The control law proper: everything in \<^verbatim>\<open>TLAB_2D_Trace_Controller\<close> after the
  initialisation branch.\<close>

definition trace_2D_law :: "env \<Rightarrow> plane \<Rightarrow> (int \<times> plane) option" where
  "trace_2D_law e st =
     (let t_prev = t_now st;
          st1 = st\<lparr>t_now := micros64 e\<rparr>;
          st2 = st1\<lparr>dt := real (unat (t_now st1 - t_prev)) * 0.000001\<rparr>;
          xyI = location_diff e (Path_Origin st2) (current_loc e);
          st3 = st2\<lparr>xI := snd xyI, yI := fst xyI,
                    psi := wrap_2PI (ahrs_yaw e - pi / 2),
                    chi := wrap_2PI (gps_ground_course e * pi / 180 - pi / 2),
                    v_g := gps_ground_speed e\<rparr>
      in case TLAB_generate_2D_Path e st3 of
           None \<Rightarrow> None
         | Some st4 \<Rightarrow>
            (let e_xI = x_d st4 - xI st4;
                 e_yI = y_d st4 - yI st4;
                 st5 = st4\<lparr>xF := - cos (chi_d st4) * e_xI + sin (chi_d st4) * e_yI,
                           yF := - sin (chi_d st4) * e_xI - cos (chi_d st4) * e_yI,
                           chiF := wrap_PI (chi_d st4 - chi st4)\<rparr>;
                 X = [xF st5, yF st5, chiF st5];
                 st6 = st5\<lparr>u_x_calc := fold (\<lambda>i acc. acc - Fx st5 i * X ! i) [0 ..< 3] 0\<rparr>;
                 st7 = st6\<lparr>u_x := u_x_calc st6\<rparr>;
                 km = fst (lateral_membership (v_g st7) (chiF st7) (u_x st7) (kappa st7)
                             (z1_min st7) (z1_max st7) (z2_min st7) (z2_max st7));
                 st8 = st7\<lparr>K1 := fst (fst km), K2 := snd (fst km),
                           M1 := fst (snd km), M2 := snd (snd km),
                           h_chi := h_chi_of km (h_chi st7)\<rparr>;
                 u_chi_calc = fold (\<lambda>i acc. fold (\<lambda>j a. a - h_chi st8 i * Fchi st8 i j * X ! j) [0 ..< 3] acc)
                                [0 ..< 4] 0;
                 st9 = st8\<lparr>u_chi := u_chi_calc\<rparr>;
                 st10 = st9\<lparr>ds := u_x st9 + v_g st9 * cos (chiF st9)\<rparr>;
                 st11 = st10\<lparr>s := s st10 + ds st10 * dt st10\<rparr>;
                 st12 = st11\<lparr>d_angle := float_to_int32
                                (1 / k_prop_const st11 * v_g st11 / v_a st11 / cos (chi st11 - psi st11)
                                   * (- u_chi st11 + dot_chi_d st11) * 100 * 180 / pi)\<rparr>;
                 st13 = st12\<lparr>bar_angle := of_int (d_angle st12) + TPARAM_servo_neutral (g e) * 100\<rparr>;
                 st14 = st13\<lparr>u := bar_angle st13 / 100 * pi / 180\<rparr>;
                 st15 = servo_of_u st14
             in Some (servo st15, st15)))"

text \<open>\<^verbatim>\<open>Plane::TLAB_2D_Trace_Controller\<close>.\<close>

definition TLAB_2D_Trace_Controller :: "env \<Rightarrow> plane \<Rightarrow> (int \<times> plane) option" where
  "TLAB_2D_Trace_Controller e st =
     (if \<not> yet_init st then Some (0, (init_TLAB_2D_Trace_Controller e st)\<lparr>yet_init := True\<rparr>)
      else trace_2D_law e st)"

subsection \<open>The yaw stage\<close>

text \<open>\<^verbatim>\<open>Plane::calc_nav_yaw_coordinated\<close>: the selected tracker's command, clamped, is
  written to \<^verbatim>\<open>steering_control.rudder\<close>.\<close>

definition calc_nav_yaw_coordinated :: "env \<Rightarrow> plane \<Rightarrow> plane option" where
  "calc_nav_yaw_coordinated e st =
     (let st1 = st\<lparr>TLAB_CMD_index := mission_current_nav_index e\<rparr>
      in if TPARAM_Bar_Control_Mode (g e) = 1 then
           (let r = TLAB_Line_Trace_Controller e st1
            in Some ((snd r)\<lparr>steering_control_rudder := constrain_int16 (fst r) (- 4500) 4500\<rparr>))
         else if TPARAM_Bar_Control_Mode (g e) = 2 then
           (let r = TLAB_Constant_Output e st1
            in Some ((snd r)\<lparr>steering_control_rudder := constrain_int16 (fst r) (- 4500) 4500\<rparr>))
         else
           (case TLAB_2D_Trace_Controller e st1 of
              None \<Rightarrow> None
            | Some r \<Rightarrow> Some ((snd r)\<lparr>steering_control_rudder := constrain_int16 (fst r) (- 4500) 4500\<rparr>)))"

subsection \<open>Notions used by the statements\<close>

text \<open>Consecutive control cycles of the supervisor, one \<open>env\<close> per cycle.\<close>

fun supervisor_run :: "env list \<Rightarrow> plane \<Rightarrow> plane" where
  "supervisor_run [] st = st"
| "supervisor_run (e # es) st = supervisor_run es (snd (TLAB_Combine_Controller e st))"

text \<open>The number of cycles of a run in which the supervisor goes from line mode to
  circle mode.\<close>

fun circle_entries :: "env list \<Rightarrow> plane \<Rightarrow> nat" where
  "circle_entries [] st = 0"
| "circle_entries (e # es) st =
     (if TLAB_Control_flag st = 0 \<and> TLAB_Control_flag (snd (TLAB_Combine_Controller e st)) \<noteq> 0
      then 1 else 0)
     + circle_entries es (snd (TLAB_Combine_Controller e st))"

definition circle_notifications :: "plane \<Rightarrow> nat" where
  "circle_notifications st = count_list (gcs_messages st) ''change to circle trace mode''"

text \<open>The direction angle of the segment from \<open>p0\<close> to \<open>p1\<close> in the path plane, as the
  specification's "bearing from P0 to P1".\<close>

definition segment_bearing :: "vector2f \<Rightarrow> vector2f \<Rightarrow> real" where
  "segment_bearing p0 p1 = atan2f (snd p1 - snd p0) (fst p1 - fst p0)"

subsection \<open>A zero state\<close>

text \<open>The parameter block with every entry 0.\<close>

definition params0 :: params where
  "params0 =
     \<lparr>TPARAM_pdc_height_d1_Th = 0,
      TPARAM_pdc_height_d2_Th = 0,
      TPARAM_height_kp0_Th = 0,
      TPARAM_height_kp1_Th = 0,
      TPARAM_height_kd0_Th = 0,
      TPARAM_height_kd1_Th = 0,
      TPARAM_motor_neutral_Th = 0,
      TPARAM_cha_pow = 0,
      TPARAM_theta_a = 0,
      TPARAM_V_a = 0,
      TPARAM_c_alt = 0,
      TPARAM_neutral_t = 0,
      TPARAM_MAX_slo = 0,
      TPARAM_Bar_Control_Mode = 0,
      TPARAM_center_lat = 0,
      TPARAM_center_lng = 0,
      TPARAM_control_mode = 0,
      TPARAM_calc_GCRS = 0,
      TPARAM_k = 0,
      TPARAM_Va = 0,
      TPARAM_Vg_min = 0,
      TPARAM_Vg_max = 0,
      TPARAM_alpha_min = 0,
      TPARAM_alpha_max = 0,
      TPARAM_r_min = 0,
      TPARAM_R = 0,
      TPARAM_U_min = 0,
      TPARAM_U_max = 0,
      TPARAM_rule_num = 0,
      TPARAM_phi_max = 0,
      TPARAM_F11 = 0,
      TPARAM_F12 = 0,
      TPARAM_F21 = 0,
      TPARAM_F22 = 0,
      TPARAM_F31 = 0,
      TPARAM_F32 = 0,
      TPARAM_F41 = 0,
      TPARAM_F42 = 0,
      TPARAM_Combine = 0,
      TPARAM_alternate = 0,
      TPARAM_change_y = 0,
      TPARAM_orbit_num = 0,
      TPARAM_switch_mo = 0,
      TPARAM_control_a = 0,
      TPARAM_control_b = 0,
      TPARAM_control_p = 0,
      TPARAM_L_1 = 0,
      TPARAM_servo_neutral = 0,
      TPARAM_v_a = 0,
      TPARAM_k_prop_const = 0,
      TPARAM_Flight_Plan = 0,
      TPARAM_Fx1 = 0,
      TPARAM_Fx2 = 0,
      TPARAM_Fx3 = 0,
      TPARAM_Fchi1_1 = 0,
      TPARAM_Fchi1_2 = 0,
      TPARAM_Fchi1_3 = 0,
      TPARAM_Fchi2_1 = 0,
      TPARAM_Fchi2_2 = 0,
      TPARAM_Fchi2_3 = 0,
      TPARAM_Fchi3_1 = 0,
      TPARAM_Fchi3_2 = 0,
      TPARAM_Fchi3_3 = 0,
      TPARAM_Fchi4_1 = 0,
      TPARAM_Fchi4_2 = 0,
      TPARAM_Fchi4_3 = 0,
      TPARAM_v_g_min = 0,
      TPARAM_v_g_max = 0,
      TPARAM_kappa_max = 0,
      TPARAM_kappa_min = 0,
      TPARAM_u_x_max = 0,
      TPARAM_chiF_max_deg = 0,
      TPARAM_Path_Origin_lat = 0,
      TPARAM_Path_Origin_lng = 0,
      TPARAM_r = 0,
      TPARAM_dzeta = 0\<rparr>"

text \<open>A control cycle at time 0, with every reading 0 and geodesy helpers that return 0.\<close>

definition env0 :: env where
  "env0 =
     \<lparr>g = params0,
      micros64 = 0,
      current_loc = \<lparr>lat = 0, lng = 0, alt = 0\<rparr>,
      prev_WP_loc = \<lparr>lat = 0, lng = 0, alt = 0\<rparr>,
      next_WP_loc = \<lparr>lat = 0, lng = 0, alt = 0\<rparr>,
      ahrs_pitch = 0,
      ahrs_yaw = 0,
      ahrs_yaw_sensor = 0,
      ahrs_gyro_y = 0,
      gps_velocity_z = 0,
      gps_ground_course_cd = 0,
      gps_ground_course = 0,
      gps_ground_speed = 0,
      mission_current_nav_index = 0,
      get_distance = (\<lambda>a b. 0),
      get_bearing_cd = (\<lambda>a b. 0),
      location_diff = (\<lambda>a b. (0, 0))\<rparr>"

text \<open>A state of the vehicle with every member 0, false or empty; the concrete states
  used below are updates of it.\<close>

definition plane0 :: plane where
  "plane0 =
     \<lparr>z = 0,
      z_r = 0,
      firsttime_Th = False,
      z_old = 0,
      pitch_old = 0,
      dz = 0,
      err_count = 0,
      prev_time_Th = 0,
      past_time_Th = 0,
      d1_Th = 0,
      d2_Th = 0,
      kp_Th = (\<lambda>i. 0),
      kd_Th = (\<lambda>i. 0),
      motor_neutral = 0,
      dz_f = 0,
      d_pitch = 0,
      speed_pitch = 0,
      e_m = 0,
      de_m = 0,
      gps_dh = 0,
      gps_dpitch = 0,
      motor_Th_N = 0,
      F1 = 0,
      F2 = 0,
      F3 = 0,
      F4 = 0,
      h_0 = 0,
      h_1 = 0,
      h_2 = 0,
      h_3 = 0,
      h_4 = 0,
      h_5 = 0,
      h_6 = 0,
      h_7 = 0,
      motor_per = 0,
      airpower = 0,
      kk = 0,
      value1 = 0,
      value2 = 0,
      TLAB_CMD_index = 0,
      steering_control_rudder = 0,
      init_TLAB_Controller_flag = False,
      Target_Circle_Center = \<lparr>lat = 0, lng = 0, alt = 0\<rparr>,
      TLAB_Control_flag = 0,
      calc_GCRS_flag = 0,
      const_k = 0,
      v_a = 0,
      Vg_min = 0,
      Vg_max = 0,
      alpha_min = 0,
      alpha_max = 0,
      r_min = 0,
      target_R = 0,
      U_min = 0,
      U_max = 0,
      use_fuzzy_controller = False,
      rule_num = 0,
      phi_max = 0,
      F_fuzzy = (\<lambda>i j. 0),
      Combine_Mode_flag = False,
      TLAB_WP_nav_flag = False,
      alternate_orbit_flag = False,
      change_to_circle_flag = False,
      change_y = 0,
      orbit_num = 0,
      init_TLAB_Controller_AUTO_flag = False,
      prev_POS = \<lparr>lat = 0, lng = 0, alt = 0\<rparr>,
      mid_POS = \<lparr>lat = 0, lng = 0, alt = 0\<rparr>,
      theta = 0,
      prev_theta = 0,
      Int_theta = 0,
      chi = 0,
      h_mem = (\<lambda>i. 0),
      v_g = 0,
      Dist_currWP2UAV = 0,
      rad_prevWP2UAV = 0,
      rad_prevWP2currWP = 0,
      state_UAV_x = 0,
      state_UAV_y = 0,
      state_UAV_phi = 0,
      state_UAV_GCRS = 0,
      Vg_limited = 0,
      u_star = 0,
      alpha = 0,
      L_conv = 0,
      sinc_kai = 0,
      det_a = 0,
      det_b = 0,
      det_p = 0,
      L_1 = 0,
      eta = 0,
      u = 0,
      servo = 0,
      arg_r = 0,
      diff_theta = 0,
      chi_r = 0,
      e_r = 0,
      e_chi = 0,
      phi = 0,
      r_limited = 0,
      yet_init = False,
      k_prop_const = 0,
      Path_Origin = \<lparr>lat = 0, lng = 0, alt = 0\<rparr>,
      Flight_Plan = 0,
      Fx = (\<lambda>i. 0),
      Fchi = (\<lambda>i j. 0),
      v_g_min = 0,
      v_g_max = 0,
      kappa_max = 0,
      kappa_min = 0,
      u_x_max = 0,
      chiF_max = 0,
      z1_max = 0,
      z1_min = 0,
      z2_max = 0,
      z2_min = 0,
      Path_Mode = 0,
      s = 0,
      zeta = 0,
      P0 = (0, 0),
      P1 = (0, 0),
      dist_WPs = 0,
      i_now_CMD = 0,
      u_x = 0,
      t_now = 0,
      change_path_flag = False,
      dot_zeta = 0,
      dt = 0,
      x_d = 0,
      y_d = 0,
      chi_d = 0,
      dot_chi_d = 0,
      kappa = 0,
      s_calc = 0,
      i_zeta = 0,
      xI = 0,
      yI = 0,
      psi = 0,
      xF = 0,
      yF = 0,
      chiF = 0,
      u_x_calc = 0,
      K1 = 0,
      K2 = 0,
      M1 = 0,
      M2 = 0,
      h_chi = (\<lambda>i. 0),
      u_chi = 0,
      ds = 0,
      d_angle = 0,
      bar_angle = 0,
      gcs_messages = []\<rparr>"

text \<open>The collection of the facts on what a function leaves unchanged.\<close>

named_theorems frame

section \<open>Properties\<close>

subsection \<open>Arithmetic used below\<close>

lemma upt_0_2: "[0 ..< 2] = [0, Suc 0]"
  by (simp add: numeral_2_eq_2)

lemma quad_lower: "0.1059 * v * v - 0.3342 * v + 1.6227 > (1.3 :: real)"
proof -
  have "0.1059 * v * v - 0.3342 * v + 1.6227 - 1.3
        = 0.1059 * (v - 1671 / 1059)\<^sup>2 + (0.3227 - 0.1059 * (1671 / 1059)\<^sup>2)"
    by (simp add: power2_eq_square algebra_simps)
  moreover have "0.1059 * (v - 1671 / 1059)\<^sup>2 \<ge> 0" by simp
  moreover have "(0.3227 - 0.1059 * (1671 / 1059)\<^sup>2) > (0::real)"
    by (simp add: power2_eq_square)
  ultimately show ?thesis by linarith
qed

lemma div_by_cos_grows:
  fixes q c :: real
  assumes "0 < c" "c \<le> 1" "0 \<le> q"
  shows "q \<le> q / c"
  using assms by (simp add: pos_le_divide_eq mult_left_le)

lemma neutral_radicand:
  fixes a c n T :: real
  assumes "T \<noteq> 0" "a > 0" "c > 0"
  shows "(T - c * (T / (a * n * n + c))) / (a * (T / (a * n * n + c))) = n * n"
proof -
  define d where "d = a * n * n + c"
  have "0 \<le> a * (n * n)" using assms by simp
  then have d: "d > 0" using assms by (simp add: d_def mult.assoc add_nonneg_pos)
  have num: "T - c * (T / d) = T * (a * n * n) / d"
    using d by (simp add: d_def field_simps)
  have "T * (a * n * n) / d / (a * (T / d)) = n * n"
    using d assms by (simp add: field_simps)
  then have "(T - c * (T / d)) / (a * (T / d)) = n * n" by (simp only: num)
  then show ?thesis by (simp only: d_def)
qed

subsection \<open>Single-precision rounding\<close>

text \<open>The rounded integer is at most one half away, and it is the integer \<open>m\<close> when the
  number is less than one half away from \<open>m\<close>, or exactly half way above an even \<open>m\<close>.\<close>

lemma rne_near: "\<bar>of_int (rne y) - y\<bar> \<le> 1 / 2"
  unfolding rne_def Let_def by (auto; linarith)

lemma rne_eq:
  assumes "of_int m - 1 / 2 < y" "y < of_int m + 1 / 2"
  shows "rne y = m"
proof -
  have "\<lfloor>y\<rfloor> = m \<or> \<lfloor>y\<rfloor> = m - 1" using assms by linarith
  then show ?thesis
  proof
    assume f: "\<lfloor>y\<rfloor> = m"
    then show ?thesis using assms by (simp add: rne_def Let_def)
  next
    assume f: "\<lfloor>y\<rfloor> = m - 1"
    then have "1 / 2 < y - of_int (m - 1)" using assms by simp
    then show ?thesis using f by (simp add: rne_def Let_def)
  qed
qed

lemma rne_tie:
  assumes "y = of_int m + 1 / 2" "even m"
  shows "rne y = m"
proof -
  have "\<lfloor>y\<rfloor> = m" using assms(1) by linarith
  then show ?thesis using assms by (simp add: rne_def Let_def)
qed

lemma two_powr_int: "(2::real) powr real_of_int n = 2 powi n"
  by (simp add: powr_real_of_int')

lemma floor_log2_iff:
  "0 < x \<Longrightarrow> (\<lfloor>log 2 x\<rfloor> = k) = (2 powi k \<le> x \<and> x < 2 powi (k + 1))"
  using floor_log_eq_powr_iff [of x 2 k] by (simp only: two_powr_int)

lemma float32_value:
  assumes "2 powi k \<le> \<bar>x\<bar>" "\<bar>x\<bar> < 2 powi (k + 1)"
    and "of_int m - 1 / 2 < x / 2 powi (k - 23)" "x / 2 powi (k - 23) < of_int m + 1 / 2"
  shows "float32 x = of_int m * 2 powi (k - 23)"
proof -
  have p: "0 < \<bar>x\<bar>" using assms(1) zero_less_power_int [of "2::real" k] by linarith
  then have "\<lfloor>log 2 \<bar>x\<bar>\<rfloor> = k" using assms(1,2) by (simp only: floor_log2_iff)
  then show ?thesis using p rne_eq [OF assms(3,4)] by (simp add: float32_def Let_def)
qed

lemma float32_tie:
  assumes "2 powi k \<le> \<bar>x\<bar>" "\<bar>x\<bar> < 2 powi (k + 1)"
    and "x / 2 powi (k - 23) = of_int m + 1 / 2" "even m"
  shows "float32 x = of_int m * 2 powi (k - 23)"
proof -
  have p: "0 < \<bar>x\<bar>" using assms(1) zero_less_power_int [of "2::real" k] by linarith
  then have "\<lfloor>log 2 \<bar>x\<bar>\<rfloor> = k" using assms(1,2) by (simp only: floor_log2_iff)
  then show ?thesis using p rne_tie [OF assms(3,4)] by (simp add: float32_def Let_def)
qed

lemma float32_error: "\<bar>float32 x - x\<bar> \<le> \<bar>x\<bar> / 2 ^ 24"
proof (cases "x = 0")
  case True then show ?thesis by (simp add: float32_def)
next
  case False
  define k where "k = \<lfloor>log 2 \<bar>x\<bar>\<rfloor>"
  define u :: real where "u = 2 powi (k - 23)"
  have u: "0 < u" by (simp add: u_def)
  have p: "0 < \<bar>x\<bar>" using False by simp
  have lo: "2 powi k \<le> \<bar>x\<bar>" using floor_log2_iff [OF p, of k] by (simp add: k_def)
  have f: "float32 x = of_int (rne (x / u)) * u"
    using False by (simp add: float32_def Let_def u_def k_def)
  have "float32 x - x = (of_int (rne (x / u)) - x / u) * u"
    using u by (simp add: f left_diff_distrib)
  then have "\<bar>float32 x - x\<bar> = \<bar>of_int (rne (x / u)) - x / u\<bar> * u"
    using u by (simp add: abs_mult)
  also have "\<dots> \<le> 1 / 2 * u" using u rne_near [of "x / u"] by (intro mult_right_mono) simp_all
  also have "1 / 2 * u = 2 powi k / 2 ^ 24"
    by (simp add: u_def power_int_diff)
  also have "\<dots> \<le> \<bar>x\<bar> / 2 ^ 24" using lo by (simp add: divide_right_mono)
  finally show ?thesis .
qed

text \<open>An integer of at most 24 bits is a float.\<close>

lemma float32_of_int:
  assumes "\<bar>k\<bar> \<le> 2 ^ 24"
  shows "float32 (of_int k) = of_int k"
proof (cases "k = 0")
  case True then show ?thesis by (simp add: float32_def)
next
  case False
  define x :: real where "x = of_int k"
  define ex where "ex = \<lfloor>log 2 \<bar>x\<bar>\<rfloor>"
  have x1: "1 \<le> \<bar>x\<bar>" using False by (simp add: x_def)
  have x2: "\<bar>x\<bar> \<le> 2 ^ 24" using assms unfolding x_def
    by (metis of_int_abs of_int_le_numeral_power_cancel_iff)
  have p: "0 < \<bar>x\<bar>" using x1 by linarith
  have b: "2 powi ex \<le> \<bar>x\<bar>" "\<bar>x\<bar> < 2 powi (ex + 1)"
    using floor_log2_iff [OF p, of ex] by (simp_all add: ex_def)
  have e0: "0 \<le> ex" unfolding ex_def using x1 by simp
  have e24: "ex \<le> 24"
  proof (rule ccontr)
    assume "\<not> ex \<le> 24"
    then have "25 \<le> ex" by simp
    then have "(2::real) powi 25 \<le> 2 powi ex" by (intro power_int_increasing) simp_all
    with b(1) x2 show False by simp
  qed
  define j where "j = (if ex \<le> 23 then k * 2 ^ nat (23 - ex) else k div 2)"
  have q: "x / 2 powi (ex - 23) = of_int j"
  proof (cases "ex \<le> 23")
    case True
    have "(2::real) powi (ex - 23) = 1 / 2 ^ nat (23 - ex)"
      using True by (simp add: power_int_def divide_simps)
    then show ?thesis using True by (simp add: j_def x_def)
  next
    case False
    then have e: "ex = 24" using e24 by simp
    then have "\<bar>x\<bar> = 2 ^ 24" using b(1) x2 by simp
    then have "\<bar>k\<bar> = 2 ^ 24" unfolding x_def
      by (metis of_int_abs of_int_eq_numeral_power_cancel_iff)
    then have "even k" by (cases "0 \<le> k") (simp_all add: abs_if, presburger+)
    then have "real_of_int (k div 2) = x / 2" by (simp add: x_def real_of_int_div)
    then show ?thesis by (simp add: j_def e)
  qed
  have "rne (of_int j) = j" by (rule rne_eq) simp_all
  then have "float32 x = of_int j * 2 powi (ex - 23)"
    using p by (simp add: float32_def Let_def ex_def [symmetric] q)
  also have "\<dots> = x" using q by (simp add: field_simps)
  finally show ?thesis by (simp add: x_def)
qed

text \<open>The relative error of one rounding is at most \<open>2 ^ -24\<close>, which is less than
  \<open>10 ^ -7\<close>.\<close>

lemma float32_near:
  assumes "0 \<le> x"
  shows "rel_near (1 / 10 ^ 7) (float32 x) x"
proof -
  have "\<bar>float32 x - x\<bar> \<le> x / 2 ^ 24" using float32_error [of x] assms by simp
  moreover have "x / 2 ^ 24 \<le> x * (1 / 10 ^ 7)" using assms by simp
  ultimately have "\<bar>float32 x - x\<bar> \<le> x * (1 / 10 ^ 7)" by linarith
  then have "x - x * (1 / 10 ^ 7) \<le> float32 x" "float32 x \<le> x + x * (1 / 10 ^ 7)"
    by linarith+
  then show ?thesis unfolding rel_near_def by (simp add: algebra_simps)
qed

lemma rel_near_pos: "rel_near d x y \<Longrightarrow> 0 < y \<Longrightarrow> d < 1 \<Longrightarrow> 0 < x"
  unfolding rel_near_def
  by (smt (verit) mult_pos_pos)

lemma rel_near_round:
  assumes "rel_near d x y" "0 < y" "0 \<le> d" "d \<le> 1 / 1000"
  shows "rel_near (d + 2 / 10 ^ 7) (float32 x) y"
proof -
  have x: "0 < x" using assms by (intro rel_near_pos [OF assms(1)]) simp_all
  have f: "x * (1 - 1 / 10 ^ 7) \<le> float32 x" "float32 x \<le> x * (1 + 1 / 10 ^ 7)"
    using float32_near [of x] x by (simp_all add: rel_near_def)
  have xl: "y * (1 - d) \<le> x" and xu: "x \<le> y * (1 + d)"
    using assms(1) by (simp_all add: rel_near_def)
  have "y * (1 - d) * (1 - 1 / 10 ^ 7) \<le> x * (1 - 1 / 10 ^ 7)"
    using xl by (intro mult_right_mono) simp_all
  moreover have "y * (1 - (d + 2 / 10 ^ 7)) \<le> y * (1 - d) * (1 - 1 / 10 ^ 7)"
  proof -
    have "(1 - (d + 2 / 10 ^ 7)) \<le> (1 - d) * (1 - 1 / 10 ^ 7)"
      using assms(3,4) by (simp add: algebra_simps)
    then have "y * (1 - (d + 2 / 10 ^ 7)) \<le> y * ((1 - d) * (1 - 1 / 10 ^ 7))"
      using assms(2) by (intro mult_left_mono) simp_all
    then show ?thesis by (simp add: mult.assoc)
  qed
  moreover have "x * (1 + 1 / 10 ^ 7) \<le> y * (1 + d) * (1 + 1 / 10 ^ 7)"
    using xu by (intro mult_right_mono) simp_all
  moreover have "y * (1 + d) * (1 + 1 / 10 ^ 7) \<le> y * (1 + (d + 2 / 10 ^ 7))"
  proof -
    have "(1 + d) * (1 + 1 / 10 ^ 7) \<le> (1 + (d + 2 / 10 ^ 7))"
      using assms(3,4) by (simp add: algebra_simps)
    then have "y * ((1 + d) * (1 + 1 / 10 ^ 7)) \<le> y * (1 + (d + 2 / 10 ^ 7))"
      using assms(2) by (intro mult_left_mono) simp_all
    then show ?thesis by (simp add: mult.assoc)
  qed
  ultimately show ?thesis using f unfolding rel_near_def by linarith
qed

lemma rel_near_mult: "rel_near d x y \<Longrightarrow> 0 \<le> n \<Longrightarrow> rel_near d (x * n) (y * n)"
  unfolding rel_near_def
  by (metis mult.assoc mult.commute mult_left_mono)

lemma rel_near_mult_left: "rel_near d x y \<Longrightarrow> 0 \<le> n \<Longrightarrow> rel_near d (n * x) (n * y)"
  using rel_near_mult [of d x y n] by (simp add: mult.commute)

lemma rel_near_add:
  assumes "rel_near d x y" "0 \<le> c" "0 \<le> d"
  shows "rel_near d (x + c) (y + c)"
proof -
  have "c * (1 - d) \<le> c" "c \<le> c * (1 + d)"
    using assms(2,3) by (simp_all add: algebra_simps)
  then show ?thesis using assms(1) unfolding rel_near_def by (simp add: algebra_simps)
qed

lemma rel_near_quot:
  assumes "rel_near d1 x x'" "rel_near d2 y y'" "0 < x'" "0 < y'" "0 \<le> d1" "d1 < 1"
    "0 \<le> d2" "d2 < 1"
    and up: "1 + d1 \<le> (1 - d2) * (1 + d')" and lo: "(1 - d') * (1 + d2) \<le> 1 - d1"
  shows "rel_near d' (x / y) (x' / y')"
proof -
  have x: "0 < x" using assms by (intro rel_near_pos [OF assms(1)])
  have y: "0 < y" using assms by (intro rel_near_pos [OF assms(2)])
  have xl: "x' * (1 - d1) \<le> x" and xu: "x \<le> x' * (1 + d1)"
    using assms(1) by (simp_all add: rel_near_def)
  have yl: "y' * (1 - d2) \<le> y" and yu: "y \<le> y' * (1 + d2)"
    using assms(2) by (simp_all add: rel_near_def)
  have "x' / y' * (1 - d') * y \<le> x' / y' * (1 - d') * (y' * (1 + d2))" if "0 \<le> 1 - d'"
    using yu that assms(3,4) by (intro mult_left_mono) simp_all
  have A: "x' * (1 - d') * y \<le> x * y'"
  proof (cases "0 \<le> 1 - d'")
    case True
    have "x' * (1 - d') * y \<le> x' * (1 - d') * (y' * (1 + d2))"
      using yu True assms(3) by (intro mult_left_mono) simp_all
    also have "\<dots> = (x' * y') * ((1 - d') * (1 + d2))" by (simp add: algebra_simps)
    also have "\<dots> \<le> (x' * y') * (1 - d1)"
      using lo assms(3,4) by (intro mult_left_mono) simp_all
    also have "\<dots> = (x' * (1 - d1)) * y'" by (simp add: algebra_simps)
    also have "\<dots> \<le> x * y'" using xl assms(4) by (intro mult_right_mono) simp_all
    finally show ?thesis .
  next
    case False
    then have "x' * (1 - d') * y \<le> 0"
      using assms(3) y by (simp add: mult_le_0_iff zero_le_mult_iff)
    moreover have "0 \<le> x * y'" using x assms(4) by simp
    ultimately show ?thesis by linarith
  qed
  have B: "x * y' \<le> x' * (1 + d') * y"
  proof -
    have "x * y' \<le> (x' * (1 + d1)) * y'" using xu assms(4) by (intro mult_right_mono) simp_all
    also have "\<dots> = (x' * y') * (1 + d1)" by (simp add: algebra_simps)
    also have "\<dots> \<le> (x' * y') * ((1 - d2) * (1 + d'))"
      using up assms(3,4) by (intro mult_left_mono) simp_all
    also have "\<dots> = (x' * (1 + d')) * (y' * (1 - d2))" by (simp add: algebra_simps)
    also have "\<dots> \<le> (x' * (1 + d')) * y"
    proof -
      have "0 \<le> 1 + d'"
      proof (rule ccontr)
        assume "\<not> 0 \<le> 1 + d'"
        then have "(1 - d2) * (1 + d') \<le> 0" using assms(8) by (simp add: mult_le_0_iff)
        with up assms(5) show False by linarith
      qed
      then show ?thesis using yl assms(3) by (intro mult_left_mono) simp_all
    qed
    finally show ?thesis .
  qed
  show ?thesis
    unfolding rel_near_def
    using A B y assms(4) by (simp add: field_simps)
qed

lemma rel_near_diff:
  assumes "rel_near d x y" "0 \<le> y" "0 \<le> d" "0 \<le> rho" "y \<le> rho * (T - y)"
  shows "rel_near (rho * d) (T - x) (T - y)"
proof -
  have xl: "y * (1 - d) \<le> x" and xu: "x \<le> y * (1 + d)"
    using assms(1) by (simp_all add: rel_near_def)
  have "y * d \<le> rho * (T - y) * d" using assms by (intro mult_right_mono) simp_all
  then show ?thesis using xl xu unfolding rel_near_def by (simp add: algebra_simps)
qed

lemma rel_near_sqrt:
  assumes "rel_near d x y" "0 \<le> y" "0 \<le> d" "d \<le> 1"
  shows "rel_near d (sqrt x) (sqrt y)"
proof -
  have xl: "y * (1 - d) \<le> x" and xu: "x \<le> y * (1 + d)"
    using assms(1) by (simp_all add: rel_near_def)
  have s1: "1 - d \<le> sqrt (1 - d)"
  proof -
    have "d * d \<le> d * 1" using assms(3,4) by (intro mult_left_mono) simp_all
    then have "(1 - d)\<^sup>2 \<le> 1 - d" by (simp add: power2_eq_square algebra_simps)
    then show ?thesis using assms(4) by (intro real_le_rsqrt)
  qed
  have s2: "sqrt (1 + d) \<le> 1 + d"
  proof -
    have "1 + d \<le> (1 + d)\<^sup>2" using assms(3) by (simp add: power2_eq_square algebra_simps)
    then show ?thesis using assms(3) by (intro real_le_lsqrt) simp_all
  qed
  have "sqrt y * (1 - d) \<le> sqrt y * sqrt (1 - d)" using s1 assms(2) by (intro mult_left_mono) simp_all
  also have "\<dots> = sqrt (y * (1 - d))" by (simp add: real_sqrt_mult)
  also have "\<dots> \<le> sqrt x" using xl by simp
  finally have l: "sqrt y * (1 - d) \<le> sqrt x" .
  have "sqrt x \<le> sqrt (y * (1 + d))" using xu by simp
  also have "\<dots> = sqrt y * sqrt (1 + d)" by (simp add: real_sqrt_mult)
  also have "\<dots> \<le> sqrt y * (1 + d)" using s2 assms(2) by (intro mult_left_mono) simp_all
  finally have u: "sqrt x \<le> sqrt y * (1 + d)" .
  show ?thesis unfolding rel_near_def using l u by simp
qed

subsection \<open>Thrust inversion\<close>

lemma equilibrium_thrust_lower:
  assumes "0 < cos (TPARAM_theta_a p * pi / 180)"
  shows "1.3 < equilibrium_thrust p"
proof -
  define c where "c = cos (TPARAM_theta_a p * pi / 180)"
  define q where "q = 0.1059 * TPARAM_V_a p * TPARAM_V_a p - 0.3342 * TPARAM_V_a p + 1.6227"
  have q: "1.3 < q" unfolding q_def by (rule quad_lower)
  have c: "0 < c" "c \<le> 1" using assms by (simp_all add: c_def)
  have le: "q \<le> q / c" using c q by (intro div_by_cos_grows) simp_all
  have eq: "equilibrium_thrust p = q / c"
    by (simp add: equilibrium_thrust_def c_def q_def)
  from q le have "1.3 < q / c" by linarith
  then show ?thesis by (simp only: eq)
qed

text \<open>The root that is truncated at the equilibrium thrust \<open>A\<close>, against the neutral
  value \<open>n\<close>. In exact arithmetic the radicand \<open>(A - c * kk) / (a * kk)\<close> with
  \<open>kk = A / (a * n * n + c)\<close> is \<open>n * n\<close>. Each rounding adds a relative error of at most
  \<open>2 * 10 ^ -7\<close>, and the difference \<open>A - c * kk\<close> multiplies the error of \<open>c * kk\<close> by
  \<open>c / (a * n * n)\<close>, which is at most 31 for \<open>n \<ge> 1\<close>. The bound holds for every positive
  \<open>A\<close>: it does not depend on how the equilibrium thrust itself has been rounded.\<close>

lemma rel_near_exact: "rel_near 0 x x"
  by (simp add: rel_near_def)

lemma inversion_near:
  fixes a c n A :: real
  assumes a: "0 < a" and c: "0 < c" and ca: "c \<le> 31 * a" and n: "1 \<le> n" and A: "0 < A"
  shows "rel_near (1 / 25000)
           (float32 (sqrt (float32 (float32 (A - float32 (c * float32 (A / float32 (float32 (float32 (a * n) * n) + c))))
                        / float32 (a * float32 (A / float32 (float32 (float32 (a * n) * n) + c)))))))
           n"
proof -
  define D0 where "D0 = a * n * n + c"
  define D where "D = float32 (float32 (float32 (a * n) * n) + c)"
  define k where "k = float32 (A / D)"
  have an: "0 < a * n" using a n by simp
  have ann: "0 < a * n * n" using an n by simp
  have D0: "0 < D0" using ann c by (simp add: D0_def)
  have q: "0 < A / D0" using A D0 by simp
  have t1: "rel_near (1 / 10 ^ 7) (float32 (a * n)) (a * n)"
    using an by (intro float32_near) simp
  have "rel_near (1 / 10 ^ 7) (float32 (a * n) * n) (a * n * n)"
    using t1 n by (intro rel_near_mult) simp_all
  from rel_near_round [OF this ann]
  have t2: "rel_near (3 / 10 ^ 7) (float32 (float32 (a * n) * n)) (a * n * n)" by simp
  have "rel_near (3 / 10 ^ 7) (float32 (float32 (a * n) * n) + c) D0"
    unfolding D0_def using t2 c by (intro rel_near_add) simp_all
  from rel_near_round [OF this D0]
  have D: "rel_near (5 / 10 ^ 7) D D0" by (simp add: D_def)
  have "rel_near (6 / 10 ^ 7) (A / D) (A / D0)"
    using A D0 by (intro rel_near_quot [OF rel_near_exact D]) simp_all
  from rel_near_round [OF this q]
  have k: "rel_near (8 / 10 ^ 7) k (A / D0)" by (simp add: k_def)
  have ck0: "0 < c * (A / D0)" using c q by (rule mult_pos_pos)
  have ak0: "0 < a * (A / D0)" using a q by (rule mult_pos_pos)
  have "rel_near (8 / 10 ^ 7) (c * k) (c * (A / D0))"
    using k c by (intro rel_near_mult_left) simp_all
  from rel_near_round [OF this ck0]
  have ck: "rel_near (10 / 10 ^ 7) (float32 (c * k)) (c * (A / D0))" by simp
  have "rel_near (8 / 10 ^ 7) (a * k) (a * (A / D0))"
    using k a by (intro rel_near_mult_left) simp_all
  from rel_near_round [OF this ak0]
  have den: "rel_near (10 / 10 ^ 7) (float32 (a * k)) (a * (A / D0))" by simp
  have E: "A - c * (A / D0) = A * (a * n * n) / D0"
    using D0 by (simp add: D0_def field_simps)
  have E0: "0 < A - c * (A / D0)" unfolding E using A ann D0 by simp
  have "c * 1 \<le> 31 * a * (n * n)"
  proof -
    have "1 * 1 \<le> n * n" using n by (intro mult_mono) simp_all
    then have "31 * a * 1 \<le> 31 * a * (n * n)" using a by (intro mult_left_mono) simp_all
    then show ?thesis using ca by simp
  qed
  then have "c * A \<le> 31 * (A * (a * n * n))"
    using A by (simp add: mult.assoc mult.left_commute mult_le_cancel_left_pos)
  then have rho: "c * (A / D0) \<le> 31 * (A - c * (A / D0))"
    unfolding E using D0 by (simp add: divide_le_cancel)
  have "rel_near (31 * (10 / 10 ^ 7)) (A - float32 (c * k)) (A - c * (A / D0))"
    using ck0 rho by (intro rel_near_diff [OF ck]) simp_all
  from rel_near_round [OF this E0]
  have num: "rel_near (312 / 10 ^ 7) (float32 (A - float32 (c * k))) (A - c * (A / D0))" by simp
  have R: "(A - c * (A / D0)) / (a * (A / D0)) = n * n"
    unfolding D0_def using A a c by (intro neutral_radicand) simp_all
  have nn: "0 < n * n" using n by simp
  have "rel_near (330 / 10 ^ 7) (float32 (A - float32 (c * k)) / float32 (a * k))
          ((A - c * (A / D0)) / (a * (A / D0)))"
    using E0 ak0 by (intro rel_near_quot [OF num den]) simp_all
  then have "rel_near (330 / 10 ^ 7) (float32 (A - float32 (c * k)) / float32 (a * k)) (n * n)"
    by (simp only: R)
  from rel_near_round [OF this nn]
  have rad: "rel_near (332 / 10 ^ 7) (float32 (float32 (A - float32 (c * k)) / float32 (a * k))) (n * n)"
    by simp
  have sq: "sqrt (n * n) = n" using n by simp
  have n0: "0 < n" using n by simp
  have "rel_near (332 / 10 ^ 7)
          (sqrt (float32 (float32 (A - float32 (c * k)) / float32 (a * k)))) (sqrt (n * n))"
    using nn by (intro rel_near_sqrt [OF rad]) simp_all
  then have "rel_near (332 / 10 ^ 7)
          (sqrt (float32 (float32 (A - float32 (c * k)) / float32 (a * k)))) n"
    by (simp only: sq)
  from rel_near_round [OF this n0]
  have "rel_near (334 / 10 ^ 7)
          (float32 (sqrt (float32 (float32 (A - float32 (c * k)) / float32 (a * k))))) n"
    by simp
  then have "rel_near (1 / 25000)
          (float32 (sqrt (float32 (float32 (A - float32 (c * k)) / float32 (a * k))))) n"
    using n0 unfolding rel_near_def by (simp add: algebra_simps)
  then show ?thesis by (simp only: k_def D_def)
qed

text \<open>The single-precision values of one call: the neutral value 50, no trim angle, no
  airspeed, at the equilibrium thrust. The radicand is \<open>2499.99976\<close>, its root
  \<open>49.999996\<close>.\<close>

lemma a_val: "float32 0.002287471638222 = 1228077 / 536870912"
  by (rule float32_value [where k = "- 9" and m = 9824616, THEN trans]) simp_all

lemma c_val: "float32 0.069756864241495 = 585163 / 8388608"
  by (rule float32_value [where k = "- 4" and m = 9362608, THEN trans]) simp_all

lemma A_val: "float32 (16227 / 10000) = 6806097 / 4194304"
  by (rule float32_value [where k = 0 and m = 13612194, THEN trans]) simp_all

lemma t1_val: "float32 (1228077 / 536870912 * 50) = 7675481 / 67108864"
  by (rule float32_tie [where k = "- 4" and m = 15350962, THEN trans]) simp_all

lemma t2_val: "float32 (7675481 / 67108864 * 50) = 11992939 / 2097152"
  by (rule float32_value [where k = 2 and m = 11992939, THEN trans]) simp_all

lemma D_val: "float32 (11992939 / 2097152 + 585163 / 8388608) = 6069615 / 1048576"
  by (rule float32_value [where k = 2 and m = 12139230, THEN trans]) simp_all

lemma kk_val: "float32 (6806097 / 4194304 / (6069615 / 1048576)) = 9406475 / 33554432"
  by (rule float32_value [where k = "- 2" and m = 9406475, THEN trans]) simp_all

lemma ck_val: "float32 (585163 / 8388608 * (9406475 / 33554432)) = 10498659 / 536870912"
  by (rule float32_value [where k = "- 6" and m = 10498659, THEN trans]) simp_all

lemma num_val: "float32 (6806097 / 4194304 - 10498659 / 536870912) = 1681019 / 1048576"
  by (rule float32_value [where k = 0 and m = 13448152, THEN trans]) simp_all

lemma den_val: "float32 (1228077 / 536870912 * (9406475 / 33554432)) = 11016727 / 17179869184"
  by (rule float32_value [where k = "- 11" and m = 11016727, THEN trans]) simp_all

lemma rad_val: "float32 (1681019 / 1048576 / (11016727 / 17179869184)) = 10239999 / 4096"
  by (rule float32_value [where k = 11 and m = 10239999, THEN trans]) simp_all

lemma root_val: "float32 (sqrt (10239999 / 4096)) = 13107199 / 262144"
proof -
  have lo: "(13107199 / 262144 - 1 / 524288)\<^sup>2 < (10239999 / 4096 :: real)"
    by (simp add: power2_eq_square)
  have hi: "(10239999 / 4096 :: real) < (13107199 / 262144 + 1 / 524288)\<^sup>2"
    by (simp add: power2_eq_square)
  have l: "13107199 / 262144 - 1 / 524288 < sqrt (10239999 / 4096)"
    using lo by (intro real_less_rsqrt)
  have h: "sqrt (10239999 / 4096) < 13107199 / 262144 + 1 / 524288"
    using hi by (intro real_less_lsqrt) simp_all
  show ?thesis
    using l h by (intro float32_value [where k = 5 and m = 13107199, THEN trans]) simp_all
qed

lemma neutral_50:
  "fst (thrust_to_percent (env0\<lparr>g := params0\<lparr>TPARAM_neutral_t := 50, TPARAM_MAX_slo := mx\<rparr>\<rparr>)
          (float32 (equilibrium_thrust params0)) plane0)
     = float32 (of_int (constrain_int32 49 0 mx))"
proof -
  define p where "p = params0\<lparr>TPARAM_neutral_t := 50, TPARAM_MAX_slo := mx\<rparr>"
  have g: "g (env0\<lparr>g := p\<rparr>) = p" by simp
  have n: "TPARAM_neutral_t p = 50" and m: "TPARAM_MAX_slo p = mx" by (simp_all add: p_def)
  have eq: "equilibrium_thrust p = 16227 / 10000" "equilibrium_thrust params0 = 16227 / 10000"
    by (simp_all add: equilibrium_thrust_def p_def params0_def)
  have fl: "float_to_int32 (13107199 / 262144) = 49"
    by (simp add: float_to_int32_def)
  have cut: "\<not> (6806097 / 4194304 :: real) < 0.3256" by simp
  show ?thesis
    unfolding thrust_to_percent_def Let_def p_def [symmetric]
    by (simp only: g n m eq a_val c_val A_val t1_val t2_val D_val kk_val ck_val
          num_val den_val rad_val root_val fl cut if_False fst_conv)
qed

lemma float32_consts:
  "0 < float32 0.002287471638222" "0 < float32 0.069756864241495"
  "float32 0.069756864241495 \<le> 31 * float32 0.002287471638222"
  unfolding a_val c_val by simp_all

lemma trim_cos_pos:
  assumes "\<bar>t\<bar> \<le> (89 :: real)"
  shows "0 < cos (t * pi / 180)"
proof -
  have "\<bar>t * pi / 180\<bar> = \<bar>t\<bar> * (pi / 180)" by (simp add: abs_mult)
  also have "\<dots> \<le> 89 * (pi / 180)" using assms by (intro mult_right_mono) simp_all
  also have "\<dots> < pi / 2" using pi_gt_zero by simp
  finally have "\<bar>t * pi / 180\<bar> < pi / 2" .
  then show ?thesis by (intro cos_gt_zero_pi) linarith+
qed

lemma airpower_lower:
  assumes "0 < cos (TPARAM_theta_a p * pi / 180)"
  shows "1 < float32 (equilibrium_thrust p)"
proof -
  have T: "1.3 < equilibrium_thrust p" using assms by (rule equilibrium_thrust_lower)
  then have "rel_near (1 / 10 ^ 7) (float32 (equilibrium_thrust p)) (equilibrium_thrust p)"
    by (intro float32_near) simp
  then have "equilibrium_thrust p * (1 - 1 / 10 ^ 7) \<le> float32 (equilibrium_thrust p)"
    by (simp add: rel_near_def)
  then show ?thesis using T by simp
qed

text \<open>Above the cutoff the result is the clamped integer, when that is at most \<open>2 ^ 24\<close>.\<close>

lemma thrust_to_percent_clamped:
  assumes "\<not> thrust < 0.3256" and "0 \<le> TPARAM_MAX_slo (g e)" and "TPARAM_MAX_slo (g e) \<le> 2 ^ 24"
  shows "fst (thrust_to_percent e thrust st)
           = of_int (constrain_int32 (value1 (snd (thrust_to_percent e thrust st)))
                       0 (TPARAM_MAX_slo (g e)))"
proof -
  define v where "v = value1 (snd (thrust_to_percent e thrust st))"
  have "0 \<le> constrain_int32 v 0 (TPARAM_MAX_slo (g e))"
    "constrain_int32 v 0 (TPARAM_MAX_slo (g e)) \<le> 2 ^ 24"
    using assms(2,3) by (simp_all add: constrain_int32_def)
  then have "\<bar>constrain_int32 v 0 (TPARAM_MAX_slo (g e))\<bar> \<le> 2 ^ 24" by simp
  then have "float32 (of_int (constrain_int32 v 0 (TPARAM_MAX_slo (g e))))
               = of_int (constrain_int32 v 0 (TPARAM_MAX_slo (g e)))"
    by (rule float32_of_int)
  moreover have "fst (thrust_to_percent e thrust st)
                   = float32 (of_int (constrain_int32 v 0 (TPARAM_MAX_slo (g e))))"
    using assms(1) by (simp add: v_def thrust_to_percent_def Let_def)
  ultimately show ?thesis by (simp only: v_def)
qed

text \<open>At the equilibrium thrust the result is an integer within one count of the neutral
  value.\<close>

lemma neutral_point_value:
  assumes n1: "1 \<le> TPARAM_neutral_t (g e)" and n2: "TPARAM_neutral_t (g e) \<le> 100"
    and nm: "TPARAM_neutral_t (g e) \<le> of_int (TPARAM_MAX_slo (g e))"
    and th: "\<bar>TPARAM_theta_a (g e)\<bar> \<le> 89"
  shows "\<exists>r :: int. fst (thrust_to_percent e (float32 (equilibrium_thrust (g e))) st) = of_int r
           \<and> TPARAM_neutral_t (g e) - 1 - 1 / 250 < of_int r
           \<and> of_int r \<le> TPARAM_neutral_t (g e) + 1 / 250"
proof -
  define n where "n = TPARAM_neutral_t (g e)"
  define A where "A = float32 (equilibrium_thrust (g e))"
  define a where "a = float32 0.002287471638222"
  define c where "c = float32 0.069756864241495"
  define root where
    "root = float32 (sqrt (float32 (float32 (A - float32 (c * float32 (A / float32 (float32 (float32 (a * n) * n) + c))))
                        / float32 (a * float32 (A / float32 (float32 (float32 (a * n) * n) + c))))))"
  have A: "1 < A" unfolding A_def using trim_cos_pos [OF th] by (rule airpower_lower)
  have "rel_near (1 / 25000) root n"
    unfolding root_def a_def c_def
    using float32_consts n1 A by (intro inversion_near) (simp_all add: n_def)
  then have lo: "n * (1 - 1 / 25000) \<le> root" and hi: "root \<le> n * (1 + 1 / 25000)"
    by (simp_all add: rel_near_def)
  have r1: "n - 1 / 250 \<le> root" using lo n2 by (simp add: n_def algebra_simps)
  have r2: "root \<le> n + 1 / 250" using hi n2 by (simp add: n_def algebra_simps)
  have r0: "0 \<le> root" using r1 n1 by (simp add: n_def)
  define v where "v = float_to_int32 root"
  have v: "v = \<lfloor>root\<rfloor>" using r0 by (simp add: v_def float_to_int32_def)
  have v0: "0 \<le> v" using r0 by (simp add: v)
  have v1: "n - 1 - 1 / 250 < of_int v" unfolding v using r1 by linarith
  have v2: "of_int v \<le> n + 1 / 250" unfolding v using r2 by linarith
  have v3: "v \<le> 101" using v2 n2 unfolding n_def by linarith
  have m: "n \<le> of_int (TPARAM_MAX_slo (g e))" using nm by (simp add: n_def)
  define w where "w = constrain_int32 v 0 (TPARAM_MAX_slo (g e))"
  have w0: "0 \<le> w" "w \<le> v" using v0 m n1 unfolding w_def n_def
    by (simp_all add: constrain_int32_def)
  have w1: "n - 1 - 1 / 250 < of_int w"
    using v0 v1 m by (simp add: w_def constrain_int32_def)
  have w2: "of_int w \<le> n + 1 / 250" using w0(2) v2 by linarith
  have "\<bar>w\<bar> \<le> 2 ^ 24" using w0 v3 by simp
  then have fw: "float32 (of_int w) = of_int w" by (rule float32_of_int)
  have "fst (thrust_to_percent e A st) = float32 (of_int w)"
    using A
    unfolding thrust_to_percent_def Let_def w_def v_def root_def a_def c_def n_def A_def
    by simp
  then have "fst (thrust_to_percent e A st) = of_int w" by (simp only: fw)
  then show ?thesis using w1 w2 unfolding A_def n_def by blast
qed

lemma neutral_point_integer:
  assumes "TPARAM_neutral_t (g e) = of_int N" and "1 \<le> N" and "N \<le> 100"
    and "N \<le> TPARAM_MAX_slo (g e)"
    and "\<bar>TPARAM_theta_a (g e)\<bar> \<le> 89"
  shows "fst (thrust_to_percent e (float32 (equilibrium_thrust (g e))) st) = of_int N - 1
       \<or> fst (thrust_to_percent e (float32 (equilibrium_thrust (g e))) st) = of_int N"
proof -
  have h: "1 \<le> TPARAM_neutral_t (g e)" "TPARAM_neutral_t (g e) \<le> 100"
    "TPARAM_neutral_t (g e) \<le> of_int (TPARAM_MAX_slo (g e))"
    using assms by simp_all
  obtain r :: int
    where r: "fst (thrust_to_percent e (float32 (equilibrium_thrust (g e))) st) = of_int r"
      and "real_of_int N - 1 - 1 / 250 < of_int r" "real_of_int r \<le> of_int N + 1 / 250"
    using neutral_point_value [OF h assms(5), of st] unfolding assms(1) by blast
  then have "r = N - 1 \<or> r = N" by linarith
  then show ?thesis unfolding r by auto
qed

text \<open>
  C5. For every thrust, \<^verbatim>\<open>thrust_to_percent\<close> returns exactly 0 below the cutoff 0.3256, and
  with a configured maximum between 0 and \<open>2 ^ 24\<close> every value it returns lies between 0 and
  that maximum. At the computed equilibrium thrust, with a trim angle of at most 89 degrees,
  an airspeed parameter of at most 1000 and a neutral actuator value between 1 and 100 that
  is not above the maximum, the result is the neutral value up to one actuator count: more
  than the neutral value minus 1.004 and at most the neutral value plus 0.004. The
  single-precision root is truncated, so the result can be one count below an integer
  neutral value. (The bound on the airspeed parameter is not used by the proof: it keeps
  the equilibrium thrust of the program within the range of a \<^verbatim>\<open>float\<close>, which \<open>float32\<close>
  does not bound.)
\<close>

theorem thrust_to_percent_inversion:
  "(thrust < 0.3256 \<longrightarrow> fst (thrust_to_percent e thrust st) = 0)
   \<and> (0 \<le> TPARAM_MAX_slo (g e) \<and> TPARAM_MAX_slo (g e) \<le> 2 ^ 24 \<longrightarrow>
        0 \<le> fst (thrust_to_percent e thrust st)
      \<and> fst (thrust_to_percent e thrust st) \<le> of_int (TPARAM_MAX_slo (g e)))
   \<and> (1 \<le> TPARAM_neutral_t (g e) \<and> TPARAM_neutral_t (g e) \<le> 100
      \<and> TPARAM_neutral_t (g e) \<le> of_int (TPARAM_MAX_slo (g e))
      \<and> \<bar>TPARAM_theta_a (g e)\<bar> \<le> 89 \<and> \<bar>TPARAM_V_a (g e)\<bar> \<le> 1000 \<longrightarrow>
        TPARAM_neutral_t (g e) - 1 - 1 / 250
          < fst (thrust_to_percent e (float32 (equilibrium_thrust (g e))) st)
      \<and> fst (thrust_to_percent e (float32 (equilibrium_thrust (g e))) st)
          \<le> TPARAM_neutral_t (g e) + 1 / 250)"
proof -
  have p1: "thrust < 0.3256 \<longrightarrow> fst (thrust_to_percent e thrust st) = 0"
    by (simp add: thrust_to_percent_def Let_def)
  have p2: "0 \<le> fst (thrust_to_percent e thrust st)
      \<and> fst (thrust_to_percent e thrust st) \<le> of_int (TPARAM_MAX_slo (g e))"
    if m: "0 \<le> TPARAM_MAX_slo (g e)" "TPARAM_MAX_slo (g e) \<le> 2 ^ 24"
  proof (cases "thrust < 0.3256")
    case True
    then show ?thesis using p1 m(1) by simp
  next
    case False
    show ?thesis
      unfolding thrust_to_percent_clamped [OF False m]
      using m(1) by (simp add: constrain_int32_def)
  qed
  have p3: "TPARAM_neutral_t (g e) - 1 - 1 / 250
          < fst (thrust_to_percent e (float32 (equilibrium_thrust (g e))) st)
      \<and> fst (thrust_to_percent e (float32 (equilibrium_thrust (g e))) st)
          \<le> TPARAM_neutral_t (g e) + 1 / 250"
    if "1 \<le> TPARAM_neutral_t (g e)" "TPARAM_neutral_t (g e) \<le> 100"
      "TPARAM_neutral_t (g e) \<le> of_int (TPARAM_MAX_slo (g e))" "\<bar>TPARAM_theta_a (g e)\<bar> \<le> 89"
    using neutral_point_value [OF that, of st] by auto
  show ?thesis using p1 p2 p3 by blast
qed

theorem thrust_to_percent_inversion_witness:
  "(let e = env0\<lparr>g := params0\<lparr>TPARAM_neutral_t := 50, TPARAM_MAX_slo := 80\<rparr>\<rparr>
    in (0.1 :: real) < 0.3256
     \<and> 0 \<le> TPARAM_MAX_slo (g e) \<and> TPARAM_MAX_slo (g e) \<le> 2 ^ 24
     \<and> 1 \<le> TPARAM_neutral_t (g e) \<and> TPARAM_neutral_t (g e) \<le> 100
     \<and> TPARAM_neutral_t (g e) \<le> of_int (TPARAM_MAX_slo (g e))
     \<and> \<bar>TPARAM_theta_a (g e)\<bar> \<le> 89 \<and> \<bar>TPARAM_V_a (g e)\<bar> \<le> 1000
     \<and> fst (thrust_to_percent e 0.1 plane0) = 0
     \<and> 0 \<le> fst (thrust_to_percent e 0.1 plane0)
     \<and> fst (thrust_to_percent e 0.1 plane0) \<le> 80
     \<and> 49 - 1 / 250 < fst (thrust_to_percent e (float32 (equilibrium_thrust (g e))) plane0)
     \<and> fst (thrust_to_percent e (float32 (equilibrium_thrust (g e))) plane0) \<le> 50 + 1 / 250)"
proof -
  define e where "e = env0\<lparr>g := params0\<lparr>TPARAM_neutral_t := 50, TPARAM_MAX_slo := 80\<rparr>\<rparr>"
  have h0: "(0.1 :: real) < 0.3256" by simp
  have h1: "0 \<le> TPARAM_MAX_slo (g e) \<and> TPARAM_MAX_slo (g e) \<le> 2 ^ 24"
    and h2: "1 \<le> TPARAM_neutral_t (g e)" and h3: "TPARAM_neutral_t (g e) \<le> 100"
    and h4: "TPARAM_neutral_t (g e) \<le> of_int (TPARAM_MAX_slo (g e))"
    and h5: "\<bar>TPARAM_theta_a (g e)\<bar> \<le> 89" and h6: "\<bar>TPARAM_V_a (g e)\<bar> \<le> 1000"
    by (simp_all add: e_def env0_def params0_def)
  have n: "TPARAM_neutral_t (g e) = 50" and m: "TPARAM_MAX_slo (g e) = 80" by (simp_all add: e_def)
  note T = thrust_to_percent_inversion [of "0.1" e plane0]
  from T h0 have c1: "fst (thrust_to_percent e 0.1 plane0) = 0" by blast
  from T h1 have "0 \<le> fst (thrust_to_percent e 0.1 plane0)
      \<and> fst (thrust_to_percent e 0.1 plane0) \<le> of_int (TPARAM_MAX_slo (g e))" by blast
  then have c2: "0 \<le> fst (thrust_to_percent e 0.1 plane0)"
    and c3: "fst (thrust_to_percent e 0.1 plane0) \<le> 80"
    by (simp_all only: m of_int_numeral)
  from T h2 h3 h4 h5 h6
  have "TPARAM_neutral_t (g e) - 1 - 1 / 250
          < fst (thrust_to_percent e (float32 (equilibrium_thrust (g e))) plane0)
      \<and> fst (thrust_to_percent e (float32 (equilibrium_thrust (g e))) plane0)
          \<le> TPARAM_neutral_t (g e) + 1 / 250" by blast
  then have "50 - 1 - 1 / 250 < fst (thrust_to_percent e (float32 (equilibrium_thrust (g e))) plane0)"
    and c5: "fst (thrust_to_percent e (float32 (equilibrium_thrust (g e))) plane0) \<le> 50 + 1 / 250"
    by (simp_all only: n)
  then have c4: "49 - 1 / 250 < fst (thrust_to_percent e (float32 (equilibrium_thrust (g e))) plane0)"
    by linarith
  show ?thesis using h0 h1 h2 h3 h4 h5 h6 c1 c2 c3 c4 c5 unfolding Let_def e_def by blast
qed

text \<open>With a negative configured maximum a thrust above the cutoff gives that maximum, which
  is not 0 and not between 0 and the maximum; and the neutral value 50 gives 49 at the
  equilibrium thrust.\<close>

theorem thrust_inversion_counterexample:
  "fst (thrust_to_percent (env0\<lparr>g := params0\<lparr>TPARAM_neutral_t := 50, TPARAM_MAX_slo := - 5\<rparr>\<rparr>)
          (float32 (equilibrium_thrust (params0\<lparr>TPARAM_neutral_t := 50, TPARAM_MAX_slo := - 5\<rparr>)))
          plane0) = - 5
   \<and> fst (thrust_to_percent (env0\<lparr>g := params0\<lparr>TPARAM_neutral_t := 50, TPARAM_MAX_slo := 80\<rparr>\<rparr>)
          (float32 (equilibrium_thrust (params0\<lparr>TPARAM_neutral_t := 50, TPARAM_MAX_slo := 80\<rparr>)))
          plane0) = 49"
proof -
  have eq: "equilibrium_thrust (params0\<lparr>TPARAM_neutral_t := 50, TPARAM_MAX_slo := mx\<rparr>)
            = equilibrium_thrust params0" for mx
    by (simp add: equilibrium_thrust_def)
  have c: "constrain_int32 49 0 (- 5) = - 5" "constrain_int32 49 0 80 = 49"
    by (simp_all add: constrain_int32_def)
  have f: "float32 (of_int (- 5)) = of_int (- 5)" "float32 (of_int 49) = of_int 49"
    by (rule float32_of_int, simp)+
  show ?thesis
    by (simp only: eq neutral_50 c f) simp
qed

subsection \<open>Blend weights\<close>

lemma lateral_K_sum:
  assumes "z2mn \<noteq> z2mx"
  shows "fst (fst (fst (lateral_membership vg cF ux kap z1mn z1mx z2mn z2mx)))
       + snd (fst (fst (lateral_membership vg cF ux kap z1mn z1mx z2mn z2mx))) = 1"
proof -
  have d: "z2mx - z2mn \<noteq> 0" using assms by simp
  have "(a - z2mn) / (z2mx - z2mn) + (z2mx - a) / (z2mx - z2mn) = 1" for a
    using d by (simp add: add_divide_distrib [symmetric])
  then show ?thesis
    by (simp add: lateral_membership_def Let_def)
qed

lemma lateral_M_sum:
  assumes "z1mn \<noteq> z1mx"
  shows "fst (snd (fst (lateral_membership vg cF ux kap z1mn z1mx z2mn z2mx)))
       + snd (snd (fst (lateral_membership vg cF ux kap z1mn z1mx z2mn z2mx))) = 1"
proof -
  have d: "z1mx - z1mn \<noteq> 0" using assms by simp
  have "(a - z1mn) / (z1mx - z1mn) + (z1mx - a) / (z1mx - z1mn) = 1" for a
    using d by (simp add: add_divide_distrib [symmetric])
  then show ?thesis
    by (simp add: lateral_membership_def Let_def)
qed

lemma h_chi_sum:
  "h_chi_of km old 0 + h_chi_of km old 1 + h_chi_of km old 2 + h_chi_of km old 3
     = (fst (fst km) + snd (fst km)) * (fst (snd km) + snd (snd km))"
  by (simp add: h_chi_of_def algebra_simps)

lemma lmi_pair_sum:
  assumes "maxmin ! 0 \<noteq> maxmin ! 1"
  shows "lmi_pair maxmin zv ! 0 + lmi_pair maxmin zv ! 1 = 1"
proof -
  define d where "d = maxmin ! 0 - maxmin ! 1"
  define a where "a = (maxmin ! 0 - zv) / d"
  have d: "d \<noteq> 0" using assms by (simp add: d_def)
  have b: "(zv - maxmin ! 1) / d = 1 - a"
    using d by (simp add: a_def d_def field_simps)
  show ?thesis
    unfolding lmi_pair_def d_def [symmetric] b a_def [symmetric]
    by (simp add: constrain_float_def)
qed

lemma lmi_weights_sum:
  "sum_list (lmi_weights mz z1 z2 z3)
     = (lmi_pair (mz ! 0) z1 ! 0 + lmi_pair (mz ! 0) z1 ! 1)
     * (lmi_pair (mz ! 1) z2 ! 0 + lmi_pair (mz ! 1) z2 ! 1)
     * (lmi_pair (mz ! 2) z3 ! 0 + lmi_pair (mz ! 2) z3 ! 1)"
  by (simp add: lmi_weights_def Let_def upt_0_2 algebra_simps)

lemma table_ranges:
  "snd (switch_controller_alt n) ! 0 ! 0 \<noteq> snd (switch_controller_alt n) ! 0 ! 1"
  "snd (switch_controller_alt n) ! 1 ! 0 \<noteq> snd (switch_controller_alt n) ! 1 ! 1"
  "snd (switch_controller_alt n) ! 2 ! 0 \<noteq> snd (switch_controller_alt n) ! 2 ! 1"
  by (simp_all add: switch_controller_alt_def)

lemma lmi_table_sum: "sum_list (lmi_weights (snd (switch_controller_alt n)) z1 z2 z3) = 1"
proof -
  let ?mz = "snd (switch_controller_alt n)"
  have a: "lmi_pair (?mz ! 0) z1 ! 0 + lmi_pair (?mz ! 0) z1 ! 1 = 1"
    by (rule lmi_pair_sum) (rule table_ranges)
  have b: "lmi_pair (?mz ! 1) z2 ! 0 + lmi_pair (?mz ! 1) z2 ! 1 = 1"
    by (rule lmi_pair_sum) (rule table_ranges)
  have c: "lmi_pair (?mz ! 2) z3 ! 0 + lmi_pair (?mz ! 2) z3 ! 1 = 1"
    by (rule lmi_pair_sum) (rule table_ranges)
  show ?thesis by (simp only: lmi_weights_sum a b c mult_1)
qed

lemma fuzzy_m_sum: "fst (fuzzy_m_mem st) + snd (fuzzy_m_mem st) = 1"
  by (simp add: fuzzy_m_mem_def Let_def)

lemma fuzzy_n_sum: "fst (fuzzy_n_mem st x2) + snd (fuzzy_n_mem st x2) = 1"
  by (simp add: fuzzy_n_mem_def Let_def)

lemma fuzzy_h_sum:
  "fuzzy_h_mem st x2 0 + fuzzy_h_mem st x2 1 + fuzzy_h_mem st x2 2 + fuzzy_h_mem st x2 3 = 1"
proof (cases "rule_num st = 2")
  case True
  then show ?thesis using fuzzy_m_sum [of st] by (simp add: fuzzy_h_mem_def Let_def)
next
  case False
  have "fuzzy_h_mem st x2 0 + fuzzy_h_mem st x2 1 + fuzzy_h_mem st x2 2 + fuzzy_h_mem st x2 3
        = (fst (fuzzy_m_mem st) + snd (fuzzy_m_mem st))
          * (fst (fuzzy_n_mem st x2) + snd (fuzzy_n_mem st x2))"
    using False by (simp add: fuzzy_h_mem_def Let_def algebra_simps)
  then show ?thesis by (simp add: fuzzy_m_sum fuzzy_n_sum)
qed

text \<open>The pairs at and beyond the ends of their ranges.\<close>

lemma lmi_pair_ends:
  assumes "maxmin ! 1 < maxmin ! 0"
  shows "zv \<le> maxmin ! 1 \<Longrightarrow> lmi_pair maxmin zv = [1, 0]"
    and "maxmin ! 0 \<le> zv \<Longrightarrow> lmi_pair maxmin zv = [0, 1]"
  using assms
  by (simp_all add: lmi_pair_def constrain_float_def pos_less_divide_eq pos_divide_less_eq
        divide_le_0_iff)

text \<open>In exact arithmetic every blend sums to 1: the four lateral weights when the two
  configured ranges have distinct ends, the eight altitude weights for each gain table, and
  the four comparison-fuzzy weights.\<close>

lemma exact_blend_weights:
  assumes "z1mn \<noteq> z1mx" and "z2mn \<noteq> z2mx"
  shows "(let km = fst (lateral_membership vg cF ux kap z1mn z1mx z2mn z2mx)
          in h_chi_of km old 0 + h_chi_of km old 1 + h_chi_of km old 2 + h_chi_of km old 3 = 1)"
    and "sum_list (lmi_weights (snd (switch_controller_alt n)) z1 z2 z3) = 1"
    and "length (lmi_weights (snd (switch_controller_alt n)) z1 z2 z3) = 8"
    and "fuzzy_h_mem st x2 0 + fuzzy_h_mem st x2 1 + fuzzy_h_mem st x2 2 + fuzzy_h_mem st x2 3 = 1"
proof -
  let ?km = "fst (lateral_membership vg cF ux kap z1mn z1mx z2mn z2mx)"
  have "h_chi_of ?km old 0 + h_chi_of ?km old 1 + h_chi_of ?km old 2 + h_chi_of ?km old 3 = 1"
    unfolding h_chi_sum
    using lateral_K_sum [OF assms(2)] lateral_M_sum [OF assms(1)] by simp
  then show "(let km = fst (lateral_membership vg cF ux kap z1mn z1mx z2mn z2mx)
          in h_chi_of km old 0 + h_chi_of km old 1 + h_chi_of km old 2 + h_chi_of km old 3 = 1)"
    by (simp only: Let_def)
  show "sum_list (lmi_weights (snd (switch_controller_alt n)) z1 z2 z3) = 1"
    by (rule lmi_table_sum)
  show "length (lmi_weights (snd (switch_controller_alt n)) z1 z2 z3) = 8"
    by (simp add: lmi_weights_def Let_def upt_0_2)
  show "fuzzy_h_mem st x2 0 + fuzzy_h_mem st x2 1 + fuzzy_h_mem st x2 2 + fuzzy_h_mem st x2 3 = 1"
    by (rule fuzzy_h_sum)
qed

subsection \<open>The arc-length search\<close>

lemma zeta_search_no_step:
  assumes "zeta_search r dzt sv iz sc = Some res"
  shows "\<not> (dzt = 0 \<and> sc < sv)"
proof -
  have step: "\<not> (dzt = 0 \<and> sc < sv)"
    if IH: "\<And>r dzt sv iz sc res. f r dzt sv iz sc = Some res \<Longrightarrow> \<not> (dzt = 0 \<and> sc < sv)"
      and eq: "(if sv \<le> sc + dPdzeta_of r dzt iz * dzt
                then Some (iz, sc + dPdzeta_of r dzt iz * dzt)
                else f r dzt sv (iz + 1) (sc + dPdzeta_of r dzt iz * dzt)) = Some res"
    for f r dzt sv iz sc res
  proof
    assume a: "dzt = 0 \<and> sc < sv"
    with eq have "f r dzt sv (iz + 1) sc = Some res"
      by (simp split: if_splits)
    then have "\<not> (dzt = 0 \<and> sc < sv)" by (rule IH)
    with a show False by simp
  qed
  show ?thesis
    by (rule zeta_search.raw_induct
          [where P = "\<lambda>r dzt sv iz sc res. \<not> (dzt = 0 \<and> sc < sv)", OF step assms])
qed

text \<open>With a zero step \<^verbatim>\<open>TPARAM_dzeta\<close> the accumulated length never grows, and the loop
  never leaves when the arc length is ahead of it.\<close>

lemma zeta_search_stuck: "sc < sv \<Longrightarrow> zeta_search r 0 sv iz sc = None"
  using zeta_search_no_step [of r 0 sv iz sc] by (cases "zeta_search r 0 sv iz sc") auto

text \<open>The loop leaves in its first round when the first increment reaches the arc length.\<close>

lemma zeta_search_first:
  "sv \<le> sc + dPdzeta_of r dzt iz * dzt \<Longrightarrow>
     zeta_search r dzt sv iz sc = Some (iz, sc + dPdzeta_of r dzt iz * dzt)"
  by (subst zeta_search.simps) simp

subsection \<open>The lateral weights when the curvature is NaN\<close>

text \<open>Every operation passes a NaN operand on, and every comparison with it is false.\<close>

lemma f_nan [simp]:
  "f_add x NaN = NaN" "f_mul x NaN = NaN" "f_div x NaN = NaN"
  "f_sub NaN y = NaN" "f_sub x NaN = NaN"
  "f_less x NaN = False" "f_eq x NaN = False"
  by (cases x; cases y; simp add: f_sub_def)+

lemma lissajous_kappa_zero: "lissajous_kappa r 0 = NaN"
  by (simp add: lissajous_kappa_def f_inf_def)

lemma lissajous_kappa_finite:
  assumes "r * ((25 * (sin (5 * zt)) ^ 2 + 36 * (sin (6 * zt)) ^ 2) powr 1.5) \<noteq> 0"
  shows "lissajous_kappa r zt
           = Fin ((15 * \<bar>11 * sin zt - sin (11 * zt)\<bar>)
                    / (r * ((25 * (sin (5 * zt)) ^ 2 + 36 * (sin (6 * zt)) ^ 2) powr 1.5)))"
  using assms by (simp add: lissajous_kappa_def)

text \<open>Where its denominator is not 0, it is the curvature that the real-valued generator
  stores.\<close>

lemma lissajous_kappa_agrees:
  assumes "path_primitive e zp st = Some st'" and "Path_Mode st = 3"
    and "TPARAM_r (g e) * ((25 * (sin (5 * zeta st')) ^ 2 + 36 * (sin (6 * zeta st')) ^ 2) powr 1.5) \<noteq> 0"
  shows "lissajous_kappa (TPARAM_r (g e)) (zeta st') = Fin (kappa st')"
proof -
  obtain iz sc where "zeta_search (TPARAM_r (g e)) (TPARAM_dzeta (g e)) (s st) (i_zeta st) (s_calc st)
                        = Some (iz, sc)"
    using assms(1,2) by (auto simp add: path_primitive_def Let_def split: option.splits)
  then have "zeta st' = of_int iz * TPARAM_dzeta (g e)"
    and "kappa st' = (15 * \<bar>11 * sin (of_int iz * TPARAM_dzeta (g e)) - sin (11 * (of_int iz * TPARAM_dzeta (g e)))\<bar>)
                       / (TPARAM_r (g e) * ((25 * (sin (5 * (of_int iz * TPARAM_dzeta (g e)))) ^ 2
                            + 36 * (sin (6 * (of_int iz * TPARAM_dzeta (g e)))) ^ 2) powr 1.5))"
    using assms(1,2) by (auto simp add: path_primitive_def Let_def)
  then show ?thesis using assms(3) by (simp add: lissajous_kappa_def)
qed

lemma lateral_membership_f_nan:
  "snd (lateral_membership_f vg cF ux NaN z1mn z1mx z2mn z2mx) = (NaN, NaN)"
  by (simp add: lateral_membership_f_def Let_def)

lemma h_chi_f_nan: "snd km = (NaN, NaN) \<Longrightarrow> h_chi_f km = [NaN, NaN, NaN, NaN]"
  by (simp add: h_chi_f_def)

lemma lateral_membership_f_finite:
  assumes "z1mn \<noteq> z1mx" and "z2mn \<noteq> z2mx"
  shows "lateral_membership_f (Fin vg) (Fin cF) (Fin ux) (Fin kap)
             (Fin z1mn) (Fin z1mx) (Fin z2mn) (Fin z2mx)
         = (let km = fst (lateral_membership vg cF ux kap z1mn z1mx z2mn z2mx)
            in ((Fin (fst (fst km)), Fin (snd (fst km))), (Fin (fst (snd km)), Fin (snd (snd km)))))"
  using assms
  by (simp add: lateral_membership_f_def lateral_membership_def Let_def f_sub_def)

lemma finite_weights_sum:
  assumes "z1mn \<noteq> z1mx" and "z2mn \<noteq> z2mx"
  shows "f_sum (h_chi_f (lateral_membership_f (Fin vg) (Fin cF) (Fin ux) (Fin kap)
                           (Fin z1mn) (Fin z1mx) (Fin z2mn) (Fin z2mx))) = Fin 1"
proof -
  let ?km = "fst (lateral_membership vg cF ux kap z1mn z1mx z2mn z2mx)"
  have "f_sum (h_chi_f (lateral_membership_f (Fin vg) (Fin cF) (Fin ux) (Fin kap)
                           (Fin z1mn) (Fin z1mx) (Fin z2mn) (Fin z2mx)))
        = Fin (h_chi_of ?km (\<lambda>i. 0) 0 + h_chi_of ?km (\<lambda>i. 0) 1
               + h_chi_of ?km (\<lambda>i. 0) 2 + h_chi_of ?km (\<lambda>i. 0) 3)"
    unfolding lateral_membership_f_finite [OF assms] Let_def
    by (simp add: f_sum_def h_chi_f_def h_chi_of_def)
  also have "\<dots> = Fin 1"
    unfolding h_chi_sum using lateral_K_sum [OF assms(2)] lateral_M_sum [OF assms(1)] by simp
  finally show ?thesis .
qed

lemma lissajous_entry:
  "\<exists>st'. path_primitive e zp (st\<lparr>Path_Mode := 3, s := 0, s_calc := 0, i_zeta := 0\<rparr>) = Some st'
        \<and> zeta st' = 0 \<and> i_zeta st' = 0 \<and> s_calc st' = 0"
proof -
  have "zeta_search (TPARAM_r (g e)) (TPARAM_dzeta (g e)) 0 0 0 = Some (0, 0)"
    using zeta_search_first [of 0 0 "TPARAM_r (g e)" "TPARAM_dzeta (g e)" 0]
    by (simp add: dPdzeta_of_def)
  then show ?thesis by (simp add: path_primitive_def Let_def)
qed

text \<open>
  C1. The blend weights do not sum to 1 for every value of the scheduling inputs. On the
  first cycle of the Lissajous primitive (\<open>Path_Mode\<close> 3 with \<open>s\<close>, \<open>s_calc\<close> and \<open>i_zeta\<close>
  at 0) the search leaves at once with \<open>zeta = 0\<close>, and the curvature assigned there is the
  quotient of 0 by 0, NaN. Whatever the ground speed, the heading error, the longitudinal
  input and the configured ranges, \<open>z1\<close>, \<open>M1\<close> and \<open>M2\<close> are then NaN, the tests \<open>M1 > 1\<close> and
  \<open>M1 < 0\<close> are both false, and the four lateral weights and their sum are NaN. (The
  real-valued model of the generator holds HOL's \<open>0 / 0 = 0\<close> in \<open>kappa\<close> at this point.)
\<close>

theorem lissajous_entry_weights_nan:
  "\<exists>st'. path_primitive e zp (st\<lparr>Path_Mode := 3, s := 0, s_calc := 0, i_zeta := 0\<rparr>) = Some st'
        \<and> zeta st' = 0
        \<and> lissajous_kappa (TPARAM_r (g e)) (zeta st') = NaN
        \<and> h_chi_f (lateral_membership_f vg cF ux (lissajous_kappa (TPARAM_r (g e)) (zeta st'))
                     z1mn z1mx z2mn z2mx) = [NaN, NaN, NaN, NaN]
        \<and> f_sum (h_chi_f (lateral_membership_f vg cF ux (lissajous_kappa (TPARAM_r (g e)) (zeta st'))
                            z1mn z1mx z2mn z2mx)) = NaN
        \<and> \<not> f_eq (f_sum (h_chi_f (lateral_membership_f vg cF ux
                                     (lissajous_kappa (TPARAM_r (g e)) (zeta st'))
                                     z1mn z1mx z2mn z2mx))) (Fin 1)"
proof -
  obtain st' where
    p: "path_primitive e zp (st\<lparr>Path_Mode := 3, s := 0, s_calc := 0, i_zeta := 0\<rparr>) = Some st'"
    and z: "zeta st' = 0"
    using lissajous_entry by blast
  have h: "h_chi_f (lateral_membership_f vg cF ux NaN z1mn z1mx z2mn z2mx) = [NaN, NaN, NaN, NaN]"
    by (rule h_chi_f_nan) (rule lateral_membership_f_nan)
  have s: "f_sum [NaN, NaN, NaN, NaN] = NaN" by (simp add: f_sum_def)
  show ?thesis using p z by (intro exI [of _ st']) (simp add: lissajous_kappa_zero h s)
qed

subsection \<open>The heading-error membership pair\<close>

text \<open>For a non-zero heading error and ranges whose ends differ, the pair is the
  normalised \<open>z2\<close> clamped to \<open>[0, 1]\<close> and its complement, and no denominator is zero.\<close>

lemma lateral_K_nonzero_heading:
  assumes "cF \<noteq> 0" and "z2mn \<noteq> z2mx" and "z1mn \<noteq> z1mx"
  shows "(let z2 = vg * sin cF / cF;
              k = (z2 - z2mn) / (z2mx - z2mn);
              r = lateral_membership vg cF ux kap z1mn z1mx z2mn z2mx
          in fst (fst (fst r)) = constrain_float k 0 1
           \<and> snd (fst (fst r)) = 1 - fst (fst (fst r))
           \<and> 0 \<le> snd (fst (fst r)) \<and> snd (fst (fst r)) \<le> 1
           \<and> 0 \<notin> set (snd r))"
proof -
  have d: "z2mx - z2mn \<noteq> 0" using assms by simp
  have c: "(z2mx - a) / (z2mx - z2mn) = 1 - (a - z2mn) / (z2mx - z2mn)" for a
    using d by (simp add: field_simps)
  show ?thesis
    using assms by (simp add: lateral_membership_def Let_def constrain_float_def c)
qed

text \<open>
  C4. At a heading error of exactly 0 the pair \<open>(K1, K2)\<close> is \<open>(1, 0)\<close>, but the quotient
  \<open>v_g * sin chiF / chiF\<close> has been evaluated before the test: the first division that the
  block executes has the denominator 0.
\<close>

theorem heading_zero_divides_by_zero:
  "fst (fst (lateral_membership vg 0 ux kap z1mn z1mx z2mn z2mx)) = (1, 0)
   \<and> hd (snd (lateral_membership vg 0 ux kap z1mn z1mx z2mn z2mx)) = 0"
  by (simp add: lateral_membership_def Let_def)

subsection \<open>The zero time step of the throttle law\<close>

lemma thrust_to_percent_frame:
  "err_count (snd (thrust_to_percent e t st)) = err_count st"
  "dz (snd (thrust_to_percent e t st)) = dz st"
  "speed_pitch (snd (thrust_to_percent e t st)) = speed_pitch st"
  "motor_Th_N (snd (thrust_to_percent e t st)) = motor_Th_N st"
  by (simp_all add: thrust_to_percent_def Let_def)

lemma throttle_lmi_frame:
  "err_count (throttle_lmi e st) = err_count st"
  "dz (throttle_lmi e st) = dz st"
  "speed_pitch (throttle_lmi e st) = speed_pitch st"
  by (simp_all add: throttle_lmi_def Let_def)

lemma throttle_rate_update_zero_delta:
  assumes "micros64 e = prev_time_Th st"
  shows "snd (throttle_rate_update e st) = []"
    and "err_count (fst (throttle_rate_update e st)) = err_count st + 1"
    and "dz (fst (throttle_rate_update e st)) = dz st"
    and "speed_pitch (fst (throttle_rate_update e st)) = speed_pitch st"
  using assms by (simp_all add: throttle_rate_update_def Let_def)

text \<open>With a non-zero time step both rates are divided by the step, which is not zero.\<close>

lemma throttle_rate_update_nonzero_delta:
  assumes "micros64 e \<noteq> prev_time_Th st"
  shows "0 \<notin> set (snd (throttle_rate_update e st))"
    and "length (snd (throttle_rate_update e st)) = 2"
    and "err_count (fst (throttle_rate_update e st)) = err_count st"
  using assms by (simp_all add: throttle_rate_update_def Let_def unsigned_eq_0_iff)

lemma throttle_state_after:
  "err_count (snd (TLAB_Throttle_Controller e st))
     = err_count (fst (throttle_rate_update e (throttle_first_time e
         (st\<lparr>z := of_int (alt (current_loc e)) * 0.01, z_r := of_int (alt (next_WP_loc e)) * 0.01\<rparr>))))"
  "dz (snd (TLAB_Throttle_Controller e st))
     = dz (fst (throttle_rate_update e (throttle_first_time e
         (st\<lparr>z := of_int (alt (current_loc e)) * 0.01, z_r := of_int (alt (next_WP_loc e)) * 0.01\<rparr>))))"
  "speed_pitch (snd (TLAB_Throttle_Controller e st))
     = speed_pitch (fst (throttle_rate_update e (throttle_first_time e
         (st\<lparr>z := of_int (alt (current_loc e)) * 0.01, z_r := of_int (alt (next_WP_loc e)) * 0.01\<rparr>))))"
  by (simp_all add: TLAB_Throttle_Controller_def Let_def thrust_to_percent_frame throttle_lmi_frame)

text \<open>On the very first call the time step is zero by construction; the counter then
  restarts from 0 and the altitude rate is set to 0.\<close>

lemma throttle_first_call:
  assumes "firsttime_Th st"
  shows "err_count (snd (TLAB_Throttle_Controller e st)) = 1"
    and "dz (snd (TLAB_Throttle_Controller e st)) = 0"
    and "speed_pitch (snd (TLAB_Throttle_Controller e st)) = speed_pitch st"
  using assms
  by (simp_all add: throttle_state_after throttle_first_time_def throttle_rate_update_def Let_def)

text \<open>
  C8. On a control cycle after the first whose clock reading equals that of the previous
  cycle, the throttle law increments \<open>err_count\<close>, executes no division in its rate block,
  and leaves the altitude rate \<open>dz\<close> and the pitch rate \<open>speed_pitch\<close> at their previous
  values.
\<close>

theorem zero_time_delta_holds_rates:
  assumes "\<not> firsttime_Th st" and "micros64 e = prev_time_Th st"
  shows "err_count (snd (TLAB_Throttle_Controller e st)) = err_count st + 1
       \<and> dz (snd (TLAB_Throttle_Controller e st)) = dz st
       \<and> speed_pitch (snd (TLAB_Throttle_Controller e st)) = speed_pitch st
       \<and> snd (throttle_rate_update e (throttle_first_time e
            (st\<lparr>z := of_int (alt (current_loc e)) * 0.01,
                z_r := of_int (alt (next_WP_loc e)) * 0.01\<rparr>))) = []"
proof -
  define st0 where "st0 = throttle_first_time e
     (st\<lparr>z := of_int (alt (current_loc e)) * 0.01, z_r := of_int (alt (next_WP_loc e)) * 0.01\<rparr>)"
  have st0: "st0 = st\<lparr>z := of_int (alt (current_loc e)) * 0.01, z_r := of_int (alt (next_WP_loc e)) * 0.01\<rparr>"
    using assms(1) by (simp add: st0_def throttle_first_time_def)
  have t: "micros64 e = prev_time_Th st0" using assms(2) by (simp add: st0)
  have "err_count (snd (TLAB_Throttle_Controller e st)) = err_count st0 + 1"
    and "dz (snd (TLAB_Throttle_Controller e st)) = dz st0"
    and "speed_pitch (snd (TLAB_Throttle_Controller e st)) = speed_pitch st0"
    and "snd (throttle_rate_update e st0) = []"
    unfolding throttle_state_after st0_def [symmetric]
    by (simp_all only: throttle_rate_update_zero_delta [OF t])
  then show ?thesis unfolding st0_def [symmetric] by (simp add: st0)
qed

theorem zero_time_delta_holds_rates_witness:
  "(let st = plane0\<lparr>err_count := 4, dz := 2, speed_pitch := 3, prev_time_Th := 1000\<rparr>;
        e = env0\<lparr>micros64 := 1000\<rparr>
    in \<not> firsttime_Th st \<and> micros64 e = prev_time_Th st
     \<and> err_count (snd (TLAB_Throttle_Controller e st)) = 5
     \<and> dz (snd (TLAB_Throttle_Controller e st)) = 2
     \<and> speed_pitch (snd (TLAB_Throttle_Controller e st)) = 3)"
proof -
  define st where "st = plane0\<lparr>err_count := 4, dz := 2, speed_pitch := 3, prev_time_Th := 1000\<rparr>"
  define e where "e = env0\<lparr>micros64 := 1000\<rparr>"
  have h1: "\<not> firsttime_Th st" by (simp add: st_def plane0_def)
  have h2: "micros64 e = prev_time_Th st" by (simp add: st_def e_def)
  have v: "err_count st = 4" "dz st = 2" "speed_pitch st = 3" by (simp_all add: st_def)
  show ?thesis
    using h1 h2 zero_time_delta_holds_rates [OF h1 h2]
    unfolding Let_def st_def [symmetric] e_def [symmetric] by (simp add: v)
qed

subsection \<open>The rudder command\<close>

lemma constrain_int16_range:
  "- 4500 \<le> constrain_int16 v (- 4500) 4500 \<and> constrain_int16 v (- 4500) 4500 \<le> 4500"
proof -
  have "to_int16 (- 4500) = - 4500" and "to_int16 4500 = 4500"
    by (simp_all add: to_int16_def)
  then show ?thesis by (simp add: constrain_int16_def Let_def)
qed

text \<open>
  C9. Whatever the vehicle state, the waypoints and the selected control mode, the value
  that the yaw stage writes to \<^verbatim>\<open>steering_control.rudder\<close> lies in \<open>[-4500, 4500]\<close>; and
  the stage writes a value in every case except when the two-dimensional follower itself
  does not return.
\<close>

theorem rudder_command_in_range:
  "(\<forall>st'. calc_nav_yaw_coordinated e st = Some st' \<longrightarrow>
       - 4500 \<le> steering_control_rudder st' \<and> steering_control_rudder st' \<le> 4500)
   \<and> (calc_nav_yaw_coordinated e st = None \<longleftrightarrow>
        TPARAM_Bar_Control_Mode (g e) \<noteq> 1 \<and> TPARAM_Bar_Control_Mode (g e) \<noteq> 2
      \<and> TLAB_2D_Trace_Controller e (st\<lparr>TLAB_CMD_index := mission_current_nav_index e\<rparr>) = None)"
  using constrain_int16_range
  by (auto simp add: calc_nav_yaw_coordinated_def Let_def split: option.splits)

theorem rudder_command_in_range_witness:
  "\<exists>st'. calc_nav_yaw_coordinated (env0\<lparr>g := params0\<lparr>TPARAM_Bar_Control_Mode := 2\<rparr>\<rparr>) plane0 = Some st'
        \<and> - 4500 \<le> steering_control_rudder st' \<and> steering_control_rudder st' \<le> 4500"
proof -
  define e where "e = env0\<lparr>g := params0\<lparr>TPARAM_Bar_Control_Mode := 2\<rparr>\<rparr>"
  have "\<exists>st'. calc_nav_yaw_coordinated e plane0 = Some st'"
    by (simp add: calc_nav_yaw_coordinated_def Let_def e_def)
  then obtain st' where r: "calc_nav_yaw_coordinated e plane0 = Some st'" ..
  with rudder_command_in_range [of e plane0]
  have "- 4500 \<le> steering_control_rudder st' \<and> steering_control_rudder st' \<le> 4500" by blast
  with r show ?thesis unfolding e_def by blast
qed

subsection \<open>What the trackers leave alone\<close>

text \<open>The trackers compute errors and commands; they do not touch the supervisor's mode
  and flags, the notifications or the initialisation latch.\<close>

lemma calc_controller_frame [frame]:
  "TLAB_Control_flag (snd (calc_controller e x1 x2 st)) = TLAB_Control_flag st"
  "TLAB_WP_nav_flag (snd (calc_controller e x1 x2 st)) = TLAB_WP_nav_flag st"
  "change_to_circle_flag (snd (calc_controller e x1 x2 st)) = change_to_circle_flag st"
  "gcs_messages (snd (calc_controller e x1 x2 st)) = gcs_messages st"
  "orbit_num (snd (calc_controller e x1 x2 st)) = orbit_num st"
  "change_y (snd (calc_controller e x1 x2 st)) = change_y st"
  "alternate_orbit_flag (snd (calc_controller e x1 x2 st)) = alternate_orbit_flag st"
  "yet_init (snd (calc_controller e x1 x2 st)) = yet_init st"
  "Int_theta (snd (calc_controller e x1 x2 st)) = Int_theta st"
  "state_UAV_x (snd (calc_controller e x1 x2 st)) = state_UAV_x st"
  "state_UAV_y (snd (calc_controller e x1 x2 st)) = state_UAV_y st"
  by (simp_all add: calc_controller_def Let_def)

lemma clip_alpha_frame [frame]:
  "TLAB_Control_flag (clip_alpha a st) = TLAB_Control_flag st"
  "TLAB_WP_nav_flag (clip_alpha a st) = TLAB_WP_nav_flag st"
  "change_to_circle_flag (clip_alpha a st) = change_to_circle_flag st"
  "gcs_messages (clip_alpha a st) = gcs_messages st"
  "orbit_num (clip_alpha a st) = orbit_num st"
  "change_y (clip_alpha a st) = change_y st"
  "alternate_orbit_flag (clip_alpha a st) = alternate_orbit_flag st"
  "yet_init (clip_alpha a st) = yet_init st"
  "Int_theta (clip_alpha a st) = Int_theta st"
  "state_UAV_x (clip_alpha a st) = state_UAV_x st"
  "state_UAV_y (clip_alpha a st) = state_UAV_y st"
  by (simp_all add: clip_alpha_def Let_def)

lemma limit_Vg_frame [frame]:
  "TLAB_Control_flag (limit_Vg e st) = TLAB_Control_flag st"
  "TLAB_WP_nav_flag (limit_Vg e st) = TLAB_WP_nav_flag st"
  "change_to_circle_flag (limit_Vg e st) = change_to_circle_flag st"
  "gcs_messages (limit_Vg e st) = gcs_messages st"
  "orbit_num (limit_Vg e st) = orbit_num st"
  "change_y (limit_Vg e st) = change_y st"
  "alternate_orbit_flag (limit_Vg e st) = alternate_orbit_flag st"
  "yet_init (limit_Vg e st) = yet_init st"
  "Int_theta (limit_Vg e st) = Int_theta st"
  "state_UAV_x (limit_Vg e st) = state_UAV_x st"
  "state_UAV_y (limit_Vg e st) = state_UAV_y st"
  by (simp_all add: limit_Vg_def Let_def)

lemma lookahead_eta_frame [frame]:
  "TLAB_Control_flag (lookahead_eta ev ea st) = TLAB_Control_flag st"
  "TLAB_WP_nav_flag (lookahead_eta ev ea st) = TLAB_WP_nav_flag st"
  "change_to_circle_flag (lookahead_eta ev ea st) = change_to_circle_flag st"
  "gcs_messages (lookahead_eta ev ea st) = gcs_messages st"
  "orbit_num (lookahead_eta ev ea st) = orbit_num st"
  "change_y (lookahead_eta ev ea st) = change_y st"
  "alternate_orbit_flag (lookahead_eta ev ea st) = alternate_orbit_flag st"
  "yet_init (lookahead_eta ev ea st) = yet_init st"
  "Int_theta (lookahead_eta ev ea st) = Int_theta st"
  "state_UAV_x (lookahead_eta ev ea st) = state_UAV_x st"
  "state_UAV_y (lookahead_eta ev ea st) = state_UAV_y st"
  by (simp_all add: lookahead_eta_def)

lemma servo_of_u_frame [frame]:
  "TLAB_Control_flag (servo_of_u st) = TLAB_Control_flag st"
  "TLAB_WP_nav_flag (servo_of_u st) = TLAB_WP_nav_flag st"
  "change_to_circle_flag (servo_of_u st) = change_to_circle_flag st"
  "gcs_messages (servo_of_u st) = gcs_messages st"
  "orbit_num (servo_of_u st) = orbit_num st"
  "change_y (servo_of_u st) = change_y st"
  "alternate_orbit_flag (servo_of_u st) = alternate_orbit_flag st"
  "yet_init (servo_of_u st) = yet_init st"
  "Int_theta (servo_of_u st) = Int_theta st"
  "state_UAV_x (servo_of_u st) = state_UAV_x st"
  "state_UAV_y (servo_of_u st) = state_UAV_y st"
  by (simp_all add: servo_of_u_def)

lemma line_geometry_frame [frame]:
  "TLAB_Control_flag (line_geometry e st) = TLAB_Control_flag st"
  "TLAB_WP_nav_flag (line_geometry e st) = TLAB_WP_nav_flag st"
  "change_to_circle_flag (line_geometry e st) = change_to_circle_flag st"
  "gcs_messages (line_geometry e st) = gcs_messages st"
  "orbit_num (line_geometry e st) = orbit_num st"
  "change_y (line_geometry e st) = change_y st"
  "alternate_orbit_flag (line_geometry e st) = alternate_orbit_flag st"
  "yet_init (line_geometry e st) = yet_init st"
  "Int_theta (line_geometry e st) = Int_theta st"
  by (simp_all add: line_geometry_def Let_def)

lemma line_law_frame [frame]:
  "TLAB_Control_flag (line_law e st) = TLAB_Control_flag st"
  "TLAB_WP_nav_flag (line_law e st) = TLAB_WP_nav_flag st"
  "change_to_circle_flag (line_law e st) = change_to_circle_flag st"
  "gcs_messages (line_law e st) = gcs_messages st"
  "orbit_num (line_law e st) = orbit_num st"
  "change_y (line_law e st) = change_y st"
  "alternate_orbit_flag (line_law e st) = alternate_orbit_flag st"
  "yet_init (line_law e st) = yet_init st"
  "Int_theta (line_law e st) = Int_theta st"
  "state_UAV_x (line_law e st) = state_UAV_x st"
  "state_UAV_y (line_law e st) = state_UAV_y st"
  by (simp_all add: line_law_def Let_def frame)

lemma line_u_frame [frame]:
  "TLAB_Control_flag (line_u e st) = TLAB_Control_flag st"
  "TLAB_WP_nav_flag (line_u e st) = TLAB_WP_nav_flag st"
  "change_to_circle_flag (line_u e st) = change_to_circle_flag st"
  "gcs_messages (line_u e st) = gcs_messages st"
  "orbit_num (line_u e st) = orbit_num st"
  "change_y (line_u e st) = change_y st"
  "alternate_orbit_flag (line_u e st) = alternate_orbit_flag st"
  "yet_init (line_u e st) = yet_init st"
  "Int_theta (line_u e st) = Int_theta st"
  "state_UAV_x (line_u e st) = state_UAV_x st"
  "state_UAV_y (line_u e st) = state_UAV_y st"
  by (simp_all add: line_u_def)

lemma init_TLAB_Controller_AUTO_frame [frame]:
  "TLAB_Control_flag (init_TLAB_Controller_AUTO e st) = TLAB_Control_flag st"
  "TLAB_WP_nav_flag (init_TLAB_Controller_AUTO e st) = TLAB_WP_nav_flag st"
  "change_to_circle_flag (init_TLAB_Controller_AUTO e st) = change_to_circle_flag st"
  "gcs_messages (init_TLAB_Controller_AUTO e st) = gcs_messages st"
  "orbit_num (init_TLAB_Controller_AUTO e st) = orbit_num st"
  "change_y (init_TLAB_Controller_AUTO e st) = change_y st"
  "alternate_orbit_flag (init_TLAB_Controller_AUTO e st) = alternate_orbit_flag st"
  "yet_init (init_TLAB_Controller_AUTO e st) = yet_init st"
  "state_UAV_x (init_TLAB_Controller_AUTO e st) = state_UAV_x st"
  "state_UAV_y (init_TLAB_Controller_AUTO e st) = state_UAV_y st"
  by (simp_all add: init_TLAB_Controller_AUTO_def Let_def)

lemma circle_angles_frame [frame]:
  "TLAB_Control_flag (circle_angles e st) = TLAB_Control_flag st"
  "TLAB_WP_nav_flag (circle_angles e st) = TLAB_WP_nav_flag st"
  "change_to_circle_flag (circle_angles e st) = change_to_circle_flag st"
  "gcs_messages (circle_angles e st) = gcs_messages st"
  "orbit_num (circle_angles e st) = orbit_num st"
  "change_y (circle_angles e st) = change_y st"
  "alternate_orbit_flag (circle_angles e st) = alternate_orbit_flag st"
  "yet_init (circle_angles e st) = yet_init st"
  "state_UAV_x (circle_angles e st) = state_UAV_x st"
  "state_UAV_y (circle_angles e st) = state_UAV_y st"
  by (simp_all add: circle_angles_def Let_def frame)

lemma circle_errors_frame [frame]:
  "TLAB_Control_flag (circle_errors e st) = TLAB_Control_flag st"
  "TLAB_WP_nav_flag (circle_errors e st) = TLAB_WP_nav_flag st"
  "change_to_circle_flag (circle_errors e st) = change_to_circle_flag st"
  "gcs_messages (circle_errors e st) = gcs_messages st"
  "orbit_num (circle_errors e st) = orbit_num st"
  "change_y (circle_errors e st) = change_y st"
  "alternate_orbit_flag (circle_errors e st) = alternate_orbit_flag st"
  "yet_init (circle_errors e st) = yet_init st"
  "state_UAV_x (circle_errors e st) = state_UAV_x st"
  "state_UAV_y (circle_errors e st) = state_UAV_y st"
  by (simp_all add: circle_errors_def Let_def frame)

lemma circle_law_frame [frame]:
  "TLAB_Control_flag (circle_law e st) = TLAB_Control_flag st"
  "TLAB_WP_nav_flag (circle_law e st) = TLAB_WP_nav_flag st"
  "change_to_circle_flag (circle_law e st) = change_to_circle_flag st"
  "gcs_messages (circle_law e st) = gcs_messages st"
  "orbit_num (circle_law e st) = orbit_num st"
  "change_y (circle_law e st) = change_y st"
  "alternate_orbit_flag (circle_law e st) = alternate_orbit_flag st"
  "yet_init (circle_law e st) = yet_init st"
  "state_UAV_x (circle_law e st) = state_UAV_x st"
  "state_UAV_y (circle_law e st) = state_UAV_y st"
  by (simp_all add: circle_law_def Let_def frame)

lemma circle_u_frame [frame]:
  "TLAB_Control_flag (circle_u e st) = TLAB_Control_flag st"
  "TLAB_WP_nav_flag (circle_u e st) = TLAB_WP_nav_flag st"
  "change_to_circle_flag (circle_u e st) = change_to_circle_flag st"
  "gcs_messages (circle_u e st) = gcs_messages st"
  "orbit_num (circle_u e st) = orbit_num st"
  "change_y (circle_u e st) = change_y st"
  "alternate_orbit_flag (circle_u e st) = alternate_orbit_flag st"
  "yet_init (circle_u e st) = yet_init st"
  "state_UAV_x (circle_u e st) = state_UAV_x st"
  "state_UAV_y (circle_u e st) = state_UAV_y st"
  by (simp_all add: circle_u_def Let_def)

lemma TLAB_Line_Trace_Controller_frame [frame]:
  "TLAB_Control_flag (snd (TLAB_Line_Trace_Controller e st)) = TLAB_Control_flag st"
  "TLAB_WP_nav_flag (snd (TLAB_Line_Trace_Controller e st)) = TLAB_WP_nav_flag st"
  "change_to_circle_flag (snd (TLAB_Line_Trace_Controller e st)) = change_to_circle_flag st"
  "gcs_messages (snd (TLAB_Line_Trace_Controller e st)) = gcs_messages st"
  "orbit_num (snd (TLAB_Line_Trace_Controller e st)) = orbit_num st"
  "change_y (snd (TLAB_Line_Trace_Controller e st)) = change_y st"
  "alternate_orbit_flag (snd (TLAB_Line_Trace_Controller e st)) = alternate_orbit_flag st"
  "yet_init (snd (TLAB_Line_Trace_Controller e st)) = yet_init st"
  "Int_theta (snd (TLAB_Line_Trace_Controller e st)) = Int_theta st"
  by (simp_all add: TLAB_Line_Trace_Controller_def Let_def frame)

lemma TLAB_Circle_Trace_Controller_frame [frame]:
  "TLAB_Control_flag (snd (TLAB_Circle_Trace_Controller e st)) = TLAB_Control_flag st"
  "TLAB_WP_nav_flag (snd (TLAB_Circle_Trace_Controller e st)) = TLAB_WP_nav_flag st"
  "change_to_circle_flag (snd (TLAB_Circle_Trace_Controller e st)) = change_to_circle_flag st"
  "gcs_messages (snd (TLAB_Circle_Trace_Controller e st)) = gcs_messages st"
  "orbit_num (snd (TLAB_Circle_Trace_Controller e st)) = orbit_num st"
  "change_y (snd (TLAB_Circle_Trace_Controller e st)) = change_y st"
  "alternate_orbit_flag (snd (TLAB_Circle_Trace_Controller e st)) = alternate_orbit_flag st"
  "yet_init (snd (TLAB_Circle_Trace_Controller e st)) = yet_init st"
  "state_UAV_x (snd (TLAB_Circle_Trace_Controller e st)) = state_UAV_x st"
  "state_UAV_y (snd (TLAB_Circle_Trace_Controller e st)) = state_UAV_y st"
  by (simp_all add: TLAB_Circle_Trace_Controller_def Let_def frame)

lemma line_geometry_position:
  "state_UAV_x (line_geometry e st)
     = get_distance e (current_loc e) (prev_WP_loc e)
       * cos (of_int (get_bearing_cd e (prev_WP_loc e) (current_loc e)) * 0.01 * pi / 180
              - of_int (get_bearing_cd e (prev_WP_loc e) (next_WP_loc e)) * 0.01 * pi / 180)"
  "state_UAV_y (line_geometry e st)
     = get_distance e (current_loc e) (prev_WP_loc e)
       * sin (of_int (get_bearing_cd e (prev_WP_loc e) (current_loc e)) * 0.01 * pi / 180
              - of_int (get_bearing_cd e (prev_WP_loc e) (next_WP_loc e)) * 0.01 * pi / 180)"
  by (simp_all add: line_geometry_def Let_def)

lemma TLAB_Line_Trace_Controller_position:
  "state_UAV_x (snd (TLAB_Line_Trace_Controller e st)) = state_UAV_x (line_geometry e st)"
  "state_UAV_y (snd (TLAB_Line_Trace_Controller e st)) = state_UAV_y (line_geometry e st)"
  by (simp_all add: TLAB_Line_Trace_Controller_def Let_def frame)

lemma path_setup_frame [frame]:
  "yet_init (path_from_prev_WP e st) = yet_init st"
  by (simp add: path_from_prev_WP_def Let_def)

lemma path_from_WP0_frame [frame]:
  "yet_init (path_from_WP0 e st) = yet_init st"
  by (simp add: path_from_WP0_def Let_def)

lemma straight_approach_frame [frame]:
  "yet_init (straight_approach e w c st) = yet_init st"
  by (simp add: straight_approach_def frame)

lemma switch_primitive_frame [frame]:
  "yet_init (switch_primitive e st) = yet_init st"
  by (simp add: switch_primitive_def frame)

lemma flight_plan_0_frame [frame]:
  "yet_init (fst (flight_plan_0 e c zp st)) = yet_init st"
  by (simp add: flight_plan_0_def Let_def frame)

lemma flight_plan_circle_frame [frame]:
  "yet_init (fst (flight_plan_circle m e c zp st)) = yet_init st"
  by (simp add: flight_plan_circle_def Let_def frame)

lemma flight_plan_2_straight_frame [frame]:
  "yet_init (fst (flight_plan_2_straight e c zp st)) = yet_init st"
  by (simp add: flight_plan_2_straight_def Let_def frame)

lemma flight_plan_3_straight_frame [frame]:
  "yet_init (fst (flight_plan_3_straight e c zp st)) = yet_init st"
  by (simp add: flight_plan_3_straight_def Let_def frame)

lemma flight_plan_lissajous_frame [frame]:
  "yet_init (fst (flight_plan_lissajous m ze e c r1)) = yet_init (fst r1)"
  by (simp add: flight_plan_lissajous_def Let_def frame)

lemma flight_plan_step_frame [frame]:
  "yet_init (fst (flight_plan_step e c zp st)) = yet_init st"
  by (simp add: flight_plan_step_def frame)

subsection \<open>The initialisation latch of the path follower\<close>

text \<open>The first call after the latch is cleared only initialises and returns 0.\<close>

lemma follower_first_call:
  "\<not> yet_init st \<Longrightarrow>
     TLAB_2D_Trace_Controller e st = Some (0, (init_TLAB_2D_Trace_Controller e st)\<lparr>yet_init := True\<rparr>)"
  by (simp add: TLAB_2D_Trace_Controller_def)

text \<open>A later call is the control law, and no call clears the latch.\<close>

lemma follower_later_call: "yet_init st \<Longrightarrow> TLAB_2D_Trace_Controller e st = trace_2D_law e st"
  by (simp add: TLAB_2D_Trace_Controller_def)

lemma path_primitive_yet_init:
  "path_primitive e zp st = Some st' \<Longrightarrow> yet_init st' = yet_init st"
  by (auto simp add: path_primitive_def Let_def split: if_splits option.splits)

lemma generate_yet_init:
  "TLAB_generate_2D_Path e st = Some st' \<Longrightarrow> yet_init st' = yet_init st"
  by (auto simp add: TLAB_generate_2D_Path_def Let_def frame dest!: path_primitive_yet_init)

lemma follower_latch_stays:
  assumes "TLAB_2D_Trace_Controller e st = Some r"
  shows "yet_init (snd r)"
  using assms
  by (auto simp add: TLAB_2D_Trace_Controller_def trace_2D_law_def Let_def frame
        split: if_splits option.splits dest!: generate_yet_init)

text \<open>The closed-form primitives always return; the Lissajous primitives return when
  the search does.\<close>

lemma path_primitive_returns:
  "Path_Mode st \<noteq> 3 \<Longrightarrow> Path_Mode st \<noteq> 6 \<Longrightarrow> \<exists>st'. path_primitive e zp st = Some st'"
  by (simp add: path_primitive_def Let_def)

lemma path_primitive_hangs:
  assumes "Path_Mode st = 3 \<or> Path_Mode st = 6" and "TPARAM_dzeta (g e) = 0" and "s_calc st < s st"
  shows "path_primitive e zp st = None"
  using assms by (auto simp add: path_primitive_def Let_def zeta_search_stuck)

lemma flight_plan_3_idle:
  assumes "Flight_Plan st = 3" and "Path_Mode st = 3" and "\<not> change_path_flag st" and "zeta st < 0.1"
  shows "flight_plan_step e c zp st = (st, zp)"
  using assms
  by (simp add: flight_plan_step_def flight_plan_3_straight_def flight_plan_lissajous_def Let_def)

lemma flight_plan_2_idle:
  assumes "Flight_Plan st = 2" and "Path_Mode st = 6" and "\<not> change_path_flag st" and "zeta st < 0.1"
  shows "flight_plan_step e c zp st = (st, zp)"
  using assms
  by (simp add: flight_plan_step_def flight_plan_2_straight_def flight_plan_lissajous_def Let_def)

lemma flight_plan_step_idle:
  assumes "(Flight_Plan st = 3 \<and> Path_Mode st = 3) \<or> (Flight_Plan st = 2 \<and> Path_Mode st = 6)"
    and "\<not> change_path_flag st" and "zeta st < 0.1"
  shows "flight_plan_step e c zp st = (st, zp)"
  using assms(1)
proof
  assume "Flight_Plan st = 3 \<and> Path_Mode st = 3"
  then show ?thesis using assms(2,3) by (intro flight_plan_3_idle) simp_all
next
  assume "Flight_Plan st = 2 \<and> Path_Mode st = 6"
  then show ?thesis using assms(2,3) by (intro flight_plan_2_idle) simp_all
qed

lemma generate_hangs:
  assumes "(Flight_Plan st = 3 \<and> Path_Mode st = 3) \<or> (Flight_Plan st = 2 \<and> Path_Mode st = 6)"
    and "\<not> change_path_flag st" and "zeta st < 0.1"
    and "TPARAM_dzeta (g e) = 0" and "s_calc st < s st"
  shows "TLAB_generate_2D_Path e st = None"
proof -
  define st1 where "st1 = st\<lparr>i_now_CMD := TLAB_CMD_index st\<rparr>"
  have idle: "flight_plan_step e c zp st1 = (st1, zp)" for c zp
    using assms(1-3) by (intro flight_plan_step_idle) (simp_all add: st1_def)
  have "path_primitive e zp st1 = None" for zp
    using assms(1,4,5) by (intro path_primitive_hangs) (auto simp add: st1_def)
  then show ?thesis
    by (simp add: TLAB_generate_2D_Path_def Let_def st1_def [symmetric] idle)
qed

lemma follower_hangs:
  assumes "yet_init st"
    and "(Flight_Plan st = 3 \<and> Path_Mode st = 3) \<or> (Flight_Plan st = 2 \<and> Path_Mode st = 6)"
    and "\<not> change_path_flag st" and "zeta st < 0.1"
    and "TPARAM_dzeta (g e) = 0" and "s_calc st < s st"
  shows "TLAB_2D_Trace_Controller e st = None"
proof -
  have "TLAB_generate_2D_Path e st' = None"
    if "(Flight_Plan st' = 3 \<and> Path_Mode st' = 3) \<or> (Flight_Plan st' = 2 \<and> Path_Mode st' = 6)"
       "\<not> change_path_flag st'" "zeta st' < 0.1" "s_calc st' < s st'" for st'
    using that assms(5) by (intro generate_hangs) simp_all
  then show ?thesis
    using assms by (simp add: TLAB_2D_Trace_Controller_def trace_2D_law_def Let_def)
qed

text \<open>
  C2. The search does not return for every non-negative arc length. With
  \<^verbatim>\<open>TPARAM_r = 1\<close>, \<^verbatim>\<open>TPARAM_dzeta = 0\<close>, \<open>i_zeta = 0\<close>, \<open>s_calc = 0\<close> and \<open>s = 1\<close> the
  loop runs forever, and so does the path generator on either Lissajous primitive
  (\<open>Path_Mode\<close> 3 in flight plan 3, \<open>Path_Mode\<close> 6 in flight plan 2).
\<close>

theorem zeta_search_hangs:
  "zeta_search 1 0 1 0 0 = None
   \<and> TLAB_generate_2D_Path (env0\<lparr>g := params0\<lparr>TPARAM_r := 1\<rparr>\<rparr>)
         (plane0\<lparr>Flight_Plan := 3, Path_Mode := 3, s := 1\<rparr>) = None
   \<and> TLAB_generate_2D_Path (env0\<lparr>g := params0\<lparr>TPARAM_r := 1\<rparr>\<rparr>)
         (plane0\<lparr>Flight_Plan := 2, Path_Mode := 6, s := 1\<rparr>) = None"
proof (intro conjI)
  show "zeta_search 1 0 1 0 0 = None"
    by (rule zeta_search_stuck) simp
  show "TLAB_generate_2D_Path (env0\<lparr>g := params0\<lparr>TPARAM_r := 1\<rparr>\<rparr>)
          (plane0\<lparr>Flight_Plan := 3, Path_Mode := 3, s := 1\<rparr>) = None"
    by (rule generate_hangs) (simp_all add: plane0_def env0_def params0_def)
  show "TLAB_generate_2D_Path (env0\<lparr>g := params0\<lparr>TPARAM_r := 1\<rparr>\<rparr>)
          (plane0\<lparr>Flight_Plan := 2, Path_Mode := 6, s := 1\<rparr>) = None"
    by (rule generate_hangs) (simp_all add: plane0_def env0_def params0_def)
qed

text \<open>
  C10. After initialisation (latch set), on the Lissajous primitive 3 with
  \<^verbatim>\<open>TPARAM_dzeta = 0\<close> and an arc length \<open>s = 1\<close> ahead of \<open>s_calc = 0\<close>, the call of the
  path follower does not return: the control law output is never produced.
\<close>

theorem follower_hangs_after_init:
  "TLAB_2D_Trace_Controller env0 (plane0\<lparr>yet_init := True, Flight_Plan := 3, Path_Mode := 3, s := 1\<rparr>)
     = None"
  by (rule follower_hangs) (simp_all add: plane0_def env0_def params0_def)

subsection \<open>The straight segment\<close>

text \<open>The straight primitive, for any endpoints: the point at the fraction \<open>zeta\<close> of the
  segment, the heading of the segment, no curvature.\<close>

lemma straight_primitive:
  assumes "Path_Mode st = 0"
  shows "\<exists>st'. path_primitive e zp st = Some st'
           \<and> zeta st' = s st / dist_WPs st
           \<and> x_d st' = (1 - zeta st') * fst (P0 st) + zeta st' * fst (P1 st)
           \<and> y_d st' = (1 - zeta st') * snd (P0 st) + zeta st' * snd (P1 st)
           \<and> chi_d st' = - segment_bearing (P0 st) (P1 st)
           \<and> dot_chi_d st' = 0 \<and> kappa st' = 0"
  using assms by (simp add: path_primitive_def Let_def segment_bearing_def)

text \<open>In flight plan 0, without a change of waypoint and with no switch pending, the
  generator keeps the endpoints and evaluates the straight primitive.\<close>

lemma generate_straight:
  assumes "Flight_Plan st = 0" and "\<not> change_path_flag st" and "TLAB_CMD_index st = i_now_CMD st"
  shows "TLAB_generate_2D_Path e st = path_primitive e (zeta st) (st\<lparr>Path_Mode := 0\<rparr>)"
proof -
  have "st\<lparr>i_now_CMD := i_now_CMD st\<rparr> = st" by simp
  then show ?thesis
    using assms
    by (simp add: TLAB_generate_2D_Path_def flight_plan_step_def flight_plan_0_def
          straight_approach_def Let_def)
qed

text \<open>
  C3. For the straight primitive (\<open>Path_Mode\<close> 0, reached through flight plan 0) with
  \<open>P0 = (0, 0)\<close>, \<open>P1 = (100, 0)\<close> and \<open>dist_WPs = 100\<close>: \<open>zeta\<close> is \<open>s / 100\<close>, the
  desired heading \<open>chi_d\<close> is the direction of the segment from \<open>P0\<close> to \<open>P1\<close> (which is
  0) and the curvature is 0, for every arc length; at \<open>s = 50\<close> the desired position is
  \<open>(50, 0)\<close>.
\<close>

theorem straight_segment_example:
  "(\<exists>st'. TLAB_generate_2D_Path e
             (st\<lparr>Flight_Plan := 0, change_path_flag := False, TLAB_CMD_index := i_now_CMD st,
                 P0 := (0, 0), P1 := (100, 0), dist_WPs := 100, s := sv\<rparr>) = Some st'
          \<and> zeta st' = sv / 100
          \<and> chi_d st' = segment_bearing (0, 0) (100, 0)
          \<and> chi_d st' = 0
          \<and> kappa st' = 0)
 \<and> (\<exists>st'. TLAB_generate_2D_Path e
             (st\<lparr>Flight_Plan := 0, change_path_flag := False, TLAB_CMD_index := i_now_CMD st,
                 P0 := (0, 0), P1 := (100, 0), dist_WPs := 100, s := 50\<rparr>) = Some st'
          \<and> zeta st' = 1 / 2 \<and> x_d st' = 50 \<and> y_d st' = 0)"
proof -
  have gen: "TLAB_generate_2D_Path e
               (st\<lparr>Flight_Plan := 0, change_path_flag := False, TLAB_CMD_index := i_now_CMD st,
                   P0 := (0, 0), P1 := (100, 0), dist_WPs := 100, s := a\<rparr>)
             = path_primitive e (zeta st)
                 (st\<lparr>Flight_Plan := 0, change_path_flag := False, TLAB_CMD_index := i_now_CMD st,
                     P0 := (0, 0), P1 := (100, 0), dist_WPs := 100, s := a, Path_Mode := 0\<rparr>)" for a
    by (subst generate_straight) simp_all
  show ?thesis
    unfolding gen
    by (simp add: path_primitive_def Let_def segment_bearing_def atan2f_def)
qed

subsection \<open>The supervisor\<close>

lemma circle_notifications_append:
  "circle_notifications (st\<lparr>gcs_messages := gcs_messages st @ [''change to line trace mode'']\<rparr>)
     = circle_notifications st"
  "circle_notifications (st\<lparr>gcs_messages := gcs_messages st @ [''change to circle trace mode'']\<rparr>)
     = circle_notifications st + 1"
  by (simp_all add: circle_notifications_def)

lemma circle_notifications_cong:
  "gcs_messages st' = gcs_messages st \<Longrightarrow> circle_notifications st' = circle_notifications st"
  by (simp add: circle_notifications_def)

text \<open>The supervisor never raises the trigger itself, and without the trigger it sends no
  circle notification and does not leave line mode.\<close>

lemma combine_without_trigger:
  assumes "\<not> change_to_circle_flag st"
  shows "\<not> change_to_circle_flag (snd (TLAB_Combine_Controller e st))"
    and "circle_notifications (snd (TLAB_Combine_Controller e st)) = circle_notifications st"
    and "TLAB_Control_flag st = 0 \<Longrightarrow> TLAB_Control_flag (snd (TLAB_Combine_Controller e st)) = 0"
  using assms
  by (simp_all add: TLAB_Combine_Controller_def Let_def frame circle_notifications_def)

lemma run_without_trigger:
  "\<not> change_to_circle_flag st \<Longrightarrow>
     circle_notifications (supervisor_run es st) = circle_notifications st"
proof (induction es arbitrary: st)
  case Nil
  then show ?case by simp
next
  case (Cons e es)
  have "circle_notifications (supervisor_run es (snd (TLAB_Combine_Controller e st)))
        = circle_notifications (snd (TLAB_Combine_Controller e st))"
    by (rule Cons.IH) (rule combine_without_trigger(1) [OF Cons.prems])
  then show ?case by (simp add: combine_without_trigger(2) [OF Cons.prems])
qed

lemma entries_without_trigger:
  "\<not> change_to_circle_flag st \<Longrightarrow> circle_entries es st = 0"
proof (induction es arbitrary: st)
  case Nil
  then show ?case by simp
next
  case (Cons e es)
  have "circle_entries es (snd (TLAB_Combine_Controller e st)) = 0"
    by (rule Cons.IH) (rule combine_without_trigger(1) [OF Cons.prems])
  then show ?case using combine_without_trigger(3) [OF Cons.prems, of e] by simp
qed

text \<open>Line mode is left only on the trigger, with waypoint navigation active.\<close>

lemma line_left_only_on_trigger:
  assumes "TLAB_Control_flag st = 0" and "TLAB_Control_flag (snd (TLAB_Combine_Controller e st)) \<noteq> 0"
  shows "change_to_circle_flag st \<and> TLAB_WP_nav_flag st"
  using assms
  by (auto simp add: TLAB_Combine_Controller_def Let_def frame split: if_splits)

text \<open>
  C7, as stated, fails when waypoint navigation is not active: in line mode with the
  trigger set but \<open>TLAB_WP_nav_flag\<close> clear, a cycle of the supervisor stays in line mode
  and sends nothing.
\<close>

theorem trigger_ignored_without_nav:
  "TLAB_Control_flag (plane0\<lparr>change_to_circle_flag := True\<rparr>) = 0
   \<and> change_to_circle_flag (plane0\<lparr>change_to_circle_flag := True\<rparr>)
   \<and> TLAB_Control_flag (snd (TLAB_Combine_Controller env0 (plane0\<lparr>change_to_circle_flag := True\<rparr>))) = 0
   \<and> gcs_messages (snd (TLAB_Combine_Controller env0 (plane0\<lparr>change_to_circle_flag := True\<rparr>))) = []"
  by (simp add: TLAB_Combine_Controller_def frame plane0_def)

text \<open>
  C7, amended. Starting in line mode with waypoint navigation active
  (\<open>TLAB_WP_nav_flag\<close>), a cycle in which the trigger \<open>change_to_circle_flag\<close> holds moves the
  supervisor to circle mode (1 or 2), sends exactly one "change to circle trace mode"
  and clears the trigger; over that cycle and any further cycles, whatever their inputs,
  the supervisor enters circle mode exactly once and sends that notification exactly once.
\<close>

theorem line_to_circle_once:
  assumes "TLAB_WP_nav_flag st" and "TLAB_Control_flag st = 0" and "change_to_circle_flag st"
  shows "(TLAB_Control_flag (snd (TLAB_Combine_Controller e st)) = 1
          \<or> TLAB_Control_flag (snd (TLAB_Combine_Controller e st)) = 2)
       \<and> gcs_messages (snd (TLAB_Combine_Controller e st))
           = gcs_messages st @ [''change to circle trace mode'']
       \<and> \<not> change_to_circle_flag (snd (TLAB_Combine_Controller e st))
       \<and> circle_entries (e # es) st = 1
       \<and> circle_notifications (supervisor_run (e # es) st) = circle_notifications st + 1"
proof -
  define st1 where "st1 = snd (TLAB_Combine_Controller e st)"
  have m: "TLAB_Control_flag st1 = 1 \<or> TLAB_Control_flag st1 = 2"
    using assms unfolding st1_def
    by (simp add: TLAB_Combine_Controller_def Let_def frame) presburger
  have n: "gcs_messages st1 = gcs_messages st @ [''change to circle trace mode'']"
    using assms unfolding st1_def
    by (simp add: TLAB_Combine_Controller_def Let_def frame)
  have c: "\<not> change_to_circle_flag st1"
    using assms unfolding st1_def
    by (simp add: TLAB_Combine_Controller_def Let_def frame)
  have "circle_entries es st1 = 0"
    using c by (rule entries_without_trigger)
  then have en: "circle_entries (e # es) st = 1"
    using m assms(2) by (auto simp add: st1_def)
  have "circle_notifications (supervisor_run es st1) = circle_notifications st1"
    using c by (rule run_without_trigger)
  also have "\<dots> = circle_notifications st + 1"
    by (simp add: circle_notifications_def n)
  finally have "circle_notifications (supervisor_run (e # es) st) = circle_notifications st + 1"
    by (simp add: st1_def)
  then show ?thesis using m n c en unfolding st1_def by blast
qed

theorem line_to_circle_once_witness:
  "TLAB_WP_nav_flag (plane0\<lparr>TLAB_WP_nav_flag := True, change_to_circle_flag := True\<rparr>)
   \<and> TLAB_Control_flag (plane0\<lparr>TLAB_WP_nav_flag := True, change_to_circle_flag := True\<rparr>) = 0
   \<and> change_to_circle_flag (plane0\<lparr>TLAB_WP_nav_flag := True, change_to_circle_flag := True\<rparr>)
   \<and> gcs_messages (snd (TLAB_Combine_Controller env0
        (plane0\<lparr>TLAB_WP_nav_flag := True, change_to_circle_flag := True\<rparr>)))
       = [''change to circle trace mode'']
   \<and> circle_entries [env0, env0, env0]
        (plane0\<lparr>TLAB_WP_nav_flag := True, change_to_circle_flag := True\<rparr>) = 1
   \<and> circle_notifications (supervisor_run [env0, env0, env0]
        (plane0\<lparr>TLAB_WP_nav_flag := True, change_to_circle_flag := True\<rparr>)) = 1"
proof -
  define st where "st = plane0\<lparr>TLAB_WP_nav_flag := True, change_to_circle_flag := True\<rparr>"
  have h1: "TLAB_WP_nav_flag st" and h2: "TLAB_Control_flag st = 0" and h3: "change_to_circle_flag st"
    by (simp_all add: st_def plane0_def)
  have v: "gcs_messages st = []" "circle_notifications st = 0"
    by (simp_all add: st_def plane0_def circle_notifications_def)
  show ?thesis
    using h1 h2 h3 line_to_circle_once [OF h1 h2 h3, of env0 "[env0, env0]"]
    unfolding st_def [symmetric] by (simp add: v)
qed

text \<open>
  C6, as stated, fails when waypoint navigation is not active: in circle mode with
  \<open>TLAB_WP_nav_flag\<close> clear, a cycle of the supervisor goes to line mode although the
  accumulated angle 3 does not exceed \<open>2 * pi * orbit_num\<close> with \<open>orbit_num = 1\<close>, the
  integrator keeps its value and nothing is sent.
\<close>

theorem forced_line_without_nav:
  "TLAB_Control_flag (plane0\<lparr>TLAB_Control_flag := 1, Int_theta := 3, orbit_num := 1\<rparr>) \<noteq> 0
   \<and> \<not> (\<bar>Int_theta (plane0\<lparr>TLAB_Control_flag := 1, Int_theta := 3, orbit_num := 1\<rparr>)\<bar>
          > 2 * pi * orbit_num (plane0\<lparr>TLAB_Control_flag := 1, Int_theta := 3, orbit_num := 1\<rparr>))
   \<and> TLAB_Control_flag (snd (TLAB_Combine_Controller env0
        (plane0\<lparr>TLAB_Control_flag := 1, Int_theta := 3, orbit_num := 1\<rparr>))) = 0
   \<and> Int_theta (snd (TLAB_Combine_Controller env0
        (plane0\<lparr>TLAB_Control_flag := 1, Int_theta := 3, orbit_num := 1\<rparr>))) = 3
   \<and> gcs_messages (snd (TLAB_Combine_Controller env0
        (plane0\<lparr>TLAB_Control_flag := 1, Int_theta := 3, orbit_num := 1\<rparr>))) = []"
proof -
  have "3 < 2 * pi" using pi_ge_two by simp
  then show ?thesis
    by (simp add: TLAB_Combine_Controller_def frame plane0_def)
qed

text \<open>
  C6, amended. In circle mode, while waypoint navigation is active, the supervisor goes
  to line mode exactly when \<open>|Int_theta| > 2 * pi * orbit_num\<close> and \<open>state_UAV_x > 0\<close> and
  \<open>|state_UAV_y| < change_y\<close> (the position being the one computed in this cycle); on that
  transition \<open>Int_theta\<close> is reset to 0 and one "change to line trace mode" is sent, and
  otherwise the mode and the notifications are unchanged. While waypoint navigation is
  not active the supervisor sets line mode without notification or reset.
\<close>

theorem circle_to_line_transition:
  assumes "TLAB_Control_flag st \<noteq> 0"
  shows "(if TLAB_WP_nav_flag st then
            (TLAB_Control_flag (snd (TLAB_Combine_Controller e st)) = 0) =
               (\<bar>Int_theta st\<bar> > 2 * pi * orbit_num st
                \<and> state_UAV_x (line_geometry e st) > 0
                \<and> \<bar>state_UAV_y (line_geometry e st)\<bar> < change_y st)
          \<and> (if \<bar>Int_theta st\<bar> > 2 * pi * orbit_num st
                \<and> state_UAV_x (line_geometry e st) > 0
                \<and> \<bar>state_UAV_y (line_geometry e st)\<bar> < change_y st
              then Int_theta (snd (TLAB_Combine_Controller e st)) = 0
                 \<and> gcs_messages (snd (TLAB_Combine_Controller e st))
                     = gcs_messages st @ [''change to line trace mode'']
              else TLAB_Control_flag (snd (TLAB_Combine_Controller e st)) = TLAB_Control_flag st
                 \<and> gcs_messages (snd (TLAB_Combine_Controller e st)) = gcs_messages st)
          else TLAB_Control_flag (snd (TLAB_Combine_Controller e st)) = 0
             \<and> Int_theta (snd (TLAB_Combine_Controller e st)) = Int_theta st
             \<and> gcs_messages (snd (TLAB_Combine_Controller e st)) = gcs_messages st)"
proof -
  define st2 where "st2 = snd (TLAB_Line_Trace_Controller e (st\<lparr>Target_Circle_Center := prev_WP_loc e\<rparr>))"
  have pos: "state_UAV_x st2 = state_UAV_x (line_geometry e st)"
            "state_UAV_y st2 = state_UAV_y (line_geometry e st)"
    by (simp_all add: st2_def TLAB_Line_Trace_Controller_position line_geometry_position)
  have cond: "circle_exit_condition st2 \<longleftrightarrow>
               \<bar>Int_theta st\<bar> > 2 * pi * orbit_num st
             \<and> state_UAV_x (line_geometry e st) > 0
             \<and> \<bar>state_UAV_y (line_geometry e st)\<bar> < change_y st"
    unfolding circle_exit_condition_def pos by (simp add: st2_def frame)
  have keep: "TLAB_Control_flag st2 = TLAB_Control_flag st" "gcs_messages st2 = gcs_messages st"
    by (simp_all add: st2_def frame)
  show ?thesis
    using assms
    unfolding TLAB_Combine_Controller_def Let_def st2_def [symmetric] cond [symmetric]
    by (simp add: frame keep)
qed

theorem circle_to_line_transition_witness:
  "TLAB_Control_flag (plane0\<lparr>TLAB_WP_nav_flag := True, TLAB_Control_flag := 1, Int_theta := 9,
                           orbit_num := 1, change_y := 1\<rparr>) \<noteq> 0
   \<and> TLAB_Control_flag (snd (TLAB_Combine_Controller (env0\<lparr>get_distance := (\<lambda>a b. 1)\<rparr>)
        (plane0\<lparr>TLAB_WP_nav_flag := True, TLAB_Control_flag := 1, Int_theta := 9,
                orbit_num := 1, change_y := 1\<rparr>))) = 0
   \<and> Int_theta (snd (TLAB_Combine_Controller (env0\<lparr>get_distance := (\<lambda>a b. 1)\<rparr>)
        (plane0\<lparr>TLAB_WP_nav_flag := True, TLAB_Control_flag := 1, Int_theta := 9,
                orbit_num := 1, change_y := 1\<rparr>))) = 0
   \<and> gcs_messages (snd (TLAB_Combine_Controller (env0\<lparr>get_distance := (\<lambda>a b. 1)\<rparr>)
        (plane0\<lparr>TLAB_WP_nav_flag := True, TLAB_Control_flag := 1, Int_theta := 9,
                orbit_num := 1, change_y := 1\<rparr>))) = [''change to line trace mode'']"
proof -
  define st where "st = plane0\<lparr>TLAB_WP_nav_flag := True, TLAB_Control_flag := 1, Int_theta := 9,
                             orbit_num := 1, change_y := 1\<rparr>"
  define e where "e = env0\<lparr>get_distance := (\<lambda>a b. 1)\<rparr>"
  have h: "TLAB_Control_flag st \<noteq> 0" by (simp add: st_def)
  have nav: "TLAB_WP_nav_flag st" by (simp add: st_def)
  have "2 * pi < 9" using pi_less_4 by simp
  then have c: "\<bar>Int_theta st\<bar> > 2 * pi * orbit_num st
              \<and> state_UAV_x (line_geometry e st) > 0
              \<and> \<bar>state_UAV_y (line_geometry e st)\<bar> < change_y st"
    by (simp add: st_def e_def line_geometry_position env0_def)
  have m: "gcs_messages st = []" by (simp add: st_def plane0_def)
  show ?thesis
    using h circle_to_line_transition [OF h, of e]
    unfolding st_def [symmetric] e_def [symmetric] by (simp add: nav c m)
qed

end
